theory Spec2Isabelle
  imports Main "HOL-Library.AList" "HOL-Library.Sublist"
begin

section \<open>Values, objects and the process environment\<close>

text \<open>
  The repository holds two variants of the same terminal client: \<^verbatim>\<open>roo-cli.ts\<close> and
  \<^verbatim>\<open>run-full-cli.js\<close>. Definitions taken from the first carry the suffix \<open>_ts\<close>, those
  taken from the second the suffix \<open>_js\<close>; definitions without a suffix are shared text
  of both files.

  A configuration is a JavaScript object that is read from and written to a JSON file.
  It is modelled as an association list in insertion order, the order in which
  \<^verbatim>\<open>Object.entries\<close> walks it. Its values are JSON scalars. A number is \<open>JNum n\<close> when it
  is a whole number written in plain decimal digits, and \<open>JNumOther lit\<close> otherwise: the
  number that the text \<open>lit\<close> converts to. Of such a number the model knows whether it is
  \<^verbatim>\<open>NaN\<close>, zero, finite or infinite, and no more; it is printed as \<open>lit\<close> when it is
  finite and not zero. Characters are 8-bit.
\<close>

datatype jval = JStr string | JNum int | JNumOther string | JBool bool | JNull

type_synonym jobject = "(string \<times> jval) list"

type_synonym env = "string \<Rightarrow> string option"

text \<open>\<^verbatim>\<open>{ ...base, ...over }\<close> and a run of assignments \<^verbatim>\<open>obj.k = v\<close>: a key that is present
  keeps its place and takes the new value, a new key goes to the end. (A key that spells
  an array index would be enumerated ahead of the others; the configuration has no such
  key unless the file brings one, and then only the order of the display differs.)\<close>

definition spread :: "jobject \<Rightarrow> jobject \<Rightarrow> jobject" where
  "spread base over = fold (\<lambda>(k, v). AList.update k v) over base"

text \<open>The value \<^verbatim>\<open>JSON.parse\<close> gives a member name of a document: the last member of that
  name wins.\<close>

definition member_of :: "jobject \<Rightarrow> string \<Rightarrow> jval option" where
  "member_of d k = map_of (rev d) k"

text \<open>\<^verbatim>\<open>process.env.X\<close> as a condition, and \<^verbatim>\<open>process.env.X || ''\<close>.\<close>

definition env_set :: "env \<Rightarrow> string \<Rightarrow> bool" where
  "env_set e x = (case e x of Some v \<Rightarrow> v \<noteq> [] | None \<Rightarrow> False)"

definition env_val :: "env \<Rightarrow> string \<Rightarrow> string" where
  "env_val e x = (case e x of Some v \<Rightarrow> v | None \<Rightarrow> [])"

text \<open>White space of \<^verbatim>\<open>String.prototype.trim\<close> and of the class \<^verbatim>\<open>\s\<close>, as far as it lies
  in the 8-bit range: tab, line feed, vertical tab, form feed, carriage return, space and
  the no-break space.\<close>

definition is_space :: "char \<Rightarrow> bool" where
  "is_space c = (c \<in> set [CHR 0x09, CHR 0x0A, CHR 0x0B, CHR 0x0C, CHR 0x0D, CHR 0x20, CHR 0xA0])"

definition trim :: "string \<Rightarrow> string" where
  "trim s = rev (dropWhile is_space (rev (dropWhile is_space s)))"

subsection \<open>Numbers and truth\<close>

definition is_digit :: "char \<Rightarrow> bool" where
  "is_digit c = (let n = (of_char c :: nat) in 48 \<le> n \<and> n \<le> 57)"

definition decimal :: "string \<Rightarrow> nat" where
  "decimal ds = foldl (\<lambda>a c. 10 * a + (of_char c - 48)) 0 ds"

definition is_hex_digit :: "char \<Rightarrow> bool" where
  "is_hex_digit c =
     (let n = (of_char c :: nat)
      in (48 \<le> n \<and> n \<le> 57) \<or> (65 \<le> n \<and> n \<le> 70) \<or> (97 \<le> n \<and> n \<le> 102))"

definition hex_value :: "char \<Rightarrow> nat" where
  "hex_value c =
     (let n = (of_char c :: nat)
      in if n \<le> 57 then n - 48 else if n \<le> 70 then n - 55 else n - 87)"

definition hexadecimal :: "string \<Rightarrow> nat" where
  "hexadecimal hs = foldl (\<lambda>a c. 16 * a + hex_value c) 0 hs"

text \<open>
  The kind of number a text converts to, by the grammar of numeric strings: white space
  around, then nothing (zero), or a binary, octal or hexadecimal integer, or an optional
  sign and either \<^verbatim>\<open>Infinity\<close> or decimal digits with an optional fraction and an optional
  exponent; any other text is \<^verbatim>\<open>NaN\<close>. The number \<open>m \<times> 10\<^sup>e\<close> becomes the nearest
  double: zero up to \<open>2\<^sup>-\<^sup>1\<^sup>0\<^sup>7\<^sup>5\<close>, infinite from \<open>2\<^sup>1\<^sup>0\<^sup>2\<^sup>4 - 2\<^sup>9\<^sup>7\<^sup>0\<close> on.
\<close>

datatype num_kind = NotANumber | Zero | Finite | Infinite

definition magnitude_kind :: "int \<Rightarrow> int \<Rightarrow> num_kind" where
  "magnitude_kind m e =
     (if m = 0 then Zero
      else if 0 \<le> e then (if 2 ^ 1024 - 2 ^ 970 \<le> m * 10 ^ nat e then Infinite else Finite)
      else if m * 2 ^ 1075 \<le> 10 ^ nat (- e) then Zero
      else if (2 ^ 1024 - 2 ^ 970) * 10 ^ nat (- e) \<le> m then Infinite
      else Finite)"

definition radix_kind :: "int \<Rightarrow> string \<Rightarrow> num_kind" where
  "radix_kind b ds =
     (if ds \<noteq> [] \<and> list_all (\<lambda>c. is_hex_digit c \<and> int (hex_value c) < b) ds
      then magnitude_kind (foldl (\<lambda>a c. b * a + int (hex_value c)) 0 ds) 0
      else NotANumber)"

definition decimal_int :: "string \<Rightarrow> int" where
  "decimal_int ds = foldl (\<lambda>a c. 10 * a + (of_char c - 48)) 0 ds"

definition unsigned_decimal_kind :: "string \<Rightarrow> num_kind" where
  "unsigned_decimal_kind t =
     (if t = ''Infinity'' then Infinite
      else
        (let m = takeWhile (\<lambda>c. c \<noteq> CHR ''e'' \<and> c \<noteq> CHR ''E'') t;
             x = drop (length m) t;
             ip = takeWhile is_digit m;
             fp = drop (length ip) m;
             fd = drop 1 fp;
             xs = drop 1 x;
             xd = (case xs of c # r \<Rightarrow> if c = CHR ''+'' \<or> c = CHR ''-'' then r else xs | [] \<Rightarrow> []);
             ex = (if prefix ''-'' xs then - decimal_int xd else decimal_int xd)
         in if (fp = [] \<or> (prefix ''.'' fp \<and> list_all is_digit fd)) \<and> (ip \<noteq> [] \<or> fd \<noteq> []) \<and>
               (x = [] \<or> (xd \<noteq> [] \<and> list_all is_digit xd))
            then magnitude_kind (decimal_int (ip @ fd)) (ex - int (length fd))
            else NotANumber))"

definition number_kind :: "string \<Rightarrow> num_kind" where
  "number_kind lit =
     (let t = trim lit
      in if t = [] then Zero
         else if prefix ''0x'' t \<or> prefix ''0X'' t then radix_kind 16 (drop 2 t)
         else if prefix ''0o'' t \<or> prefix ''0O'' t then radix_kind 8 (drop 2 t)
         else if prefix ''0b'' t \<or> prefix ''0B'' t then radix_kind 2 (drop 2 t)
         else if prefix ''+'' t \<or> prefix ''-'' t then unsigned_decimal_kind (drop 1 t)
         else unsigned_decimal_kind t)"

text \<open>JavaScript truthiness: of the numbers, zero and \<^verbatim>\<open>NaN\<close> are false.\<close>

fun truthy :: "jval \<Rightarrow> bool" where
  "truthy (JStr s) = (s \<noteq> [])"
| "truthy (JNum n) = (n \<noteq> 0)"
| "truthy (JNumOther lit) = (number_kind lit = Finite \<or> number_kind lit = Infinite)"
| "truthy (JBool b) = b"
| "truthy JNull = False"

definition field_truthy :: "jobject \<Rightarrow> string \<Rightarrow> bool" where
  "field_truthy c k = (case map_of c k of Some v \<Rightarrow> truthy v | None \<Rightarrow> False)"

text \<open>The names every object inherits from \<^verbatim>\<open>Object.prototype\<close>; the operator \<^verbatim>\<open>in\<close> finds
  them in any configuration.\<close>

definition object_prototype_names :: "string list" where
  "object_prototype_names =
     [''constructor'', ''__defineGetter__'', ''__defineSetter__'', ''hasOwnProperty'',
      ''__lookupGetter__'', ''__lookupSetter__'', ''isPrototypeOf'', ''propertyIsEnumerable'',
      ''toString'', ''valueOf'', ''__proto__'', ''toLocaleString'']"

section \<open>Session state\<close>

text \<open>
  The session holds the configuration in force, the chat history, the configuration
  file, what has been printed, and the number of lines read so far at prompts other than
  the main prompt. What the terminal shows is a list of printed items; colour is left out. \<open>Shown p v q\<close>
  is a line made of the text \<open>p\<close>, the value \<open>v\<close> as a template literal renders it, and the
  text \<open>q\<close>.
  The configuration file either is absent, or holds text that \<^verbatim>\<open>JSON.parse\<close> rejects (with
  the text of the error raised), or holds a JSON object (its members in textual order).
  A document written by \<^verbatim>\<open>JSON.stringify\<close> is read back as it was written; the one
  exception, a number that is not finite and is written as \<^verbatim>\<open>null\<close>, can only come from
  \<^verbatim>\<open>/config temperature=\<close> or \<^verbatim>\<open>/config maxTokens=\<close> with a text that is no numeral, and
  is kept as the number.
\<close>

datatype out = Line string | Shown string jval string | ClearScreen

datatype config_file = Unparsable string | Document jobject

datatype role = User | Assistant

type_synonym message = "role \<times> string"

record session =
  config :: jobject
  chatHistory :: "message list"
  disk :: "config_file option"
  printed :: "out list"
  prompts :: nat

definition say :: "string \<Rightarrow> 'a session_scheme \<Rightarrow> 'a session_scheme" where
  "say l s = s\<lparr>printed := printed s @ [Line l]\<rparr>"

definition set_field :: "string \<Rightarrow> jval \<Rightarrow> 'a session_scheme \<Rightarrow> 'a session_scheme" where
  "set_field k v s = s\<lparr>config := AList.update k v (config s)\<rparr>"

definition saveConfig :: "'a session_scheme \<Rightarrow> 'a session_scheme" where
  "saveConfig s = s\<lparr>disk := Some (Document (config s))\<rparr>"

section \<open>Configuration resolver of roo-cli.ts\<close>

text \<open>\<^verbatim>\<open>DEFAULT_CONFIG\<close> is computed once, when the module is loaded, from the environment
  and the working directory.\<close>

definition DEFAULT_CONFIG_ts :: "env \<Rightarrow> string \<Rightarrow> jobject" where
  "DEFAULT_CONFIG_ts e cwd =
     [(''apiProvider'', JStr ''anthropic''),
      (''apiKey'', JStr (env_val e ''ANTHROPIC_API_KEY'')),
      (''model'', JStr ''claude-3-7-sonnet-20240229''),
      (''temperature'', JNumOther ''0.3''),
      (''maxTokens'', JNum 4096),
      (''mode'', JStr ''assistant''),
      (''workspacePath'', JStr cwd),
      (''isVisionEnabled'', JBool False),
      (''checkMcpOnStart'', JBool False)]"

text \<open>The branch of \<^verbatim>\<open>initializeConfig\<close> taken when no configuration file exists.\<close>

definition first_run_ts :: "env \<Rightarrow> jobject \<Rightarrow> jobject" where
  "first_run_ts e envConfig =
     (if env_set e ''ANTHROPIC_API_KEY'' then
        spread envConfig [(''apiKey'', JStr (env_val e ''ANTHROPIC_API_KEY'')),
                          (''apiProvider'', JStr ''anthropic'')]
      else if env_set e ''OPENAI_API_KEY'' then
        spread envConfig [(''apiKey'', JStr (env_val e ''OPENAI_API_KEY'')),
                          (''apiProvider'', JStr ''openai''),
                          (''model'', JStr ''gpt-4o'')]
      else if env_set e ''OPENROUTER_API_KEY'' then
        spread envConfig [(''apiKey'', JStr (env_val e ''OPENROUTER_API_KEY'')),
                          (''apiProvider'', JStr ''openrouter''),
                          (''model'', JStr ''anthropic/claude-3-7-sonnet'')]
      else if env_set e ''MISTRAL_API_KEY'' then
        spread envConfig [(''apiKey'', JStr (env_val e ''MISTRAL_API_KEY'')),
                          (''apiProvider'', JStr ''mistral''),
                          (''model'', JStr ''mistral-large-latest'')]
      else if env_set e ''GROQ_API_KEY'' then
        spread envConfig [(''apiKey'', JStr (env_val e ''GROQ_API_KEY'')),
                          (''apiProvider'', JStr ''groq''),
                          (''model'', JStr ''llama3-70b-8192'')]
      else envConfig)"

text \<open>The model each branch of that chain leaves in the configuration; the first branch
  keeps the model of \<^verbatim>\<open>DEFAULT_CONFIG\<close>.\<close>

definition first_run_models_ts :: "(string \<times> string) list" where
  "first_run_models_ts =
     [(''anthropic'', ''claude-3-7-sonnet-20240229''), (''openai'', ''gpt-4o''),
      (''openrouter'', ''anthropic/claude-3-7-sonnet''), (''mistral'', ''mistral-large-latest''),
      (''groq'', ''llama3-70b-8192'')]"

text \<open>\<^verbatim>\<open>migrateModelNames\<close>: four tests in sequence on the configuration as it then is, the
  flag \<^verbatim>\<open>configChanged\<close> carried along.\<close>

definition model_is :: "'a session_scheme \<Rightarrow> string \<Rightarrow> bool" where
  "model_is s m = (map_of (config s) ''model'' = Some (JStr m))"

definition provider_is :: "'a session_scheme \<Rightarrow> string \<Rightarrow> bool" where
  "provider_is s p = (map_of (config s) ''apiProvider'' = Some (JStr p))"

definition migrate_groq_ts :: "env \<Rightarrow> 'a session_scheme \<times> bool \<Rightarrow> 'a session_scheme \<times> bool" where
  "migrate_groq_ts e = (\<lambda>(s0, ch0).
     let (s1, ch1) =
           (if model_is s0 ''llama-3-70b-8192''
            then (set_field ''model'' (JStr ''llama3-70b-8192'')
                    (say ''Migrating legacy model name to new format...'' s0), True)
            else (s0, ch0));
         (s2, ch2) =
           (if model_is s1 ''llama-3-3-70b-versatile'' \<or> model_is s1 ''llama-3.3-70b-versatile''
            then (set_field ''model'' (JStr ''llama3-3-70b-versatile'')
                    (say ''Updating to proper Llama 3.3 model name format...'' s1), True)
            else (s1, ch1))
     in if model_is s2 ''llama3-70b-8192'' \<and> \<not> env_set e ''DISABLE_AUTO_UPGRADE''
        then (set_field ''model'' (JStr ''llama3-3-70b-versatile'')
                (say ''Upgrading to Llama 3.3 70B Versatile for better capabilities...'' s2), True)
        else (s2, ch2))"

definition migrate_anthropic_ts :: "env \<Rightarrow> 'a session_scheme \<times> bool \<Rightarrow> 'a session_scheme \<times> bool" where
  "migrate_anthropic_ts e = (\<lambda>(s, ch).
     if model_is s ''claude-3-sonnet-20240229'' \<and> \<not> env_set e ''DISABLE_AUTO_UPGRADE''
     then (set_field ''model'' (JStr ''claude-3-7-sonnet-20240229'')
             (say ''Upgrading to Claude 3.7 Sonnet for better capabilities...'' s), True)
     else (s, ch))"

definition migrateModelNames :: "env \<Rightarrow> 'a session_scheme \<Rightarrow> 'a session_scheme" where
  "migrateModelNames e s0 =
     (let (s1, ch1) = (if provider_is s0 ''groq'' then migrate_groq_ts e (s0, False) else (s0, False));
          (s2, ch2) = (if provider_is s1 ''anthropic'' then migrate_anthropic_ts e (s1, ch1) else (s1, ch1))
      in if ch2
         then (let s3 = saveConfig s2
               in s3\<lparr>printed := printed s3 @
                        [Shown ''Model upgraded to: '' (case map_of (config s3) ''model'' of
                                                         Some v \<Rightarrow> v | None \<Rightarrow> JNull) '''']\<rparr>)
         else s2)"

text \<open>The override of the stored key by the environment, an \<^verbatim>\<open>if\<close>/\<^verbatim>\<open>else if\<close> chain.\<close>

definition env_override_ts :: "env \<Rightarrow> 'a session_scheme \<Rightarrow> 'a session_scheme" where
  "env_override_ts e s =
     (if env_set e ''ANTHROPIC_API_KEY'' \<and> provider_is s ''anthropic''
        then set_field ''apiKey'' (JStr (env_val e ''ANTHROPIC_API_KEY'')) s
      else if env_set e ''OPENAI_API_KEY'' \<and> provider_is s ''openai''
        then set_field ''apiKey'' (JStr (env_val e ''OPENAI_API_KEY'')) s
      else if env_set e ''OPENROUTER_API_KEY'' \<and> provider_is s ''openrouter''
        then set_field ''apiKey'' (JStr (env_val e ''OPENROUTER_API_KEY'')) s
      else if env_set e ''MISTRAL_API_KEY'' \<and> provider_is s ''mistral''
        then set_field ''apiKey'' (JStr (env_val e ''MISTRAL_API_KEY'')) s
      else if env_set e ''GROQ_API_KEY'' \<and> provider_is s ''groq''
        then set_field ''apiKey'' (JStr (env_val e ''GROQ_API_KEY'')) s
      else s)"

text \<open>The provider and the variable of each test of that chain, in order, and the
  variable that belongs to the provider a configuration names.\<close>

definition key_vars_ts :: "(string \<times> string) list" where
  "key_vars_ts =
     [(''anthropic'', ''ANTHROPIC_API_KEY''), (''openai'', ''OPENAI_API_KEY''),
      (''openrouter'', ''OPENROUTER_API_KEY''), (''mistral'', ''MISTRAL_API_KEY''),
      (''groq'', ''GROQ_API_KEY'')]"

definition provider_var_ts :: "jobject \<Rightarrow> string option" where
  "provider_var_ts c =
     (case map_of c ''apiProvider'' of Some (JStr p) \<Rightarrow> map_of key_vars_ts p | _ \<Rightarrow> None)"

text \<open>\<^verbatim>\<open>initializeConfig\<close>. The global \<^verbatim>\<open>config\<close> is a field of the session. When the file
  cannot be parsed the assignment to \<^verbatim>\<open>config\<close> never happens, so \<^verbatim>\<open>config\<close> keeps the value
  it had: at start-up that is \<^verbatim>\<open>DEFAULT_CONFIG\<close>.\<close>

definition initializeConfig_ts :: "env \<Rightarrow> string \<Rightarrow> 'a session_scheme \<Rightarrow> 'a session_scheme" where
  "initializeConfig_ts e cwd s =
     (case disk s of
        None \<Rightarrow>
          (let envConfig = first_run_ts e (DEFAULT_CONFIG_ts e cwd)
           in s\<lparr>disk := Some (Document envConfig), config := envConfig\<rparr>)
      | Some (Document d) \<Rightarrow>
          env_override_ts e
            (migrateModelNames e (s\<lparr>config := spread (DEFAULT_CONFIG_ts e cwd) d\<rparr>))
      | Some (Unparsable err) \<Rightarrow>
          say ''Using default configuration'' (say (''Error reading config file: '' @ err) s))"

text \<open>The state in which the program starts: \<^verbatim>\<open>let config = DEFAULT_CONFIG\<close>, an empty
  history, nothing printed, and whatever the configuration file holds.\<close>

definition startup_ts :: "env \<Rightarrow> string \<Rightarrow> config_file option \<Rightarrow> session" where
  "startup_ts e cwd f =
     \<lparr>config = DEFAULT_CONFIG_ts e cwd, chatHistory = [], disk = f, printed = [], prompts = 0\<rparr>"

section \<open>Configuration resolver of run-full-cli.js\<close>

definition DEFAULT_CONFIG_js :: "env \<Rightarrow> string \<Rightarrow> jobject" where
  "DEFAULT_CONFIG_js e cwd =
     [(''apiProvider'', JStr ''groq''),
      (''apiKey'', JStr (env_val e ''GROQ_API_KEY'')),
      (''model'', JStr ''llama-3.3-70b-versatile''),
      (''temperature'', JNumOther ''0.3''),
      (''maxTokens'', JNum 4096),
      (''workspacePath'', JStr cwd),
      (''isVisionEnabled'', JBool False),
      (''mode'', JStr ''assistant''),
      (''mcpServerAddress'', JStr ''http://localhost:3000''),
      (''checkMcpOnStart'', JBool False)]"

text \<open>
  \<^verbatim>\<open>detectApiKeys\<close>: the object \<^verbatim>\<open>keys\<close> in the order of its literal, \<^verbatim>\<open>keys[p]\<close> for a
  provider name \<open>p\<close>, its truth, and the list \<^verbatim>\<open>available\<close> of the providers whose value
  is set and not blank. \<open>key_val_js\<close> is read only where the value is set. Names that
  \<^verbatim>\<open>keys\<close> inherits from \<^verbatim>\<open>Object.prototype\<close> are not keys of this table; theorems on
  \<^verbatim>\<open>keys[config.apiProvider]\<close> exclude them by hypothesis.
\<close>

definition key_vars_js :: "(string \<times> string) list" where
  "key_vars_js =
     [(''groq'', ''GROQ_API_KEY''), (''anthropic'', ''ANTHROPIC_API_KEY''),
      (''openai'', ''OPENAI_API_KEY''), (''mistral'', ''MISTRAL_API_KEY'')]"

definition keys_js :: "env \<Rightarrow> string \<Rightarrow> string option" where
  "keys_js e p = (case map_of key_vars_js p of Some x \<Rightarrow> e x | None \<Rightarrow> None)"

definition key_truthy_js :: "env \<Rightarrow> string \<Rightarrow> bool" where
  "key_truthy_js e p = (case keys_js e p of Some v \<Rightarrow> v \<noteq> [] | None \<Rightarrow> False)"

definition key_val_js :: "env \<Rightarrow> string \<Rightarrow> string" where
  "key_val_js e p = (case keys_js e p of Some v \<Rightarrow> v | None \<Rightarrow> [])"

definition available_js :: "env \<Rightarrow> string list" where
  "available_js e =
     filter (\<lambda>p. case keys_js e p of Some v \<Rightarrow> v \<noteq> [] \<and> trim v \<noteq> [] | None \<Rightarrow> False)
       (map fst key_vars_js)"

text \<open>The \<^verbatim>\<open>switch\<close> that sets the first-run model of a provider.\<close>

definition first_run_model_js :: "string \<Rightarrow> string option" where
  "first_run_model_js p =
     (if p = ''groq'' then Some ''llama-3.3-70b-versatile''
      else if p = ''anthropic'' then Some ''claude-3-7-sonnet-20240229''
      else if p = ''openai'' then Some ''gpt-4o''
      else if p = ''mistral'' then Some ''mistral-large-latest''
      else None)"

definition choose_js :: "env \<Rightarrow> string \<Rightarrow> string \<Rightarrow> jobject \<Rightarrow> jobject" where
  "choose_js e p m envConfig =
     spread envConfig [(''apiProvider'', JStr p), (''apiKey'', JStr (key_val_js e p)),
                       (''model'', JStr m)]"

text \<open>The branch of \<^verbatim>\<open>initializeConfig\<close> taken when no configuration file exists: what it
  prints and the configuration it writes and returns.\<close>

definition first_run_js :: "env \<Rightarrow> jobject \<Rightarrow> out list \<times> jobject" where
  "first_run_js e envConfig =
     (case available_js e of
        [] \<Rightarrow>
          ([Line ''No API keys found in environment variables. Using default provider.'',
            Line ''Add your API key to the .env file or use /config apiKey=your_key''],
           envConfig)
      | [provider] \<Rightarrow>
          ([Line (''Found API key for '' @ provider @ ''. Using it as default provider.'')],
           (let c = spread envConfig [(''apiProvider'', JStr provider),
                                      (''apiKey'', JStr (key_val_js e provider))]
            in case first_run_model_js provider of
                 Some m \<Rightarrow> AList.update ''model'' (JStr m) c
               | None \<Rightarrow> c))
      | _ \<Rightarrow>
          (let c = (if key_truthy_js e ''groq''
                      then choose_js e ''groq'' ''llama-3.3-70b-versatile'' envConfig
                    else if key_truthy_js e ''anthropic''
                      then choose_js e ''anthropic'' ''claude-3-7-sonnet-20240229'' envConfig
                    else if key_truthy_js e ''openai''
                      then choose_js e ''openai'' ''gpt-4o'' envConfig
                    else if key_truthy_js e ''mistral''
                      then choose_js e ''mistral'' ''mistral-large-latest'' envConfig
                    else envConfig)
           in ([Shown ''Multiple API keys found. Using ''
                  (case map_of c ''apiProvider'' of Some v \<Rightarrow> v | None \<Rightarrow> JNull) '' as default.'',
                Line ''You can switch providers with /config apiProvider=provider_name''],
               c)))"

text \<open>The repair of legacy model names: two tests in sequence, each saving at once.\<close>

definition migrate_js :: "'a session_scheme \<Rightarrow> 'a session_scheme" where
  "migrate_js s0 =
     (if provider_is s0 ''groq'' then
        (let s1 = (if model_is s0 ''llama-3-70b-8192''
                   then say ''Updated Groq model name format in config''
                          (saveConfig (set_field ''model'' (JStr ''llama3-70b-8192'') s0))
                   else s0)
         in if model_is s1 ''llama3-70b-8192''
            then say ''Upgraded to Llama 3.3 70B Versatile model with function calling''
                   (saveConfig (set_field ''model'' (JStr ''llama-3.3-70b-versatile'') s1))
            else s1)
      else s0)"

text \<open>
  The module-level state of run-full-cli.js has a cache of model names by provider value
  beside the history. When \<^verbatim>\<open>initializeConfig\<close> switches provider it leaves work behind:
  the call \<^verbatim>\<open>getAvailableModels(newProvider).then(...)\<close> registers a continuation that runs
  after \<^verbatim>\<open>initializeConfig\<close> has returned. The field \<open>pending\<close> holds the provider the
  continuation was registered for, until it has run.
\<close>

record js_session = session +
  cachedModels :: "(jval \<times> string list) list"
  pending :: "string option"

text \<open>
  \<^verbatim>\<open>keys[config.apiProvider]\<close>, and the choice between switching provider and taking the
  key of the configured one.
\<close>

definition provider_key_js :: "env \<Rightarrow> jobject \<Rightarrow> string option" where
  "provider_key_js e c =
     (case map_of c ''apiProvider'' of Some (JStr p) \<Rightarrow> keys_js e p | _ \<Rightarrow> None)"

definition resolve_key_js :: "env \<Rightarrow> js_session \<Rightarrow> js_session" where
  "resolve_key_js e s =
     (let k = (case provider_key_js e (config s) of Some v \<Rightarrow> v | None \<Rightarrow> [])
      in if k = [] \<and> available_js e \<noteq> [] then
           (case available_js e of
              newProvider # _ \<Rightarrow>
                (set_field ''apiKey'' (JStr (key_val_js e newProvider))
                  (set_field ''apiProvider'' (JStr newProvider)
                    (s\<lparr>printed := printed s @
                         [Shown ''No API key found for ''
                            (case map_of (config s) ''apiProvider'' of Some v \<Rightarrow> v | None \<Rightarrow> JNull)
                            '', but keys found for other providers.'']\<rparr>)))
                \<lparr>pending := Some newProvider\<rparr>
            | [] \<Rightarrow> s)
         else if k \<noteq> [] then set_field ''apiKey'' (JStr k) s
         else s)"

text \<open>\<^verbatim>\<open>initializeConfig\<close> up to its \<^verbatim>\<open>return\<close>; the configuration it returns is the field
  \<open>config\<close> of the result, the \<^verbatim>\<open>config\<close> of \<^verbatim>\<open>startChatSession\<close>.\<close>

definition initializeConfig_js :: "env \<Rightarrow> string \<Rightarrow> js_session \<Rightarrow> js_session" where
  "initializeConfig_js e cwd s =
     (case disk s of
        None \<Rightarrow>
          (let (ls, envConfig) = first_run_js e (DEFAULT_CONFIG_js e cwd)
           in s\<lparr>disk := Some (Document envConfig), config := envConfig,
                printed := printed s @ ls\<rparr>)
      | Some (Document d) \<Rightarrow>
          resolve_key_js e (migrate_js (s\<lparr>config := spread (DEFAULT_CONFIG_js e cwd) d\<rparr>))
      | Some (Unparsable err) \<Rightarrow>
          (say ''Using default configuration'' (say (''Error reading config file: '' @ err) s))
             \<lparr>config := DEFAULT_CONFIG_js e cwd\<rparr>)"

text \<open>The state in which the module starts, beside a configuration file that may exist.\<close>

definition startup_js :: "config_file option \<Rightarrow> js_session" where
  "startup_js f =
     \<lparr>config = [], chatHistory = [], disk = f, printed = [], prompts = 0, cachedModels = [],
      pending = None\<rparr>"

section \<open>The world outside the program\<close>

text \<open>
  Everything the program asks of its surroundings while it handles one line of input is
  a field of the record \<open>world\<close>: the environment, the lines typed at prompts other than
  the main prompt (in order; the session counts how many it has read), the outcome of
  each file-system call, of running a shell command, of the request to the provider and
  of the calls to an MCP server, and the functions of modules of the repository that are
  not among its sources. An outcome \<open>Inl t\<close> is an exception raised, \<open>t\<close> the text it is
  printed with. Path arithmetic is that of \<^verbatim>\<open>path\<close>; \<open>join_error\<close> is the text of the
  \<^verbatim>\<open>TypeError\<close> it raises for an argument that is not a string.

  The request of roo-cli.ts yields a stream: the chunks that arrive, and the error that
  the stream raises after them, if it raises one. A provider adapter may also report a
  failure inside the stream. The adapter among the sources, \<^verbatim>\<open>src/api/providers/groq.ts\<close>,
  does so: it catches a network failure or a response that is not a success, writes a
  chunk of type \<^verbatim>\<open>error\<close> with the message, and ends the stream without
  \<^verbatim>\<open>message_stop\<close>. \<open>ErrorChunk\<close> is that chunk.
\<close>

datatype chunk = TextDelta string | MessageStop | ErrorChunk string | OtherChunk

datatype tool_use =
  ReadFileTool string | WriteToFileTool string string | ListFilesTool "string option"
| OtherTool string

datatype mcp_status = Connected string | NotConnected string

record world =
  w_env :: env
  w_cwd :: string
  typed :: "nat \<Rightarrow> string"
  path_isAbsolute :: "string \<Rightarrow> bool"
  path_join :: "string \<Rightarrow> string \<Rightarrow> string"
  path_dirname :: "string \<Rightarrow> string"
  join_error :: string
  fs_exists :: "string \<Rightarrow> bool"
  fs_readFile :: "string \<Rightarrow> string + string"
  fs_mkdir :: "string \<Rightarrow> string option"
  fs_writeFile :: "string \<Rightarrow> string \<Rightarrow> string option"
  fs_readdir :: "string \<Rightarrow> string + (string \<times> bool) list"
  execSync :: "string \<Rightarrow> string + string"
  buildApiHandler :: "jobject \<Rightarrow> string option"
  createMessage :: "jobject \<Rightarrow> message list \<Rightarrow> chunk list \<times> string option"
  formatResponse :: "string \<Rightarrow> string"
  parseAssistantMessage :: "string \<Rightarrow> tool_use list"
  tool_allowed :: "jobject \<Rightarrow> tool_use \<Rightarrow> bool"
  mode_name :: "jobject \<Rightarrow> string"
  request_js :: "jobject \<Rightarrow> message list \<Rightarrow> string + string"
  isAskingForCommand :: "string \<Rightarrow> bool"
  fetched_models :: "string \<Rightarrow> string + string list"
  mcp_check :: "jval \<Rightarrow> mcp_status"
  mcp_tools :: "jval \<Rightarrow> string + (string \<times> string) list"
  mcp_use :: "jval \<Rightarrow> string \<Rightarrow> string \<Rightarrow> string + string \<times> string"
  json_params :: "string \<Rightarrow> string + string"

section \<open>Strings\<close>

definition nl :: char where
  "nl = CHR 0x0A"

definition backtick :: char where
  "backtick = CHR 0x60"

definition join_with :: "string \<Rightarrow> string list \<Rightarrow> string" where
  "join_with sep xs = (case xs of [] \<Rightarrow> [] | x # r \<Rightarrow> foldl (\<lambda>a b. a @ sep @ b) x r)"

definition is_word_char :: "char \<Rightarrow> bool" where
  "is_word_char c =
     (let n = (of_char c :: nat)
      in (48 \<le> n \<and> n \<le> 57) \<or> (65 \<le> n \<and> n \<le> 90) \<or> (97 \<le> n \<and> n \<le> 122) \<or> n = 95)"

text \<open>\<^verbatim>\<open>Number(value)\<close>: a run of decimal digits that spells a whole number up to \<open>2\<^sup>5\<^sup>3\<close>,
  which a double holds exactly, is that number; the number any other text converts to is
  kept with that text.\<close>

definition js_Number :: "string \<Rightarrow> jval" where
  "js_Number v =
     (if v \<noteq> [] \<and> list_all is_digit v \<and> decimal_int v \<le> 2 ^ 53 then JNum (decimal_int v)
      else JNumOther v)"

text \<open>\<^verbatim>\<open>parseInt(text)\<close> for a text already trimmed: an optional sign, then either the
  prefix \<^verbatim>\<open>0x\<close> and the longest run of hexadecimal digits, or the longest run of decimal
  digits; \<open>None\<close> is \<^verbatim>\<open>NaN\<close>, the result when that run is empty.\<close>

definition parseInt :: "string \<Rightarrow> int option" where
  "parseInt t =
     (let (neg, r) = (case t of c # r \<Rightarrow> if c = CHR ''-'' then (True, r)
                                       else if c = CHR ''+'' then (False, r) else (False, t)
                              | [] \<Rightarrow> (False, t));
          hex = (case r of a # b # h \<Rightarrow> if a = CHR ''0'' \<and> (b = CHR ''x'' \<or> b = CHR ''X'')
                                         then Some h else None
                         | _ \<Rightarrow> None);
          m = (case hex of
                 Some h \<Rightarrow> (let hs = takeWhile is_hex_digit h
                            in if hs = [] then None else Some (hexadecimal hs))
               | None \<Rightarrow> (let ds = takeWhile is_digit r
                          in if ds = [] then None else Some (decimal ds)))
      in case m of None \<Rightarrow> None | Some n \<Rightarrow> Some (if neg then - int n else int n))"

text \<open>\<^verbatim>\<open>toLowerCase\<close> on 8-bit characters.\<close>

definition lower_char :: "char \<Rightarrow> char" where
  "lower_char c =
     (let n = (of_char c :: nat)
      in if (65 \<le> n \<and> n \<le> 90) \<or> (192 \<le> n \<and> n \<le> 222 \<and> n \<noteq> 215)
         then char_of (n + 32) else c)"

definition toLowerCase :: "string \<Rightarrow> string" where
  "toLowerCase t = map lower_char t"

text \<open>The match of \<^verbatim>\<open>/^(\w+)=(.+)$/\<close>: the longest run of word characters, an equals
  sign, and at least one character, none of them a line break.\<close>

definition match_key_value :: "string \<Rightarrow> (string \<times> string) option" where
  "match_key_value sub =
     (let key = takeWhile is_word_char sub
      in case dropWhile is_word_char sub of
           c # v \<Rightarrow>
             if key \<noteq> [] \<and> c = CHR ''='' \<and> v \<noteq> [] \<and>
                list_all (\<lambda>x. x \<noteq> CHR 0x0A \<and> x \<noteq> CHR 0x0D) v
             then Some (key, v) else None
         | [] \<Rightarrow> None)"

section \<open>Model tables\<close>

record ModelMetadata =
  name :: string
  displayName :: string
  supportsVision :: bool
  contextWindow :: nat

definition mk_model :: "string \<Rightarrow> string \<Rightarrow> bool \<Rightarrow> nat \<Rightarrow> ModelMetadata" where
  "mk_model n d v cw = \<lparr>name = n, displayName = d, supportsVision = v, contextWindow = cw\<rparr>"

text \<open>\<^verbatim>\<open>getProviderModelsMetadata\<close> of roo-cli.ts; the provider is compared with \<^verbatim>\<open>===\<close>.\<close>

definition getProviderModelsMetadata_ts :: "jval \<Rightarrow> ModelMetadata list" where
  "getProviderModelsMetadata_ts provider =
     (if provider = JStr ''anthropic'' then
        [mk_model ''claude-3-7-sonnet-20240229'' ''Claude 3.7 Sonnet'' True 200000,
         mk_model ''claude-3-5-sonnet-20240620'' ''Claude 3.5 Sonnet'' True 200000,
         mk_model ''claude-3-opus-20240229'' ''Claude 3 Opus'' True 200000,
         mk_model ''claude-3-haiku-20240307'' ''Claude 3 Haiku'' True 200000]
      else if provider = JStr ''openai'' then
        [mk_model ''gpt-4o'' ''GPT-4o'' True 128000,
         mk_model ''gpt-4o-mini'' ''GPT-4o Mini'' True 128000,
         mk_model ''gpt-4-turbo'' ''GPT-4 Turbo'' True 128000,
         mk_model ''gpt-3.5-turbo'' ''GPT-3.5 Turbo'' True 16385]
      else if provider = JStr ''openrouter'' then
        [mk_model ''anthropic/claude-3-7-sonnet'' ''Claude 3.7 Sonnet'' True 200000,
         mk_model ''anthropic/claude-3-opus'' ''Claude 3 Opus'' True 200000,
         mk_model ''openai/gpt-4o'' ''GPT-4o'' True 128000,
         mk_model ''mistral/mistral-large'' ''Mistral Large'' False 32000,
         mk_model ''meta-llama/llama-3-70b-instruct'' ''Llama 3 70B'' False 8000]
      else if provider = JStr ''bedrock'' then
        [mk_model ''anthropic.claude-3-7-sonnet-20240229'' ''Claude 3.7 Sonnet'' True 200000,
         mk_model ''anthropic.claude-3-opus-20240229'' ''Claude 3 Opus'' True 200000,
         mk_model ''anthropic.claude-3-haiku-20240307'' ''Claude 3 Haiku'' True 200000]
      else if provider = JStr ''gemini'' then
        [mk_model ''gemini-1.5-pro'' ''Gemini 1.5 Pro'' True 1000000,
         mk_model ''gemini-1.5-flash'' ''Gemini 1.5 Flash'' True 1000000]
      else if provider = JStr ''mistral'' then
        [mk_model ''mistral-large-latest'' ''Mistral Large'' False 32000,
         mk_model ''mistral-medium-latest'' ''Mistral Medium'' False 32000,
         mk_model ''mistral-small-latest'' ''Mistral Small'' False 32000]
      else if provider = JStr ''groq'' then
        [mk_model ''llama3-3-70b-versatile'' ''Llama 3.3 70B Versatile'' False 8192,
         mk_model ''llama3-70b-8192'' ''Llama 3 70B'' False 8192,
         mk_model ''llama3-8b-8192'' ''Llama 3 8B'' False 8192,
         mk_model ''mixtral-8x7b-32768'' ''Mixtral 8x7B'' False 32768,
         mk_model ''gemma-7b-it'' ''Gemma 7B'' False 8192,
         mk_model ''claude-3-5-sonnet-20240620'' ''Claude 3.5 Sonnet'' True 200000]
      else [])"

definition getAvailableModels_ts :: "jval \<Rightarrow> string list" where
  "getAvailableModels_ts provider = map name (getProviderModelsMetadata_ts provider)"

text \<open>The names of \<^verbatim>\<open>getFallbackModelsMetadata\<close> of run-full-cli.js, in order.\<close>

definition fallback_names_js :: "jval \<Rightarrow> string list" where
  "fallback_names_js provider =
     (if provider = JStr ''anthropic'' then
        [''claude-3-7-sonnet-20240229'', ''claude-3-5-sonnet-20240620'',
         ''claude-3-opus-20240229'', ''claude-3-haiku-20240307'']
      else if provider = JStr ''openai'' then
        [''gpt-4o'', ''gpt-4o-mini'', ''gpt-4-turbo'', ''gpt-3.5-turbo'']
      else if provider = JStr ''mistral'' then
        [''mistral-large-latest'', ''mistral-medium-latest'', ''mistral-small-latest'']
      else if provider = JStr ''groq'' then
        [''llama-3.3-70b-versatile'', ''llama3-70b-8192'', ''llama3-8b-8192'',
         ''mixtral-8x7b-32768'', ''gemma-7b-it'', ''claude-3-5-sonnet-20240620'']
      else [])"

text \<open>
  \<^verbatim>\<open>fetchModelsFromProvider\<close> asks the network for OpenAI and Groq only and yields
  \<^verbatim>\<open>null\<close> otherwise and on failure, which it prints. \<^verbatim>\<open>getAvailableModels\<close> answers from
  the cache, else from a listing that is not empty, else from the fallback table, and
  fills the cache. The cache is keyed by the provider value; only the names of the
  models are kept, the one part the functions modelled here read.
\<close>

definition fetchModelsFromProvider :: "world \<Rightarrow> jval \<Rightarrow> out list \<times> string list option" where
  "fetchModelsFromProvider w provider =
     (if provider = JStr ''openai'' then
        (case fetched_models w ''openai'' of
           Inr ms \<Rightarrow> ([], Some ms)
         | Inl err \<Rightarrow> ([Line (''Error fetching OpenAI models: '' @ err)], None))
      else if provider = JStr ''groq'' then
        (case fetched_models w ''groq'' of
           Inr ms \<Rightarrow> ([], Some ms)
         | Inl err \<Rightarrow> ([Line (''Error fetching Groq models: '' @ err)], None))
      else ([], None))"

definition getAvailableModels_js :: "world \<Rightarrow> jval \<Rightarrow> js_session \<Rightarrow> string list \<times> js_session" where
  "getAvailableModels_js w provider s =
     (case map_of (cachedModels s) provider of
        Some ms \<Rightarrow> (ms, s)
      | None \<Rightarrow>
          (let (ls, r) = fetchModelsFromProvider w provider;
               s1 = s\<lparr>printed := printed s @ ls\<rparr>;
               ms = (case r of Some ms \<Rightarrow> if ms \<noteq> [] then ms else fallback_names_js provider
                             | None \<Rightarrow> fallback_names_js provider)
           in (ms, s1\<lparr>cachedModels := AList.update provider ms (cachedModels s1)\<rparr>)))"

section \<open>The command /config\<close>

text \<open>A prompt other than the main prompt prints its question and reads the next line
  typed.\<close>

definition ask :: "world \<Rightarrow> string \<Rightarrow> 'a session_scheme \<Rightarrow> string \<times> 'a session_scheme" where
  "ask w question s =
     (typed w (prompts s), s\<lparr>printed := printed s @ [Line question], prompts := Suc (prompts s)\<rparr>)"

text \<open>The display of the configuration: one line per entry in the order of the object,
  the value of \<^verbatim>\<open>apiKey\<close> replaced by a mask that tells only whether it is set.\<close>

definition masked :: "string \<Rightarrow> jval \<Rightarrow> jval" where
  "masked k v =
     (if k = ''apiKey'' then JStr (if truthy v then ''****'' else ''(not set)'') else v)"

definition config_lines :: "jobject \<Rightarrow> out list" where
  "config_lines c = map (\<lambda>(k, v). Shown (k @ '' = '') (masked k v) []) c"

definition key_warning :: "jobject \<Rightarrow> out list" where
  "key_warning c =
     (if \<not> field_truthy c ''apiKey'' then
        [Line (nl # ''Warning: API key is not set.''),
         Line ''You can:'',
         Line ''1. Use /config apiKey=your_key to set it directly'',
         Line ''2. Add it to .env file (recommended)'',
         Line ''3. Run /env to create a template .env file'']
      else [])"

text \<open>The tables of providers and modes; the mark of the current one is written \<open>> \<close>
  here.\<close>

definition marked_line :: "bool \<Rightarrow> string \<Rightarrow> string \<Rightarrow> out" where
  "marked_line isCurrent k n = Line ((if isCurrent then ''> '' else ''  '') @ k @ '': '' @ n)"

definition provider_table_ts :: "(string \<times> string) list" where
  "provider_table_ts =
     [(''anthropic'', ''Anthropic (Claude)''), (''openai'', ''OpenAI (GPT)''),
      (''openrouter'', ''OpenRouter''), (''bedrock'', ''AWS Bedrock''),
      (''gemini'', ''Google Gemini''), (''mistral'', ''Mistral AI''),
      (''groq'', ''Groq (Fast inference)'')]"

definition providers_ts :: "string list" where
  "providers_ts =
     [''anthropic'', ''openai'', ''openrouter'', ''bedrock'', ''gemini'', ''mistral'', ''groq'']"

definition provider_table_js :: "(string \<times> string) list" where
  "provider_table_js =
     [(''groq'', ''Groq (Fast inference)''), (''anthropic'', ''Anthropic (Claude)''),
      (''openai'', ''OpenAI (GPT)''), (''mistral'', ''Mistral AI'')]"

definition providers_js :: "string list" where
  "providers_js = [''groq'', ''anthropic'', ''openai'', ''mistral'']"

definition MCP_MODES :: "(string \<times> string) list" where
  "MCP_MODES =
     [(''assistant'', ''General purpose assistant mode''),
      (''code'', ''Focused on coding tasks''),
      (''sql'', ''Specialized for SQL queries and database work''),
      (''data'', ''Data analysis and visualization helper''),
      (''explain'', ''Code explanation and documentation specialist'')]"

definition display_config_ts :: "jobject \<Rightarrow> out list" where
  "display_config_ts c =
     [Line (nl # ''Current Configuration:'')] @ config_lines c @ key_warning c @
     [Line (nl # ''Available providers:'')] @
     map (\<lambda>(k, n). marked_line (map_of c ''apiProvider'' = Some (JStr k)) k n) provider_table_ts"

definition display_config_js :: "jobject \<Rightarrow> out list" where
  "display_config_js c =
     [Line (nl # ''Current Configuration:'')] @ config_lines c @ key_warning c @
     [Line (nl # ''Available providers:'')] @
     map (\<lambda>(k, n). marked_line (map_of c ''apiProvider'' = Some (JStr k)) k n) provider_table_js @
     [Line (nl # ''Available modes:'')] @
     map (\<lambda>(k, n). marked_line (map_of c ''mode'' = Some (JStr k)) k n) MCP_MODES"

text \<open>\<^verbatim>\<open>key in config\<close>, the assignment \<^verbatim>\<open>config[key] = value\<close> (which the inherited
  setter of \<^verbatim>\<open>__proto__\<close> ignores for a value that is not an object), and the common end
  of an update: save and confirm, the value of \<^verbatim>\<open>apiKey\<close> masked.\<close>

definition in_config :: "jobject \<Rightarrow> string \<Rightarrow> bool" where
  "in_config c k = (k \<in> set (map fst c) \<or> k \<in> set object_prototype_names)"

definition assign_config :: "string \<Rightarrow> jval \<Rightarrow> 'a session_scheme \<Rightarrow> 'a session_scheme" where
  "assign_config k v s = (if k = ''__proto__'' then s else set_field k v s)"

definition confirm_update :: "string \<Rightarrow> string \<Rightarrow> 'a session_scheme \<Rightarrow> 'a session_scheme" where
  "confirm_update k v s =
     say (''Configuration updated: '' @ k @ '' = '' @ (if k = ''apiKey'' then ''****'' else v))
       (saveConfig s)"

definition field_or_undefined :: "jobject \<Rightarrow> string \<Rightarrow> jval" where
  "field_or_undefined c k = (case map_of c k of Some v \<Rightarrow> v | None \<Rightarrow> JNull)"

definition model_included :: "jobject \<Rightarrow> string list \<Rightarrow> bool" where
  "model_included c models =
     (case map_of c ''model'' of Some (JStr m) \<Rightarrow> m \<in> set models | _ \<Rightarrow> False)"

definition suggest_model :: "string list \<Rightarrow> 'a session_scheme \<Rightarrow> 'a session_scheme" where
  "suggest_model models s =
     (case models of
        m # _ \<Rightarrow> if model_included (config s) models then s
                 else say (''Changed model to '' @ m) (set_field ''model'' (JStr m) s)
      | [] \<Rightarrow> s)"

definition unknown_key :: "string \<Rightarrow> 'a session_scheme \<Rightarrow> 'a session_scheme" where
  "unknown_key k s =
     say (''Available keys: '' @ join_with '', '' (map fst (config s)))
       (say (''Unknown configuration key: '' @ k) s)"

definition model_warning :: "string \<Rightarrow> string list \<Rightarrow> 'a session_scheme \<Rightarrow> 'a session_scheme" where
  "model_warning v models s =
     say (''Available models: '' @ join_with '', '' models)
       (s\<lparr>printed := printed s @
            [Shown (''Warning: '' @ v @ '' is not in the list of known models for '')
               (field_or_undefined (config s) ''apiProvider'') []]\<rparr>)"

text \<open>\<^verbatim>\<open>handleConfigCommand\<close> of roo-cli.ts.\<close>

definition handleConfigCommand_ts :: "world \<Rightarrow> string \<Rightarrow> 'a session_scheme \<Rightarrow> 'a session_scheme" where
  "handleConfigCommand_ts w subcommand s =
     (if subcommand = [] then s\<lparr>printed := printed s @ display_config_ts (config s)\<rparr>
      else case match_key_value subcommand of
        None \<Rightarrow> say ''Invalid configuration format. Use /config key=value'' s
      | Some (k, v) \<Rightarrow>
          if \<not> in_config (config s) k then unknown_key k s
          else if k = ''apiProvider'' then
            (if v \<notin> set providers_ts
             then say (''Available providers: '' @ join_with '', '' providers_ts)
                    (say (''Invalid provider: '' @ v) s)
             else confirm_update k v
                    (suggest_model (getAvailableModels_ts (JStr v)) (assign_config k (JStr v) s)))
          else if k = ''model'' then
            (let models = getAvailableModels_ts (field_or_undefined (config s) ''apiProvider'')
             in if v \<notin> set models then
                  (let (answer, s1) = ask w ''Continue anyway? (y/n) '' (model_warning v models s)
                   in if toLowerCase answer = ''y''
                      then confirm_update k v (assign_config k (JStr v) s1)
                      else s1)
                else confirm_update k v (assign_config k (JStr v) s))
          else confirm_update k v
                 (assign_config k
                    (if k = ''temperature'' \<or> k = ''maxTokens'' then js_Number v else JStr v) s))"

text \<open>
  \<^verbatim>\<open>handleConfigCommand\<close> of run-full-cli.js. The model lists come from
  \<^verbatim>\<open>getAvailableModels\<close>, which raises only when the provider names a property the cache
  inherits from \<^verbatim>\<open>Object.prototype\<close>; that cannot happen for a provider just checked
  against the list, and for the key \<^verbatim>\<open>model\<close> the error is caught and the update goes on
  without validation. \<^verbatim>\<open>MCP_MODES[value]\<close> is true for the five modes and for the
  inherited names.
\<close>

definition mode_known_js :: "string \<Rightarrow> bool" where
  "mode_known_js m = (m \<in> set (map fst MCP_MODES) \<or> m \<in> set object_prototype_names)"

definition provider_inherited :: "jobject \<Rightarrow> bool" where
  "provider_inherited c =
     (case map_of c ''apiProvider'' of
        Some (JStr p) \<Rightarrow> p \<in> set object_prototype_names | _ \<Rightarrow> False)"

definition handleConfigCommand_js :: "world \<Rightarrow> string \<Rightarrow> js_session \<Rightarrow> js_session" where
  "handleConfigCommand_js w subcommand s =
     (if subcommand = [] then s\<lparr>printed := printed s @ display_config_js (config s)\<rparr>
      else case match_key_value subcommand of
        None \<Rightarrow> say ''Invalid configuration format. Use /config key=value'' s
      | Some (k, v) \<Rightarrow>
          if \<not> in_config (config s) k then unknown_key k s
          else if k = ''apiProvider'' then
            (if v \<notin> set providers_js
             then say (''Available providers: '' @ join_with '', '' providers_js)
                    (say (''Invalid provider: '' @ v) s)
             else (let (models, s1) =
                         getAvailableModels_js w (JStr v)
                           (say (''Fetching available models for '' @ v @ ''...'')
                              (assign_config k (JStr v) s))
                   in confirm_update k v (suggest_model models s1)))
          else if k = ''model'' then
            (if provider_inherited (config s) then
               confirm_update k v
                 (assign_config k (JStr v)
                    (say ''Proceeding without validation...''
                       (say ''Error validating model: cachedModels[provider].map is not a function'' s)))
             else
               (let (models, s0) =
                      getAvailableModels_js w (field_or_undefined (config s) ''apiProvider'') s
                in if v \<notin> set models then
                     (let (answer, s1) = ask w ''Continue anyway? (y/n) '' (model_warning v models s0)
                      in if toLowerCase answer = ''y''
                         then confirm_update k v (assign_config k (JStr v) s1)
                         else s1)
                   else confirm_update k v (assign_config k (JStr v) s0)))
          else if k = ''mode'' then
            (if \<not> mode_known_js v
             then s\<lparr>printed := printed s @
                       [Line (''Unknown mode: '' @ v), Line ''Available modes:''] @
                       map (\<lambda>(m, d). Line (''  '' @ m)) MCP_MODES\<rparr>
             else confirm_update k v (assign_config k (JStr v) s))
          else if k = ''checkMcpOnStart'' then
            confirm_update k v (assign_config k (JBool (toLowerCase v = ''true'')) s)
          else confirm_update k v
                 (assign_config k
                    (if k = ''temperature'' \<or> k = ''maxTokens'' then js_Number v else JStr v) s))"

section \<open>The continuation of a provider switch in run-full-cli.js\<close>

text \<open>
  The continuation registered by \<^verbatim>\<open>initializeConfig\<close> acts on the object that was returned,
  the configuration of the session: when the model list of the new provider is not
  empty and does not hold the configured model, the model becomes the first of the list;
  then a line is printed and the configuration is saved. \<open>settle_js\<close> runs the continuation
  that is pending, if any. It runs once \<^verbatim>\<open>startChatSession\<close> has yielded and the list has
  arrived: for a provider without a listing request that is before the first line of
  input is handled. \<open>loaded_js\<close> is the session at that point.
\<close>

definition switch_continuation_js :: "world \<Rightarrow> string \<Rightarrow> js_session \<Rightarrow> js_session" where
  "switch_continuation_js w newProvider t =
     (let (models, t1) = getAvailableModels_js w (JStr newProvider) t;
          t2 = (if models \<noteq> [] \<and> \<not> model_included (config t1) models
                then set_field ''model'' (JStr (hd models)) t1 else t1)
      in saveConfig
           (t2\<lparr>printed := printed t2 @
                  [Shown (''Switching to '' @ newProvider @ '' with model '')
                     (field_or_undefined (config t2) ''model'') []]\<rparr>))"

definition settle_js :: "world \<Rightarrow> js_session \<Rightarrow> js_session" where
  "settle_js w t =
     (case pending t of
        None \<Rightarrow> t
      | Some newProvider \<Rightarrow> (switch_continuation_js w newProvider t)\<lparr>pending := None\<rparr>)"

definition loaded_js :: "world \<Rightarrow> env \<Rightarrow> string \<Rightarrow> js_session \<Rightarrow> js_session" where
  "loaded_js w e cwd t = settle_js w (initializeConfig_js e cwd t)"

section \<open>File operations\<close>

text \<open>
  \<^verbatim>\<open>readFile\<close>, \<^verbatim>\<open>writeFile\<close> and \<^verbatim>\<open>listFiles\<close> are the same text in both files. Each wraps
  its body in \<^verbatim>\<open>try\<close>/\<^verbatim>\<open>catch\<close> and returns a string in every case: the content, a
  success notice, a listing, or a text that starts with \<^verbatim>\<open>Error\<close>. A relative path is
  joined to \<^verbatim>\<open>config.workspacePath\<close>.
\<close>

definition full_path :: "world \<Rightarrow> jobject \<Rightarrow> string \<Rightarrow> string + string" where
  "full_path w c p =
     (if path_isAbsolute w p then Inr p
      else case map_of c ''workspacePath'' of
             Some (JStr ws) \<Rightarrow> Inr (path_join w ws p)
           | _ \<Rightarrow> Inl (join_error w))"

definition readFile :: "world \<Rightarrow> jobject \<Rightarrow> string \<Rightarrow> string" where
  "readFile w c filePath =
     (case full_path w c filePath of
        Inl err \<Rightarrow> ''Error reading file: '' @ err
      | Inr fullPath \<Rightarrow>
          if \<not> fs_exists w fullPath then ''Error: File not found at '' @ fullPath
          else (case fs_readFile w fullPath of
                  Inr content \<Rightarrow> content
                | Inl err \<Rightarrow> ''Error reading file: '' @ err))"

definition writeFile :: "world \<Rightarrow> jobject \<Rightarrow> string \<Rightarrow> string \<Rightarrow> string" where
  "writeFile w c filePath content =
     (case full_path w c filePath of
        Inl err \<Rightarrow> ''Error writing file: '' @ err
      | Inr fullPath \<Rightarrow>
          (case (if fs_exists w (path_dirname w fullPath) then None
                 else fs_mkdir w (path_dirname w fullPath)) of
             Some err \<Rightarrow> ''Error writing file: '' @ err
           | None \<Rightarrow>
               (case fs_writeFile w fullPath content of
                  Some err \<Rightarrow> ''Error writing file: '' @ err
                | None \<Rightarrow> ''File written successfully to '' @ fullPath)))"

definition listFiles :: "world \<Rightarrow> jobject \<Rightarrow> string \<Rightarrow> string" where
  "listFiles w c dirPath =
     (case full_path w c dirPath of
        Inl err \<Rightarrow> ''Error listing files: '' @ err
      | Inr fullPath \<Rightarrow>
          if \<not> fs_exists w fullPath then ''Error: Directory not found at '' @ fullPath
          else (case fs_readdir w fullPath of
                  Inr items \<Rightarrow>
                    join_with [nl]
                      (map (\<lambda>(n, isDir). (if isDir then ''[DIR]'' else ''[FILE]'') @ '' '' @ n) items)
                | Inl err \<Rightarrow> ''Error listing files: '' @ err))"

section \<open>Extraction of shell commands from a reply\<close>

text \<open>
  A global regular expression is run by a scanner: at each position the matcher either
  fails, and the scan moves one character on, or yields the captured text and the length
  of the match, and the scan resumes behind the match.
\<close>

fun scan :: "(string \<Rightarrow> (string \<times> nat) option) \<Rightarrow> nat \<Rightarrow> string \<Rightarrow> string list" where
  "scan m skip [] = []"
| "scan m skip (c # cs) =
     (case skip of
        Suc k \<Rightarrow> scan m k cs
      | 0 \<Rightarrow> (case m (c # cs) of
                Some (captured, len) \<Rightarrow> captured # scan m (len - 1) cs
              | None \<Rightarrow> scan m 0 cs))"

definition strip_prefix :: "string \<Rightarrow> string \<Rightarrow> string option" where
  "strip_prefix p t = (if prefix p t then Some (drop (length p) t) else None)"

text \<open>The text before and the text after the first occurrence of a separator.\<close>

fun split_at :: "string \<Rightarrow> string \<Rightarrow> (string \<times> string) option" where
  "split_at sep [] = (if sep = [] then Some ([], []) else None)"
| "split_at sep (c # cs) =
     (if prefix sep (c # cs) then Some ([], drop (length sep) (c # cs))
      else map_option (\<lambda>(a, b). (c # a, b)) (split_at sep cs))"

definition fence :: string where
  "fence = [backtick, backtick, backtick]"

text \<open>\<^verbatim>\<open>text.split('\n')\<close>.\<close>

fun split_nl :: "string \<Rightarrow> string list" where
  "split_nl [] = [[]]"
| "split_nl (c # cs) =
     (if c = nl then [] # split_nl cs
      else case split_nl cs of l # ls \<Rightarrow> (c # l) # ls | [] \<Rightarrow> [[c]])"

text \<open>The order of first insertion into a \<^verbatim>\<open>Set\<close>.\<close>

definition dedup :: "string list \<Rightarrow> string list" where
  "dedup xs = rev (remdups (rev xs))"

text \<open>
  roo-cli.ts, \<^verbatim>\<open>/```(?:bash|sh|shell|zsh|)?\n([\s\S]*?)\n```/g\<close>: the fence, one of the four
  tags or none, a line feed, the shortest text that a line feed and a fence follow.
\<close>

definition match_block_ts :: "string \<Rightarrow> (string \<times> nat) option" where
  "match_block_ts t =
     (case strip_prefix fence t of
        None \<Rightarrow> None
      | Some r \<Rightarrow>
          (case find (\<lambda>h. prefix (h @ [nl]) r) [''bash'', ''sh'', ''shell'', ''zsh'', []] of
             None \<Rightarrow> None
           | Some h \<Rightarrow>
               (case split_at (nl # fence) (drop (length h + 1) r) of
                  None \<Rightarrow> None
                | Some (captured, rest) \<Rightarrow> Some (captured, 3 + length h + 1 + length captured + 4))))"

text \<open>Both files, \<^verbatim>\<open>/`([^`]+)`/g\<close>: a backtick, a run of other characters that is not
  empty, a backtick.\<close>

definition match_inline :: "string \<Rightarrow> (string \<times> nat) option" where
  "match_inline t =
     (case t of
        [] \<Rightarrow> None
      | c # r \<Rightarrow>
          if c = backtick then
            (let body = takeWhile (\<lambda>x. x \<noteq> backtick) r
             in if body \<noteq> [] \<and> dropWhile (\<lambda>x. x \<noteq> backtick) r \<noteq> []
                then Some (body, length body + 2) else None)
          else None)"

definition commandPrefixes :: "string list" where
  "commandPrefixes =
     [''cd '', ''ls'', ''cat '', ''grep '', ''find '', ''mkdir '', ''rm '', ''cp '', ''mv '',
      ''git '', ''npm '', ''node '', ''python '', ''pip '', ''sudo '', ''apt '', ''brew '',
      ''touch '', ''echo '', ''curl '', ''wget '']"

definition isCommand_ts :: "string \<Rightarrow> bool" where
  "isCommand_ts code = list_ex (\<lambda>p. prefix p code) commandPrefixes"

definition single_line_blocks_ts :: "string \<Rightarrow> string list" where
  "single_line_blocks_ts text =
     filter (\<lambda>code. code \<noteq> [] \<and> nl \<notin> set code) (map trim (scan match_block_ts 0 text))"

definition inline_commands_ts :: "string \<Rightarrow> string list" where
  "inline_commands_ts text = filter isCommand_ts (map trim (scan match_inline 0 text))"

definition extractCommands_ts :: "string \<Rightarrow> string list" where
  "extractCommands_ts text = dedup (single_line_blocks_ts text @ inline_commands_ts text)"

text \<open>
  run-full-cli.js, \<^verbatim>\<open>/```(?:bash|shell|sh|\n|\s)?\n?(.*?)```/gs\<close>: the fence, then the text up
  to the next fence, from whose front one tag or one white-space character, and then
  one line feed, are taken away when they are there. What is taken away holds no
  backtick, so it never reaches into the closing fence.
\<close>

definition strip_tag_js :: "string \<Rightarrow> string" where
  "strip_tag_js b =
     (if prefix ''bash'' b then drop 4 b
      else if prefix ''shell'' b then drop 5 b
      else if prefix ''sh'' b then drop 2 b
      else case b of c # r \<Rightarrow> if is_space c then r else b | [] \<Rightarrow> b)"

definition strip_nl :: "string \<Rightarrow> string" where
  "strip_nl b = (case b of c # r \<Rightarrow> if c = nl then r else b | [] \<Rightarrow> b)"

definition match_block_js :: "string \<Rightarrow> (string \<times> nat) option" where
  "match_block_js t =
     (case strip_prefix fence t of
        None \<Rightarrow> None
      | Some r \<Rightarrow>
          (case split_at fence r of
             None \<Rightarrow> None
           | Some (body, rest) \<Rightarrow> Some (strip_nl (strip_tag_js body), length body + 6)))"

definition allowed_js :: "string \<Rightarrow> bool" where
  "allowed_js c =
     (prefix ''ls'' c \<or> prefix ''find'' c \<or> prefix ''grep'' c \<or> prefix ''wc'' c \<or>
      prefix ''cat'' c \<or> prefix ''echo'' c)"

definition block_candidates_js :: "string \<Rightarrow> string list" where
  "block_candidates_js captured =
     (let potentialCommand = trim captured
      in if potentialCommand \<noteq> [] \<and> nl \<notin> set potentialCommand then [potentialCommand]
         else if potentialCommand \<noteq> [] \<and> nl \<in> set potentialCommand then
           filter (\<lambda>trimmedLine. trimmedLine \<noteq> [] \<and> \<not> prefix ''#'' trimmedLine \<and> allowed_js trimmedLine)
             (map trim (split_nl potentialCommand))
         else [])"

definition inline_candidates_js :: "string \<Rightarrow> string list" where
  "inline_candidates_js response =
     filter (\<lambda>potentialCommand. potentialCommand \<noteq> [] \<and> allowed_js potentialCommand)
       (map trim (scan match_inline 0 response))"

text \<open>The list \<^verbatim>\<open>commandsToRun\<close> of \<^verbatim>\<open>tryExtractAndRunCommand\<close>: inline code is looked at
  only when the fenced blocks gave nothing.\<close>

definition commandsToRun_js :: "string \<Rightarrow> string list" where
  "commandsToRun_js response =
     (let fromBlocks = concat (map block_candidates_js (scan match_block_js 0 response))
      in if fromBlocks = [] then inline_candidates_js response else fromBlocks)"

section \<open>Chat turns\<close>

text \<open>
  Handling one line of input ends in one of three ways: the program waits for the next
  line, the program has exited, or an exception has left the handler.
\<close>

datatype 'a step = Awaiting 'a | Exited 'a | Raised string 'a

definition push :: "message \<Rightarrow> 'a session_scheme \<Rightarrow> 'a session_scheme" where
  "push m s = s\<lparr>chatHistory := chatHistory s @ [m]\<rparr>"

text \<open>Decimal notation of a natural number, and the text a template literal makes of a
  value; a number that is not whole is written as in its literal.\<close>

fun digits_upto :: "nat \<Rightarrow> nat \<Rightarrow> string" where
  "digits_upto 0 n = []"
| "digits_upto (Suc f) n =
     (if n < 10 then [char_of (48 + n)] else digits_upto f (n div 10) @ [char_of (48 + n mod 10)])"

definition show_nat :: "nat \<Rightarrow> string" where
  "show_nat n = digits_upto (Suc n) n"

fun template :: "jval \<Rightarrow> string" where
  "template (JStr t) = t"
| "template (JNum n) = (if n < 0 then ''-'' @ show_nat (nat (- n)) else show_nat (nat n))"
| "template (JNumOther lit) =
     (case number_kind lit of
        NotANumber \<Rightarrow> ''NaN''
      | Zero \<Rightarrow> ''0''
      | Finite \<Rightarrow> lit
      | Infinite \<Rightarrow> (if prefix ''-'' (trim lit) then ''-Infinity'' else ''Infinity''))"
| "template (JBool b) = (if b then ''true'' else ''false'')"
| "template JNull = ''null''"

definition apostrophe :: char where
  "apostrophe = CHR 0x27"

subsection \<open>roo-cli.ts\<close>

definition tool_name :: "tool_use \<Rightarrow> string" where
  "tool_name t =
     (case t of ReadFileTool p \<Rightarrow> ''read_file'' | WriteToFileTool p c \<Rightarrow> ''write_to_file''
      | ListFilesTool p \<Rightarrow> ''list_files'' | OtherTool n \<Rightarrow> n)"

text \<open>\<^verbatim>\<open>handleToolUse\<close>; a tool request carries the parameters its tool reads.\<close>

definition handleToolUse :: "world \<Rightarrow> tool_use \<Rightarrow> 'a session_scheme \<Rightarrow> 'a session_scheme" where
  "handleToolUse w t s =
     (if \<not> tool_allowed w (config s) t
      then say (''Tool '' @ tool_name t @ '' is not allowed in '' @ mode_name w (config s) @ '' mode.'') s
      else
        (let s1 = say (nl # ''Requested to use tool: '' @ tool_name t) s
         in case t of
              ReadFileTool p \<Rightarrow>
                say ''File content added to chat context.''
                  (push (User, ''Tool read_file result:'' @ [nl] @ readFile w (config s1) p)
                     (say (''Reading file: '' @ p) s1))
            | WriteToFileTool p content \<Rightarrow>
                (let (answer, s2) = ask w (''Allow writing to '' @ p @ ''? (y/n) '') s1
                 in if toLowerCase answer = ''y''
                    then push (User, ''Tool write_to_file result:'' @ [nl] @
                                     writeFile w (config s2) p content)
                           (say (''Writing to file: '' @ p) s2)
                    else push (User, ''Tool write_to_file was rejected by the user.'') s2)
            | ListFilesTool po \<Rightarrow>
                (let dirPath = (case po of Some p \<Rightarrow> if p = [] then ''.'' else p | None \<Rightarrow> ''.'')
                 in push (User, ''Tool list_files result:'' @ [nl] @ listFiles w (config s1) dirPath)
                      (say (''Listing files in: '' @ dirPath) s1))
            | OtherTool n \<Rightarrow>
                push (User, ''Tool '' @ n @ '' is not supported in the CLI version.'')
                  (say (''Unsupported tool: '' @ n) s1)))"

text \<open>\<^verbatim>\<open>executeCommand\<close>, and the offer to run one of the commands found in a reply.\<close>

definition executeCommand :: "world \<Rightarrow> string \<Rightarrow> string" where
  "executeCommand w command =
     (case execSync w command of Inr result \<Rightarrow> result | Inl msg \<Rightarrow> ''Error: '' @ msg)"

definition offer_commands_ts :: "world \<Rightarrow> string list \<Rightarrow> 'a session_scheme \<Rightarrow> 'a session_scheme" where
  "offer_commands_ts w commands s =
     (let s1 = s\<lparr>printed := printed s @
                  [Line [], Line ''I found some commands in the response. Would you like to run one?''] @
                  map (\<lambda>(i, c). Line (''['' @ show_nat (i + 1) @ ''] '' @ c))
                    (zip [0..<length commands] commands) @
                  [Line ''[0] Do not run any command'']\<rparr>;
          (answer, s2) = ask w ''Enter number: '' s1
      in case parseInt (trim answer) of
           None \<Rightarrow> s2
         | Some n \<Rightarrow>
             if 0 \<le> n - 1 \<and> n - 1 < int (length commands) then
               (let command = commands ! nat (n - 1);
                    result = executeCommand w command
                in push (User, ''I ran the command '' @ [backtick] @ command @ [backtick] @
                               '' and got this result:'' @ [nl, nl] @ result)
                     (say result (say (nl # ''Executing: '' @ command) s2)))
             else s2)"

text \<open>
  \<^verbatim>\<open>processUserInput\<close>. The user's message is recorded first. The handler is built
  outside the \<^verbatim>\<open>try\<close>; the stream is read inside it. Of the chunks that arrive the loop
  reads the text and \<^verbatim>\<open>message_stop\<close> and passes over every other chunk, a chunk of type
  \<^verbatim>\<open>error\<close> included. An error that the stream raises is caught and printed. A stream that
  ends without \<^verbatim>\<open>message_stop\<close> leaves nothing behind: nothing is printed for it.
\<close>

definition assistantResponse_of :: "chunk list \<Rightarrow> string" where
  "assistantResponse_of chunks = concat (map (\<lambda>c. case c of TextDelta t \<Rightarrow> t | _ \<Rightarrow> []) chunks)"

definition processUserInput_ts :: "world \<Rightarrow> string \<Rightarrow> 'a session_scheme \<Rightarrow> 'a session_scheme step" where
  "processUserInput_ts w input s =
     (let s1 = push (User, input) s
      in if \<not> field_truthy (config s1) ''apiKey'' then
           Awaiting (say ''Run /env to create a template .env file.''
                      (say ''API key not set. Use /config apiKey=your_key to set it or add it to .env file.'' s1))
         else case buildApiHandler w (config s1) of
           Some err \<Rightarrow> Raised err s1
         | None \<Rightarrow>
             (case createMessage w (config s1) (chatHistory s1) of
                (chunks, Some err) \<Rightarrow> Awaiting (say (''Error processing request: '' @ err) s1)
              | (chunks, None) \<Rightarrow>
                  if MessageStop \<notin> set chunks then Awaiting s1
                  else
                    (let assistantResponse = assistantResponse_of chunks;
                         s2 = say (formatResponse w assistantResponse)
                                (say ''Assistant > '' (push (Assistant, assistantResponse) s1));
                         s3 = fold (handleToolUse w) (parseAssistantMessage w assistantResponse) s2;
                         commands = extractCommands_ts assistantResponse
                     in Awaiting (if commands \<noteq> [] then offer_commands_ts w commands s3 else s3))))"

subsection \<open>run-full-cli.js\<close>

text \<open>\<^verbatim>\<open>generateResponse\<close>: a request for three providers, a fixed reply for any other.\<close>

definition generateResponse :: "world \<Rightarrow> jobject \<Rightarrow> message list \<Rightarrow> string + string" where
  "generateResponse w c messages =
     (if map_of c ''apiProvider'' = Some (JStr ''anthropic'') \<or>
         map_of c ''apiProvider'' = Some (JStr ''openai'') \<or>
         map_of c ''apiProvider'' = Some (JStr ''groq'')
      then request_js w c messages
      else Inr (''Provider '' @ template (field_or_undefined c ''apiProvider'') @
                '' is not supported in this version. Please use /config apiProvider=anthropic, '' @
                ''/config apiProvider=openai, or /config apiProvider=groq.''))"

definition tryExtractAndRunCommand :: "world \<Rightarrow> string \<Rightarrow> 'a session_scheme \<Rightarrow> 'a session_scheme" where
  "tryExtractAndRunCommand w response s =
     (case commandsToRun_js response of
        [] \<Rightarrow> s
      | commandToRun # others \<Rightarrow>
          (let (answer, s1) =
                 ask w ''> ''
                   (say ''Type y/yes to execute, or anything else to skip''
                      (say (nl # ''Would you like me to run this command for you? '' @ commandToRun) s))
           in if toLowerCase answer = ''y'' \<or> toLowerCase answer = ''yes'' then
                (case execSync w commandToRun of
                   Inr output \<Rightarrow>
                     push (User, ''I ran the command: '' @ commandToRun @ [nl, nl] @
                                 ''Output:'' @ [nl] @ output)
                       (say output (say ''Output:'' (say (nl # ''Executing: '' @ commandToRun) s1)))
                 | Inl msg \<Rightarrow>
                     push (User, ''I tried to run the command: '' @ commandToRun @ [nl, nl] @
                                 ''Error:'' @ [nl] @ msg)
                       (say (''Error executing command: '' @ msg)
                          (say (nl # ''Executing: '' @ commandToRun) s1)))
              else s1))"

text \<open>
  The part of the line handler for input that is not a command. The test for the key
  comes before the message is recorded. \<^verbatim>\<open>isAskingForCommand\<close>, a disjunction of twenty
  patterns on the lower-cased input, is taken from the world.
\<close>

definition chat_js :: "world \<Rightarrow> string \<Rightarrow> 'a session_scheme \<Rightarrow> 'a session_scheme step" where
  "chat_js w input s =
     (if \<not> field_truthy (config s) ''apiKey'' then
        Awaiting (say ''Run /env to create a template .env file.''
                   (say ''API key not set. Use /config apiKey=your_key_here to set it or add it to .env file.'' s))
      else
        (let s1 = push (User, input) s
         in case generateResponse w (config s1) (chatHistory s1) of
              Inl err \<Rightarrow> Awaiting (say (''Error processing request: '' @ err) s1)
            | Inr response \<Rightarrow>
                (let s2 = say response (say ''Assistant > '' (push (Assistant, response) s1))
                 in Awaiting (if isAskingForCommand w (toLowerCase input)
                              then tryExtractAndRunCommand w response s2 else s2))))"

section \<open>The dispatcher\<close>

text \<open>Characters outside ASCII in the printed texts are transcribed in words.\<close>

definition help_ts :: "out list" where
  "help_ts = map Line
     [nl # ''Roo Pilot CLI Commands:'',
      ''/help - Display this help message'',
      ''/exit - Exit the chat session'',
      ''/clear - Clear the chat history'',
      ''/config - Show current configuration'',
      ''/config key=value - Update a configuration value'',
      ''/models - Select a model from numbered list'',
      ''/env - Create .env.template file'',
      ''/read path/to/file - Read a file and add to context'',
      ''/write path content - Write content to a file'',
      ''/ls [path] - List files in a directory'',
      nl # ''LLM Providers:'',
      '' - Anthropic Claude - Vision-capable, large context window'',
      '' - OpenAI GPT - Vision-capable, good at coding tasks'',
      '' - Groq - Fast inference with Llama 3.3 function calling'',
      '' - Mistral AI - Open models with good performance'',
      '' - OpenRouter - Access to many different models'',
      nl # ''Quick Tips:'',
      '' - Use /models to interactively select models with arrow keys'',
      '' - Set up your API keys in .env file for easy provider switching'',
      '' - The assistant can detect shell commands in responses and offer to run them'',
      '' - (eye) icon indicates models with vision/image capabilities'',
      '' - Llama 3.3 models support function calling for better tool capabilities'',
      [nl, nl]]"

definition help_js :: "out list" where
  "help_js = map Line
     [nl # ''Roo Pilot CLI Commands:'',
      ''/help - Display this help message'',
      ''/exit - Exit the chat session'',
      ''/clear - Clear the chat history'',
      ''/config - Show current configuration'',
      ''/config key=value - Update a configuration value'',
      ''/models - Select a model from numbered list'',
      ''/modes - Show available modes'',
      ''/mode [name] - Switch to a different mode'',
      ''/env - Create .env.template file'',
      ''/read path/to/file - Read a file and add to context'',
      ''/write path content - Write content to a file'',
      ''/ls [path] - List files in a directory'',
      ''/mcp - List available MCP tools'',
      ''/mcp [tool] [params] - Execute an MCP tool'',
      nl # ''LLM Providers:'',
      '' - Groq - Extra fast inference speeds'',
      '' - Anthropic Claude - Vision-capable, large context window'',
      '' - OpenAI GPT - Vision-capable, good at coding tasks'',
      '' - Mistral AI - Open models with good performance'',
      nl # ''Quick Tips:'',
      '' - Use /models to interactively select models'',
      '' - Set up your API keys in .env file for easy provider switching'',
      '' - (eye) icon indicates models with vision/image capabilities'',
      '' - Switch between different modes for specialized functionality'',
      '' - Connect to MCP servers for extended capabilities'',
      [nl, nl]]"

text \<open>\<^verbatim>\<open>createEnvTemplate\<close>: the template names one variable for each provider it lists.
  The write is not guarded, so a failure leaves the handler as an exception.\<close>

definition env_template_ts :: "string list" where
  "env_template_ts =
     [''# Roo Pilot API Keys'', ''# Uncomment and add your API keys below'', [],
      ''# Anthropic (Claude)'', ''# ANTHROPIC_API_KEY=your_key_here'', [],
      ''# OpenAI'', ''# OPENAI_API_KEY=your_key_here'', [],
      ''# OpenRouter'', ''# OPENROUTER_API_KEY=your_key_here'', [],
      ''# AWS Bedrock'', ''# AWS_ACCESS_KEY_ID=your_access_key'',
      ''# AWS_SECRET_ACCESS_KEY=your_secret_key'', ''# AWS_REGION=us-east-1'', [],
      ''# Google Gemini'', ''# GOOGLE_API_KEY=your_key_here'', [],
      ''# Mistral'', ''# MISTRAL_API_KEY=your_key_here'', [],
      ''# Groq'', ''# GROQ_API_KEY=your_key_here'', []]"

definition env_template_js :: "string list" where
  "env_template_js =
     [''# Roo Pilot API Keys'', ''# Uncomment and add your API keys below'', [],
      ''# Groq'', ''# GROQ_API_KEY=your_key_here'', [],
      ''# Anthropic (Claude)'', ''# ANTHROPIC_API_KEY=your_key_here'', [],
      ''# OpenAI'', ''# OPENAI_API_KEY=your_key_here'', [],
      ''# Mistral'', ''# MISTRAL_API_KEY=your_key_here'', [],
      ''# MCP Server Configuration'', ''# MCP_SERVER_ADDRESS=http://localhost:3000'',
      ''# CHECK_MCP_ON_START=false'', []]"

definition createEnvTemplate :: "string list \<Rightarrow> world \<Rightarrow> 'a session_scheme \<Rightarrow> 'a session_scheme step" where
  "createEnvTemplate template_lines w s =
     (let filePath = path_join w (w_cwd w) ''.env.template''
      in case fs_writeFile w filePath (join_with [nl] template_lines) of
           Some err \<Rightarrow> Raised err s
         | None \<Rightarrow>
             Awaiting (say ''Copy this file to .env and add your API keys.''
                        (say (''Created .env.template file at '' @ filePath) s)))"

text \<open>The commands \<^verbatim>\<open>read\<close>, \<^verbatim>\<open>write\<close> and \<^verbatim>\<open>ls\<close>, the same text in both files. Each is
  given what follows the command word. Whatever string the file operation returns is
  printed and put into a new entry of the history. The path of \<^verbatim>\<open>write\<close> is the text up
  to the first space, its content what follows that space; the path of \<^verbatim>\<open>ls\<close> defaults
  to the current directory.\<close>

definition read_command :: "world \<Rightarrow> string \<Rightarrow> 'a session_scheme \<Rightarrow> 'a session_scheme" where
  "read_command w rest s =
     (let filePath = trim rest
      in if filePath = [] then say ''Please specify a file path to read.'' s
         else
           (let content = readFile w (config s) filePath
            in push (User, ''Here'' @ [apostrophe] @ ''s the content of '' @ filePath @ '':'' @
                           [nl, nl] @ content)
                 (say content s)))"

definition write_path :: "string \<Rightarrow> string" where
  "write_path rest = takeWhile (\<lambda>c. c \<noteq> CHR '' '') (trim rest)"

definition write_content :: "string \<Rightarrow> string" where
  "write_content rest = drop (length (write_path rest) + 1) (trim rest)"

definition write_command :: "world \<Rightarrow> string \<Rightarrow> 'a session_scheme \<Rightarrow> 'a session_scheme" where
  "write_command w rest s =
     (let filePath = write_path rest;
          content = write_content rest
      in if filePath = [] \<or> content = [] then say ''Usage: /write path content'' s
         else
           (let result = writeFile w (config s) filePath content
            in push (User, ''I'' @ [apostrophe] @ ''ve written the following content to '' @
                           filePath @ '':'' @ [nl, nl] @ content)
                 (say result s)))"

definition ls_path :: "string \<Rightarrow> string" where
  "ls_path rest = (if trim rest = [] then ''.'' else trim rest)"

definition ls_command :: "world \<Rightarrow> string \<Rightarrow> 'a session_scheme \<Rightarrow> 'a session_scheme" where
  "ls_command w rest s =
     (let dirPath = ls_path rest;
          content = listFiles w (config s) dirPath
      in push (User, ''Directory listing of '' @ dirPath @ '':'' @ [nl, nl] @ content)
           (say content s))"

definition clear_command :: "'a session_scheme \<Rightarrow> 'a session_scheme" where
  "clear_command s =
     say ''Chat history cleared.'' (s\<lparr>chatHistory := [], printed := printed s @ [ClearScreen]\<rparr>)"

text \<open>The command \<^verbatim>\<open>models\<close> of roo-cli.ts: the list, a prompt for a number, and the
  change of model when the number is in range.\<close>

definition padStart2 :: "string \<Rightarrow> string" where
  "padStart2 t = (if length t < 2 then replicate (2 - length t) CHR '' '' @ t else t)"

definition model_line_ts :: "jobject \<Rightarrow> nat \<times> ModelMetadata \<Rightarrow> out" where
  "model_line_ts c = (\<lambda>(i, m).
     Line ((if map_of c ''model'' = Some (JStr (name m)) then ''>'' else '' '') @ '' '' @
           padStart2 (show_nat (i + 1)) @ ''. '' @
           (if supportsVision m then ''(eye) '' else ''   '') @ displayName m @ '' ('' @
           show_nat ((contextWindow m + 500) div 1000) @ ''K ctx)''))"

definition models_command_ts :: "world \<Rightarrow> 'a session_scheme \<Rightarrow> 'a session_scheme" where
  "models_command_ts w s =
     (let modelsMetadata = getProviderModelsMetadata_ts (field_or_undefined (config s) ''apiProvider'');
          s1 = s\<lparr>printed := printed s @
                  [Line (nl # ''Available models for current provider:''),
                   Shown (nl # ''Provider: '') (field_or_undefined (config s) ''apiProvider'') [],
                   Line ''Select a model by entering the number:'', Line []] @
                  map (model_line_ts (config s)) (zip [0..<length modelsMetadata] modelsMetadata) @
                  [Line [], Line ''Enter model number to select, or press Enter to cancel:'']\<rparr>;
          (answer, s2) = ask w [] s1;
          invalid = (if trim answer \<noteq> [] then say (nl # ''Invalid selection: '' @ answer) s2 else s2)
      in case parseInt (trim answer) of
           None \<Rightarrow> invalid
         | Some n \<Rightarrow>
             if 0 < n \<and> n \<le> int (length modelsMetadata) then
               (let selectedModel = modelsMetadata ! (nat n - 1);
                    s3 = say (nl # ''Model changed to: '' @ displayName selectedModel)
                           (saveConfig
                              (set_field ''isVisionEnabled'' (JBool (supportsVision selectedModel))
                                 (set_field ''model'' (JStr (name selectedModel)) s2)))
                in if supportsVision selectedModel
                   then say ''This model supports vision/images.'' s3 else s3)
             else invalid)"

text \<open>One pass of the body of the loop of \<^verbatim>\<open>runChatLoop\<close> in roo-cli.ts, for the line
  read at the main prompt.\<close>

definition dispatch_ts :: "world \<Rightarrow> string \<Rightarrow> 'a session_scheme \<Rightarrow> 'a session_scheme step" where
  "dispatch_ts w input s =
     (if prefix ''/'' input then
        (let command = trim (drop 1 input)
         in if command = ''exit'' \<or> command = ''quit'' then Exited (say ''Goodbye!'' s)
            else if command = ''help'' then Awaiting (s\<lparr>printed := printed s @ help_ts\<rparr>)
            else if command = ''clear'' then Awaiting (clear_command s)
            else if prefix ''config'' command
              then Awaiting (handleConfigCommand_ts w (trim (drop 6 command)) s)
            else if command = ''env'' then createEnvTemplate env_template_ts w s
            else if prefix ''read'' command then Awaiting (read_command w (drop 4 command) s)
            else if prefix ''write'' command then Awaiting (write_command w (drop 5 command) s)
            else if prefix ''ls'' command then Awaiting (ls_command w (drop 2 command) s)
            else if command = ''models'' then Awaiting (models_command_ts w s)
            else Awaiting (say (''Unknown command: '' @ command) s))
      else processUserInput_ts w input s)"

text \<open>
  The commands run-full-cli.js adds. \<^verbatim>\<open>showModelsMenu\<close> is called without \<^verbatim>\<open>await\<close>: the
  handler goes on as soon as the menu has printed its first line, and the rest of the
  menu runs later. \<^verbatim>\<open>MCP_MODES[modeName]\<close> for an inherited name is a value whose text is
  not modelled; the line that shows it ends with the name.
\<close>

definition modes_command :: "'a session_scheme \<Rightarrow> 'a session_scheme" where
  "modes_command s =
     s\<lparr>printed := printed s @ [Line (nl # ''Available Modes:'')] @
          map (\<lambda>(k, n). marked_line (map_of (config s) ''mode'' = Some (JStr k)) k n) MCP_MODES @
          [Line [], Line ''To switch modes: /mode [name]'', Line []]\<rparr>"

definition mode_command :: "string \<Rightarrow> 'a session_scheme \<Rightarrow> 'a session_scheme" where
  "mode_command rest s =
     (let modeName = toLowerCase (trim rest)
      in if mode_known_js modeName then
           say (''Mode switched to: '' @ modeName @ '' - '' @
                (case map_of MCP_MODES modeName of Some d \<Rightarrow> d | None \<Rightarrow> modeName))
             (saveConfig (set_field ''mode'' (JStr modeName) s))
         else
           s\<lparr>printed := printed s @
                [Line (''Unknown mode: '' @ modeName), Line ''Available modes:''] @
                map (\<lambda>(m, d). Line (''  '' @ m @ '': '' @ d)) MCP_MODES\<rparr>)"

text \<open>\<^verbatim>\<open>handleMcpCommand\<close>; every failure of the server is caught and printed. A tool
  that succeeds gives two texts of its result, the one printed and the one recorded.\<close>

definition handleMcpCommand :: "world \<Rightarrow> string \<Rightarrow> 'a session_scheme \<Rightarrow> 'a session_scheme" where
  "handleMcpCommand w subCommand s =
     (let serverAddress = (if env_set (w_env w) ''MCP_SERVER_ADDRESS''
                           then JStr (env_val (w_env w) ''MCP_SERVER_ADDRESS'')
                           else field_or_undefined (config s) ''mcpServerAddress'')
      in if \<not> truthy serverAddress then
           say ''Or add MCP_SERVER_ADDRESS to your .env file''
             (say ''Set it with: /config mcpServerAddress=http://localhost:3000''
                (say ''MCP Server address not configured.'' s))
         else case mcp_check w serverAddress of
           NotConnected msg \<Rightarrow>
             say (''Error: '' @ msg)
               (s\<lparr>printed := printed s @ [Shown ''Cannot connect to MCP Server at '' serverAddress []]\<rparr>)
         | Connected server \<Rightarrow>
             (let s1 = say (''Connected to MCP Server: '' @ server) s
              in if subCommand = [] then
                   (case mcp_tools w serverAddress of
                      Inr tools \<Rightarrow>
                        s1\<lparr>printed := printed s1 @ [Line (nl # ''Available MCP Tools:'')] @
                              map (\<lambda>(n, d). Line (n @ '': '' @ d)) tools @
                              [Line (nl # ''To use a tool:''), Line ''/mcp [tool_name] [parameters]'']\<rparr>
                    | Inl msg \<Rightarrow> say (''Error listing MCP tools: '' @ msg) s1)
                 else
                   (let toolName = takeWhile (\<lambda>c. c \<noteq> CHR '' '') subCommand;
                        params = (if CHR '' '' \<in> set subCommand
                                  then json_params w (drop (length toolName + 1) subCommand)
                                  else Inr ''{}'')
                    in case params of
                         Inl msg \<Rightarrow>
                           say ''Parameters must be valid JSON''
                             (say (''Error parsing parameters: '' @ msg) s1)
                       | Inr paramsText \<Rightarrow>
                           (let s2 = say (''Executing MCP tool: '' @ toolName) s1
                            in case mcp_use w serverAddress toolName paramsText of
                                 Inr (shown, recorded) \<Rightarrow>
                                   push (User, ''I executed MCP tool '' @ toolName @
                                               '' with parameters: '' @ paramsText @ ''.'' @ [nl] @
                                               ''Result: '' @ recorded)
                                     (say shown (say ''Tool execution successful:'' s2))
                               | Inl msg \<Rightarrow> say (''Tool execution failed: '' @ msg) s2))))"

text \<open>The handler of the event \<^verbatim>\<open>line\<close> in run-full-cli.js.\<close>

definition dispatch_js :: "world \<Rightarrow> string \<Rightarrow> js_session \<Rightarrow> js_session step" where
  "dispatch_js w input s =
     (if trim input = [] then Awaiting s
      else if prefix ''/'' input then
        (let command = trim (drop 1 input)
         in if command = ''exit'' \<or> command = ''quit''
              then Exited (say ''Goodbye! Thanks for using Roo Pilot CLI.'' s)
            else if command = ''help'' then Awaiting (s\<lparr>printed := printed s @ help_js\<rparr>)
            else if command = ''clear'' then Awaiting (clear_command s)
            else if prefix ''config'' command
              then Awaiting (handleConfigCommand_js w (trim (drop 6 command)) s)
            else if command = ''env'' then createEnvTemplate env_template_js w s
            else if prefix ''read'' command then Awaiting (read_command w (drop 4 command) s)
            else if prefix ''write'' command then Awaiting (write_command w (drop 5 command) s)
            else if prefix ''ls'' command then Awaiting (ls_command w (drop 2 command) s)
            else if command = ''models''
              then Awaiting (say (nl # ''Fetching available models for current provider...'') s)
            else if command = ''modes'' then Awaiting (modes_command s)
            else if prefix ''mode '' command then Awaiting (mode_command (drop 5 command) s)
            else if command = ''mcp'' then Awaiting (handleMcpCommand w [] s)
            else if prefix ''mcp '' command
              then Awaiting (handleMcpCommand w (trim (drop 4 command)) s)
            else Awaiting (say (''Unknown command: '' @ command) s))
      else chat_js w input s)"

section \<open>Notions used to state the properties\<close>

text \<open>
  A configuration has selected a provider when it names the provider, holds the given
  key and the given model, and agrees with the defaults on every other field. Only the
  variable \<open>x\<close> of a table of variables is set when \<open>x\<close> is set and no other variable of the
  table is. No variable of the table is blank when each one that is set has a character
  that is not white space.
\<close>

definition selected :: "jobject \<Rightarrow> string \<Rightarrow> string \<Rightarrow> string option \<Rightarrow> jobject \<Rightarrow> bool" where
  "selected c p key m defaults =
     (map_of c ''apiProvider'' = Some (JStr p) \<and>
      map_of c ''apiKey'' = Some (JStr key) \<and>
      map_of c ''model'' = map_option JStr m \<and>
      (\<forall>k. k \<noteq> ''apiProvider'' \<and> k \<noteq> ''apiKey'' \<and> k \<noteq> ''model'' \<longrightarrow>
           map_of c k = map_of defaults k))"

definition only_set :: "env \<Rightarrow> (string \<times> string) list \<Rightarrow> string \<Rightarrow> bool" where
  "only_set e vars x = (env_set e x \<and> list_all (\<lambda>(q, y). y = x \<or> \<not> env_set e y) vars)"

definition none_blank :: "env \<Rightarrow> (string \<times> string) list \<Rightarrow> bool" where
  "none_blank e vars = list_all (\<lambda>(q, y). env_set e y \<longrightarrow> trim (env_val e y) \<noteq> []) vars"




text \<open>
  The session a step ends in, and whether the step ends waiting for the next line. A
  step answers a line with a text and a history entry when it ends waiting, has printed
  that text as one more line, has appended that entry, as a message of the user, to the
  history, and has left the configuration and its file alone.
\<close>

definition session_of :: "'a step \<Rightarrow> 'a" where
  "session_of r = (case r of Awaiting s \<Rightarrow> s | Exited s \<Rightarrow> s | Raised err s \<Rightarrow> s)"

definition awaiting :: "'a step \<Rightarrow> bool" where
  "awaiting r = (case r of Awaiting s \<Rightarrow> True | Exited s \<Rightarrow> False | Raised err s \<Rightarrow> False)"

definition answers_with ::
    "'a session_scheme step \<Rightarrow> 'a session_scheme \<Rightarrow> string \<Rightarrow> string \<Rightarrow> bool" where
  "answers_with r s shown entry =
     (awaiting r \<and>
      printed (session_of r) = printed s @ [Line shown] \<and>
      chatHistory (session_of r) = chatHistory s @ [(User, entry)] \<and>
      config (session_of r) = config s \<and> disk (session_of r) = disk s)"

section \<open>A world for examples\<close>

text \<open>The world in which the examples below are run: an empty environment, a file
  system on which nothing exists and nothing can be written, and a network that is down.\<close>

definition offline_world :: world where
  "offline_world =
     \<lparr>w_env = Map.empty, w_cwd = ''/w'', typed = (\<lambda>n. []),
      path_isAbsolute = (\<lambda>p. prefix ''/'' p), path_join = (\<lambda>a b. a @ ''/'' @ b),
      path_dirname = (\<lambda>p. ''/w''), join_error = ''TypeError'',
      fs_exists = (\<lambda>p. False), fs_readFile = (\<lambda>p. Inl ''ENOENT''),
      fs_mkdir = (\<lambda>p. Some ''EACCES''), fs_writeFile = (\<lambda>p c. Some ''EACCES''),
      fs_readdir = (\<lambda>p. Inl ''ENOENT''), execSync = (\<lambda>c. Inl ''failed''),
      buildApiHandler = (\<lambda>c. None), createMessage = (\<lambda>c h. ([], Some ''fetch failed'')),
      formatResponse = (\<lambda>r. r), parseAssistantMessage = (\<lambda>r. []),
      tool_allowed = (\<lambda>c t. False), mode_name = (\<lambda>c. ''default''),
      request_js = (\<lambda>c h. Inl ''fetch failed''), isAskingForCommand = (\<lambda>i. False),
      fetched_models = (\<lambda>p. Inl ''fetch failed''), mcp_check = (\<lambda>a. NotConnected ''fetch failed''),
      mcp_tools = (\<lambda>a. Inl ''fetch failed''), mcp_use = (\<lambda>a n p. Inl ''fetch failed''),
      json_params = (\<lambda>p. Inl ''Unexpected token'')\<rparr>"

section \<open>Verified properties\<close>

subsection \<open>Basic facts\<close>

text \<open>A spread looks a key up in the overriding members first; on objects without
  repeated keys the last member of a name is the only one.\<close>

lemma map_of_spread:
  "map_of (spread a b) k = (case member_of b k of Some v \<Rightarrow> Some v | None \<Rightarrow> map_of a k)"
proof (induction b arbitrary: a)
  case Nil
  then show ?case by (simp add: spread_def member_of_def)
next
  case (Cons x b)
  obtain k' v' where x: "x = (k', v')" by (cases x)
  have "map_of (spread a (x # b)) k = map_of (spread (AList.update k' v' a) b) k"
    by (simp add: spread_def x)
  also have "\<dots> = (case member_of b k of Some v \<Rightarrow> Some v | None \<Rightarrow> map_of (AList.update k' v' a) k)"
    by (rule Cons.IH)
  also have "\<dots> = (case member_of (x # b) k of Some v \<Rightarrow> Some v | None \<Rightarrow> map_of a k)"
    by (simp add: member_of_def x update_conv' map_add_def split: option.splits)
  finally show ?case .
qed

lemma config_say [simp]: "config (say l s) = config s"
  and disk_say [simp]: "disk (say l s) = disk s"
  and chatHistory_say [simp]: "chatHistory (say l s) = chatHistory s"
  and printed_say [simp]: "printed (say l s) = printed s @ [Line l]"
  and prompts_say [simp]: "prompts (say l s) = prompts s"
  by (simp_all add: say_def)

lemma config_set_field [simp]: "config (set_field k v s) = AList.update k v (config s)"
  and disk_set_field [simp]: "disk (set_field k v s) = disk s"
  and chatHistory_set_field [simp]: "chatHistory (set_field k v s) = chatHistory s"
  and printed_set_field [simp]: "printed (set_field k v s) = printed s"
  and prompts_set_field [simp]: "prompts (set_field k v s) = prompts s"
  by (simp_all add: set_field_def)

lemma config_saveConfig [simp]: "config (saveConfig s) = config s"
  and disk_saveConfig [simp]: "disk (saveConfig s) = Some (Document (config s))"
  and chatHistory_saveConfig [simp]: "chatHistory (saveConfig s) = chatHistory s"
  and printed_saveConfig [simp]: "printed (saveConfig s) = printed s"
  and prompts_saveConfig [simp]: "prompts (saveConfig s) = prompts s"
  by (simp_all add: saveConfig_def)

lemma env_override_ts_other:
  "k \<noteq> ''apiKey'' \<Longrightarrow> map_of (config (env_override_ts e s)) k = map_of (config s) k"
  by (simp add: env_override_ts_def update_conv')

lemma env_override_ts_frame [simp]:
  "disk (env_override_ts e s) = disk s"
  "chatHistory (env_override_ts e s) = chatHistory s"
  "printed (env_override_ts e s) = printed s"
  by (simp_all add: env_override_ts_def)

lemma migrate_ts_legacy:
  assumes "map_of (config s) ''apiProvider'' = Some (JStr ''groq'')"
    and "map_of (config s) ''model'' = Some (JStr ''llama-3-70b-8192'')"
    and "\<not> env_set e ''DISABLE_AUTO_UPGRADE''"
  shows "config (migrateModelNames e s) = AList.update ''model'' (JStr ''llama3-3-70b-versatile'') (AList.update ''model'' (JStr ''llama3-70b-8192'') (config s))"
    and "disk (migrateModelNames e s) = Some (Document (config (migrateModelNames e s)))"
  using assms
  by (simp_all add: migrateModelNames_def migrate_groq_ts_def migrate_anthropic_ts_def
      provider_is_def model_is_def update_conv' Let_def)

lemma migrate_ts_current:
  assumes "map_of (config s) ''apiProvider'' = Some (JStr ''groq'')"
    and "map_of (config s) ''model'' = Some (JStr ''llama3-3-70b-versatile'')"
  shows "migrateModelNames e s = s"
  using assms
  by (simp add: migrateModelNames_def migrate_groq_ts_def migrate_anthropic_ts_def
      provider_is_def model_is_def update_conv' Let_def)

lemma member_of_distinct: "distinct (map fst c) \<Longrightarrow> member_of c k = map_of c k"
proof (induction c)
  case Nil
  then show ?case by (simp add: member_of_def)
next
  case (Cons x c)
  obtain k' v' where x: "x = (k', v')" by (cases x)
  from Cons.prems have d: "distinct (map fst c)" and nk: "k' \<notin> fst ` set c" by (auto simp: x)
  have "member_of (x # c) k = (case member_of c k of Some v \<Rightarrow> Some v | None \<Rightarrow> map_of [x] k)"
    by (simp add: member_of_def map_add_def split: option.splits)
  also have "\<dots> = (case map_of c k of Some v \<Rightarrow> Some v | None \<Rightarrow> map_of [x] k)"
    using Cons.IH [OF d] by simp
  also have "\<dots> = map_of (x # c) k"
  proof (cases "k = k'")
    case True
    with nk have "map_of c k = None" by (simp add: map_of_eq_None_iff)
    then show ?thesis by (simp add: x True)
  next
    case False
    then show ?thesis by (simp add: x split: option.splits)
  qed
  finally show ?case .
qed

lemma distinct_spread: "distinct (map fst a) \<Longrightarrow> distinct (map fst (spread a b))"
proof (induction b arbitrary: a)
  case Nil
  then show ?case by (simp add: spread_def)
next
  case (Cons x b)
  obtain k' v' where x: "x = (k', v')" by (cases x)
  have "distinct (map fst (AList.update k' v' a))" using Cons.prems by (rule distinct_update)
  from Cons.IH [OF this] show ?case by (simp add: spread_def x)
qed

lemma distinct_DEFAULT_ts: "distinct (map fst (DEFAULT_CONFIG_ts e cwd))"
  by (simp add: DEFAULT_CONFIG_ts_def)

lemma distinct_DEFAULT_js: "distinct (map fst (DEFAULT_CONFIG_js e cwd))"
  by (simp add: DEFAULT_CONFIG_js_def)

lemma migrate_js_legacy:
  assumes "map_of (config s) ''apiProvider'' = Some (JStr ''groq'')"
    and "map_of (config s) ''model'' = Some (JStr ''llama-3-70b-8192'')"
  shows "config (migrate_js s) = AList.update ''model'' (JStr ''llama-3.3-70b-versatile'') (AList.update ''model'' (JStr ''llama3-70b-8192'') (config s))"
    and "disk (migrate_js s) = Some (Document (config (migrate_js s)))"
  using assms
  by (simp_all add: migrate_js_def provider_is_def model_is_def update_conv' Let_def)

lemma migrate_js_current:
  assumes "map_of (config s) ''model'' = Some (JStr ''llama-3.3-70b-versatile'')"
  shows "migrate_js s = s"
  using assms
  by (simp add: migrate_js_def provider_is_def model_is_def update_conv' Let_def)

lemma resolve_key_js_other:
  "k \<noteq> ''apiKey'' \<Longrightarrow> k \<noteq> ''apiProvider'' \<Longrightarrow>
   map_of (config (resolve_key_js e s)) k = map_of (config s) k"
  by (simp add: resolve_key_js_def update_conv' Let_def split: list.splits)

lemma resolve_key_js_frame [simp]:
  "disk (resolve_key_js e s) = disk s"
  "chatHistory (resolve_key_js e s) = chatHistory s"
  by (simp_all add: resolve_key_js_def Let_def split: list.splits)

subsection \<open>Malformed configuration file\<close>

text \<open>
  Claim C8. If the configuration file exists but \<^verbatim>\<open>JSON.parse\<close> rejects its text, loading
  does not end the process: the error is caught, two lines are printed (the error and
  the notice that defaults are used), and the configuration in force is the default
  configuration. In roo-cli.ts the global keeps its start-up value \<^verbatim>\<open>DEFAULT_CONFIG\<close>; in
  run-full-cli.js \<^verbatim>\<open>DEFAULT_CONFIG\<close> is returned. Nothing else changes: the file and the
  history stay as they were.
\<close>

theorem C8_malformed_config_falls_back:
  "initializeConfig_ts e cwd (startup_ts e cwd (Some (Unparsable err))) =
     (startup_ts e cwd (Some (Unparsable err)))
       \<lparr>printed := [Line (''Error reading config file: '' @ err),
                    Line ''Using default configuration'']\<rparr>
   \<and> config (initializeConfig_ts e cwd (startup_ts e cwd (Some (Unparsable err))))
       = DEFAULT_CONFIG_ts e cwd
   \<and> initializeConfig_js e cwd (startup_js (Some (Unparsable err))) =
     (startup_js (Some (Unparsable err)))
       \<lparr>config := DEFAULT_CONFIG_js e cwd,
        printed := [Line (''Error reading config file: '' @ err),
                    Line ''Using default configuration'']\<rparr>"
  by (simp add: initializeConfig_ts_def initializeConfig_js_def startup_ts_def startup_js_def say_def)

subsection \<open>Migration of legacy model names\<close>

lemma migrate_js_pending [simp]: "pending (migrate_js s) = pending s"
  by (simp add: migrate_js_def Let_def say_def saveConfig_def set_field_def)

lemma resolve_key_js_stays:
  assumes "map_of (config s) ''apiProvider'' = Some (JStr ''groq'')"
    and "key_truthy_js e ''groq'' \<or> available_js e = []"
  shows "pending (resolve_key_js e s) = pending s"
  using assms
  by (auto simp add: resolve_key_js_def provider_key_js_def key_truthy_js_def Let_def set_field_def
      split: option.splits list.splits)

lemma settle_js_none: "pending t = None \<Longrightarrow> settle_js w t = t"
  by (simp add: settle_js_def)

text \<open>
  Claim C1, as amended. A configuration file whose provider is \<^verbatim>\<open>groq\<close> and whose model
  is the legacy name \<^verbatim>\<open>llama-3-70b-8192\<close> is loaded with the model rewritten to the
  current Llama 3.3 name of the variant (\<^verbatim>\<open>llama3-3-70b-versatile\<close> in roo-cli.ts,
  \<^verbatim>\<open>llama-3.3-70b-versatile\<close> in run-full-cli.js); the rewritten configuration is saved
  to the file; and a second load of that file, from any session, leaves the model and the
  file as they are. In roo-cli.ts this holds in any two environments of which the first
  does not set \<^verbatim>\<open>DISABLE_AUTO_UPGRADE\<close>. In run-full-cli.js it holds for the session as it
  is once the load has settled, in any two environments in which the loader does not
  leave \<^verbatim>\<open>groq\<close> for another provider: \<^verbatim>\<open>GROQ_API_KEY\<close> is set, or no key of any provider is
  available.
\<close>

theorem C1_legacy_groq_model_migrated:
  assumes prov: "member_of d ''apiProvider'' = Some (JStr ''groq'')"
    and legacy: "member_of d ''model'' = Some (JStr ''llama-3-70b-8192'')"
  shows "(\<not> env_set e ''DISABLE_AUTO_UPGRADE'' \<longrightarrow>
           (let s1 = initializeConfig_ts e cwd (s\<lparr>disk := Some (Document d)\<rparr>);
                s2 = initializeConfig_ts e' cwd' (s'\<lparr>disk := disk s1\<rparr>)
            in map_of (config s1) ''model'' = Some (JStr ''llama3-3-70b-versatile'')
             \<and> (\<exists>c. disk s1 = Some (Document c)
                    \<and> map_of c ''model'' = Some (JStr ''llama3-3-70b-versatile''))
             \<and> map_of (config s2) ''model'' = Some (JStr ''llama3-3-70b-versatile'')
             \<and> disk s2 = disk s1))
       \<and> ((key_truthy_js e ''groq'' \<or> available_js e = []) \<and>
          (key_truthy_js e' ''groq'' \<or> available_js e' = []) \<and>
          pending t = None \<and> pending t' = None \<longrightarrow>
           (let t1 = loaded_js w e cwd (t\<lparr>disk := Some (Document d)\<rparr>);
                t2 = loaded_js w' e' cwd' (t'\<lparr>disk := disk t1\<rparr>)
            in map_of (config t1) ''model'' = Some (JStr ''llama-3.3-70b-versatile'')
             \<and> (\<exists>c. disk t1 = Some (Document c)
                    \<and> map_of c ''model'' = Some (JStr ''llama-3.3-70b-versatile''))
             \<and> map_of (config t2) ''model'' = Some (JStr ''llama-3.3-70b-versatile'')
             \<and> disk t2 = disk t1))"
proof (intro conjI impI)
  assume upgrade: "\<not> env_set e ''DISABLE_AUTO_UPGRADE''"
  define D where "D = DEFAULT_CONFIG_ts e cwd"
  define a where "a = s\<lparr>disk := Some (Document d), config := spread D d\<rparr>"
  define c where "c = config (migrateModelNames e a)"
  have a_prov: "map_of (config a) ''apiProvider'' = Some (JStr ''groq'')"
    and a_model: "map_of (config a) ''model'' = Some (JStr ''llama-3-70b-8192'')"
    by (simp_all add: a_def map_of_spread prov legacy)
  have c_eq: "c = AList.update ''model'' (JStr ''llama3-3-70b-versatile'')
                    (AList.update ''model'' (JStr ''llama3-70b-8192'') (spread D d))"
    unfolding c_def using migrate_ts_legacy(1) [OF a_prov a_model upgrade] by (simp add: a_def)
  have c_disk: "disk (migrateModelNames e a) = Some (Document c)"
    unfolding c_def by (rule migrate_ts_legacy(2) [OF a_prov a_model upgrade])
  have c_model: "map_of c ''model'' = Some (JStr ''llama3-3-70b-versatile'')"
    and c_prov: "map_of c ''apiProvider'' = Some (JStr ''groq'')"
    using a_prov by (simp_all add: c_eq update_conv' a_def)
  have c_dist: "distinct (map fst c)"
    unfolding c_eq D_def by (intro distinct_update distinct_spread distinct_DEFAULT_ts)
  define s1 where "s1 = initializeConfig_ts e cwd (s\<lparr>disk := Some (Document d)\<rparr>)"
  have s1_eq: "s1 = env_override_ts e (migrateModelNames e a)"
    by (simp add: s1_def initializeConfig_ts_def a_def D_def)
  have s1_model: "map_of (config s1) ''model'' = Some (JStr ''llama3-3-70b-versatile'')"
    using c_model by (simp add: s1_eq env_override_ts_other c_def)
  have s1_disk: "disk s1 = Some (Document c)"
    by (simp add: s1_eq c_disk)
  define b where "b = s'\<lparr>disk := Some (Document c), config := spread (DEFAULT_CONFIG_ts e' cwd') c\<rparr>"
  have b_prov: "map_of (config b) ''apiProvider'' = Some (JStr ''groq'')"
    and b_model: "map_of (config b) ''model'' = Some (JStr ''llama3-3-70b-versatile'')"
    by (simp_all add: b_def map_of_spread member_of_distinct [OF c_dist] c_prov c_model)
  define s2 where "s2 = initializeConfig_ts e' cwd' (s'\<lparr>disk := disk s1\<rparr>)"
  have s2_eq: "s2 = env_override_ts e' b"
    by (simp add: s2_def s1_disk initializeConfig_ts_def migrate_ts_current [OF b_prov b_model]
        flip: b_def)
  have s2_model: "map_of (config s2) ''model'' = Some (JStr ''llama3-3-70b-versatile'')"
    by (simp add: s2_eq env_override_ts_other b_model)
  have s2_disk: "disk s2 = disk s1"
    by (simp add: s2_eq s1_disk b_def)
  show "let s1 = initializeConfig_ts e cwd (s\<lparr>disk := Some (Document d)\<rparr>);
            s2 = initializeConfig_ts e' cwd' (s'\<lparr>disk := disk s1\<rparr>)
        in map_of (config s1) ''model'' = Some (JStr ''llama3-3-70b-versatile'')
         \<and> (\<exists>c. disk s1 = Some (Document c)
                \<and> map_of c ''model'' = Some (JStr ''llama3-3-70b-versatile''))
         \<and> map_of (config s2) ''model'' = Some (JStr ''llama3-3-70b-versatile'')
         \<and> disk s2 = disk s1"
    using s1_model s1_disk c_model s2_model s2_disk
    unfolding Let_def s1_def [symmetric] s2_def [symmetric] by blast
next
  assume stay: "(key_truthy_js e ''groq'' \<or> available_js e = []) \<and>
          (key_truthy_js e' ''groq'' \<or> available_js e' = []) \<and>
          pending t = None \<and> pending t' = None"
  define D where "D = DEFAULT_CONFIG_js e cwd"
  define a where "a = t\<lparr>disk := Some (Document d), config := spread D d\<rparr>"
  define c where "c = config (migrate_js a)"
  have a_prov: "map_of (config a) ''apiProvider'' = Some (JStr ''groq'')"
    and a_model: "map_of (config a) ''model'' = Some (JStr ''llama-3-70b-8192'')"
    by (simp_all add: a_def map_of_spread prov legacy)
  have c_eq: "c = AList.update ''model'' (JStr ''llama-3.3-70b-versatile'')
                    (AList.update ''model'' (JStr ''llama3-70b-8192'') (spread D d))"
    unfolding c_def using migrate_js_legacy(1) [OF a_prov a_model] by (simp add: a_def)
  have c_disk: "disk (migrate_js a) = Some (Document c)"
    unfolding c_def by (rule migrate_js_legacy(2) [OF a_prov a_model])
  have c_model: "map_of c ''model'' = Some (JStr ''llama-3.3-70b-versatile'')"
    and c_prov: "map_of c ''apiProvider'' = Some (JStr ''groq'')"
    using a_prov by (simp_all add: c_eq update_conv' a_def)
  have c_dist: "distinct (map fst c)"
    unfolding c_eq D_def by (intro distinct_update distinct_spread distinct_DEFAULT_js)
  define t1 where "t1 = loaded_js w e cwd (t\<lparr>disk := Some (Document d)\<rparr>)"
  have "pending (resolve_key_js e (migrate_js a)) = None"
    using resolve_key_js_stays [of "migrate_js a" e] c_prov stay by (simp add: c_def a_def)
  then have t1_eq: "t1 = resolve_key_js e (migrate_js a)"
    by (simp add: t1_def loaded_js_def initializeConfig_js_def a_def D_def settle_js_none)
  have t1_model: "map_of (config t1) ''model'' = Some (JStr ''llama-3.3-70b-versatile'')"
    using c_model by (simp add: t1_eq resolve_key_js_other c_def)
  have t1_disk: "disk t1 = Some (Document c)"
    by (simp add: t1_eq c_disk)
  define b where "b = t'\<lparr>disk := Some (Document c), config := spread (DEFAULT_CONFIG_js e' cwd') c\<rparr>"
  have b_model: "map_of (config b) ''model'' = Some (JStr ''llama-3.3-70b-versatile'')"
    and b_prov: "map_of (config b) ''apiProvider'' = Some (JStr ''groq'')"
    by (simp_all add: b_def map_of_spread member_of_distinct [OF c_dist] c_model c_prov)
  define t2 where "t2 = loaded_js w' e' cwd' (t'\<lparr>disk := disk t1\<rparr>)"
  have "pending (resolve_key_js e' b) = None"
    using resolve_key_js_stays [of b e'] b_prov stay by (simp add: b_def)
  then have t2_eq: "t2 = resolve_key_js e' b"
    by (simp add: t2_def t1_disk loaded_js_def initializeConfig_js_def
        migrate_js_current [OF b_model] settle_js_none flip: b_def)
  have t2_model: "map_of (config t2) ''model'' = Some (JStr ''llama-3.3-70b-versatile'')"
    by (simp add: t2_eq resolve_key_js_other b_model)
  have t2_disk: "disk t2 = disk t1"
    by (simp add: t2_eq t1_disk b_def)
  show "let t1 = loaded_js w e cwd (t\<lparr>disk := Some (Document d)\<rparr>);
            t2 = loaded_js w' e' cwd' (t'\<lparr>disk := disk t1\<rparr>)
        in map_of (config t1) ''model'' = Some (JStr ''llama-3.3-70b-versatile'')
         \<and> (\<exists>c. disk t1 = Some (Document c)
                \<and> map_of c ''model'' = Some (JStr ''llama-3.3-70b-versatile''))
         \<and> map_of (config t2) ''model'' = Some (JStr ''llama-3.3-70b-versatile'')
         \<and> disk t2 = disk t1"
    using t1_model t1_disk c_model t2_model t2_disk
    unfolding Let_def t1_def [symmetric] t2_def [symmetric] by blast
qed

text \<open>The theorem at a file that holds nothing but the two members: in an empty
  environment, and for run-full-cli.js also where \<^verbatim>\<open>GROQ_API_KEY\<close> is set.\<close>

theorem C1_legacy_groq_model_migrated_witness:
  "member_of [(''apiProvider'', JStr ''groq''), (''model'', JStr ''llama-3-70b-8192'')] ''apiProvider''
     = Some (JStr ''groq'')
   \<and> member_of [(''apiProvider'', JStr ''groq''), (''model'', JStr ''llama-3-70b-8192'')] ''model''
     = Some (JStr ''llama-3-70b-8192'')
   \<and> \<not> env_set Map.empty ''DISABLE_AUTO_UPGRADE''
   \<and> available_js Map.empty = []
   \<and> key_truthy_js (Map.empty(''GROQ_API_KEY'' \<mapsto> ''gk'')) ''groq''
   \<and> pending (startup_js None) = None
   \<and> map_of (config (initializeConfig_ts Map.empty ''/w''
        ((startup_ts Map.empty ''/w'' None)
           \<lparr>disk := Some (Document [(''apiProvider'', JStr ''groq''),
                                     (''model'', JStr ''llama-3-70b-8192'')])\<rparr>))) ''model''
     = Some (JStr ''llama3-3-70b-versatile'')
   \<and> map_of (config (loaded_js offline_world Map.empty ''/w''
        ((startup_js None)
           \<lparr>disk := Some (Document [(''apiProvider'', JStr ''groq''),
                                     (''model'', JStr ''llama-3-70b-8192'')])\<rparr>))) ''model''
     = Some (JStr ''llama-3.3-70b-versatile'')
   \<and> map_of (config (loaded_js offline_world (Map.empty(''GROQ_API_KEY'' \<mapsto> ''gk'')) ''/w''
        ((startup_js None)
           \<lparr>disk := disk (loaded_js offline_world Map.empty ''/w''
                ((startup_js None)
                   \<lparr>disk := Some (Document [(''apiProvider'', JStr ''groq''),
                                             (''model'', JStr ''llama-3-70b-8192'')])\<rparr>))\<rparr>))) ''model''
     = Some (JStr ''llama-3.3-70b-versatile'')"
proof -
  let ?d = "[(''apiProvider'', JStr ''groq''), (''model'', JStr ''llama-3-70b-8192'')]"
  have h1: "member_of ?d ''apiProvider'' = Some (JStr ''groq'')"
    by (simp add: member_of_def)
  have h2: "member_of ?d ''model'' = Some (JStr ''llama-3-70b-8192'')"
    by (simp add: member_of_def)
  have h3: "\<not> env_set Map.empty ''DISABLE_AUTO_UPGRADE''"
    by (simp add: env_set_def)
  have h4: "available_js Map.empty = []"
    by (simp add: available_js_def keys_js_def key_vars_js_def)
  have h5: "key_truthy_js (Map.empty(''GROQ_API_KEY'' \<mapsto> ''gk'')) ''groq''"
    by (simp add: key_truthy_js_def keys_js_def key_vars_js_def)
  have h6: "pending (startup_js None) = None"
    by (simp add: startup_js_def)
  from C1_legacy_groq_model_migrated [OF h1 h2, where e = Map.empty and cwd = "''/w''"
      and s = "startup_ts Map.empty ''/w'' None" and t = "startup_js None"
      and e' = "Map.empty(''GROQ_API_KEY'' \<mapsto> ''gk'')" and cwd' = "''/w''"
      and s' = "startup_ts Map.empty ''/w'' None" and t' = "startup_js None"
      and w = offline_world and w' = offline_world] h1 h2 h3 h4 h5 h6
  show ?thesis by (simp add: Let_def)
qed

text \<open>With \<^verbatim>\<open>DISABLE_AUTO_UPGRADE\<close> set, roo-cli.ts repairs the spelling of the legacy
  name and stops there: the model loaded is \<^verbatim>\<open>llama3-70b-8192\<close>, not a Llama 3.3 name.\<close>

theorem C1_upgrade_disabled_counterexample:
  "map_of (config (initializeConfig_ts (Map.empty(''DISABLE_AUTO_UPGRADE'' \<mapsto> ''1'')) ''/w''
      (startup_ts (Map.empty(''DISABLE_AUTO_UPGRADE'' \<mapsto> ''1'')) ''/w''
         (Some (Document [(''apiProvider'', JStr ''groq''),
                          (''model'', JStr ''llama-3-70b-8192'')]))))) ''model''
     = Some (JStr ''llama3-70b-8192'')
   \<and> map_of (config (initializeConfig_ts (Map.empty(''DISABLE_AUTO_UPGRADE'' \<mapsto> ''1'')) ''/w''
      (startup_ts (Map.empty(''DISABLE_AUTO_UPGRADE'' \<mapsto> ''1'')) ''/w''
         (Some (Document [(''apiProvider'', JStr ''groq''),
                          (''model'', JStr ''llama-3-70b-8192'')]))))) ''model''
     \<noteq> Some (JStr ''llama3-3-70b-versatile'')"
  by (simp add: initializeConfig_ts_def startup_ts_def spread_def DEFAULT_CONFIG_ts_def
      migrateModelNames_def migrate_groq_ts_def migrate_anthropic_ts_def env_override_ts_def
      env_set_def env_val_def provider_is_def model_is_def Let_def update_conv')

text \<open>In run-full-cli.js a load that leaves \<^verbatim>\<open>groq\<close> for another provider does not keep
  the Llama 3.3 name: with the key of Anthropic alone, the continuation of the switch
  sets the first model of Anthropic and saves it.\<close>

lemma legacy_model_after_switch_js:
  "map_of (config (loaded_js offline_world (Map.empty(''ANTHROPIC_API_KEY'' \<mapsto> ''ak'')) ''/w''
      (startup_js (Some (Document [(''apiProvider'', JStr ''groq''),
                                   (''model'', JStr ''llama-3-70b-8192'')]))))) ''model''
     = Some (JStr ''claude-3-7-sonnet-20240229'')
   \<and> (\<exists>c. disk (loaded_js offline_world (Map.empty(''ANTHROPIC_API_KEY'' \<mapsto> ''ak'')) ''/w''
          (startup_js (Some (Document [(''apiProvider'', JStr ''groq''),
                                       (''model'', JStr ''llama-3-70b-8192'')])))) = Some (Document c)
        \<and> map_of c ''apiProvider'' = Some (JStr ''anthropic'')
        \<and> map_of c ''model'' = Some (JStr ''claude-3-7-sonnet-20240229''))"
  by (simp add: loaded_js_def settle_js_def switch_continuation_js_def getAvailableModels_js_def
      fetchModelsFromProvider_def fallback_names_js_def model_included_def field_or_undefined_def
      initializeConfig_js_def startup_js_def spread_def DEFAULT_CONFIG_js_def
      migrate_js_def resolve_key_js_def provider_key_js_def keys_js_def key_vars_js_def
      key_val_js_def available_js_def provider_is_def model_is_def say_def saveConfig_def
      set_field_def env_val_def trim_def is_space_def Let_def update_conv')

subsection \<open>Loading a persisted configuration\<close>

lemma migrate_ts_other:
  "k \<noteq> ''model'' \<Longrightarrow> map_of (config (migrateModelNames e s)) k = map_of (config s) k"
  by (simp add: migrateModelNames_def migrate_groq_ts_def migrate_anthropic_ts_def
      provider_is_def model_is_def update_conv' Let_def)

lemma migrate_js_other:
  "k \<noteq> ''model'' \<Longrightarrow> map_of (config (migrate_js s)) k = map_of (config s) k"
  by (simp add: migrate_js_def provider_is_def model_is_def update_conv' Let_def)

lemma provider_var_ts_cong:
  "map_of c ''apiProvider'' = map_of c' ''apiProvider'' \<Longrightarrow> provider_var_ts c = provider_var_ts c'"
  by (simp add: provider_var_ts_def)

lemma env_override_ts_key:
  "map_of (config (env_override_ts e s)) ''apiKey'' =
     (case provider_var_ts (config s) of
        Some x \<Rightarrow> if env_set e x then Some (JStr (env_val e x)) else map_of (config s) ''apiKey''
      | None \<Rightarrow> map_of (config s) ''apiKey'')"
proof (cases "map_of (config s) ''apiProvider''")
  case None
  then show ?thesis
    by (simp add: env_override_ts_def provider_is_def provider_var_ts_def)
next
  case (Some v)
  show ?thesis
  proof (cases v)
    case (JStr p)
    with Some have p: "map_of (config s) ''apiProvider'' = Some (JStr p)" by simp
    show ?thesis
      by (simp add: env_override_ts_def provider_is_def provider_var_ts_def key_vars_ts_def p
          update_conv')
  qed (use Some in \<open>simp_all add: env_override_ts_def provider_is_def provider_var_ts_def\<close>)
qed

lemma resolve_key_js_string:
  assumes "map_of (config s) ''apiProvider'' = Some (JStr p)"
  shows "if key_truthy_js e p then
           map_of (config (resolve_key_js e s)) ''apiProvider'' = Some (JStr p) \<and>
           map_of (config (resolve_key_js e s)) ''apiKey'' = Some (JStr (key_val_js e p))
         else if available_js e \<noteq> [] then
           map_of (config (resolve_key_js e s)) ''apiProvider'' = Some (JStr (hd (available_js e))) \<and>
           map_of (config (resolve_key_js e s)) ''apiKey'' = Some (JStr (key_val_js e (hd (available_js e))))
         else
           map_of (config (resolve_key_js e s)) ''apiProvider'' = Some (JStr p) \<and>
           map_of (config (resolve_key_js e s)) ''apiKey'' = map_of (config s) ''apiKey''"
  using assms
  by (auto simp add: resolve_key_js_def provider_key_js_def key_truthy_js_def key_val_js_def
      update_conv' Let_def split: list.splits option.splits)

text \<open>
  Claim C2, as amended. When a configuration file exists, both loaders merge its members
  over the defaults, a member of the file winning over the default of the same name, and
  touch no field but the model (the migration of C1), the key and, in run-full-cli.js,
  the provider.

  In roo-cli.ts the provider stays as configured, and the key is replaced by the value of
  an environment variable exactly when that is the variable of the configured provider and
  it is set; the variables of other providers change nothing.

  In run-full-cli.js the same holds when the variable of the configured provider is set.
  When it is not, and the variable of some other provider is set and not blank, the
  loader switches to the first such provider in the order groq, anthropic, openai,
  mistral and takes its key; only when no variable is set do provider and key stay as
  merged. (The provider is a string that names no property of \<^verbatim>\<open>Object.prototype\<close>.)
\<close>

theorem C2_merge_then_override_by_provider:
  "(let merged = spread (DEFAULT_CONFIG_ts e cwd) d;
        s1 = initializeConfig_ts e cwd (s\<lparr>disk := Some (Document d)\<rparr>)
    in (\<forall>k. map_of merged k =
              (case member_of d k of Some v \<Rightarrow> Some v | None \<Rightarrow> map_of (DEFAULT_CONFIG_ts e cwd) k))
     \<and> (\<forall>k. k \<noteq> ''apiKey'' \<and> k \<noteq> ''model'' \<longrightarrow> map_of (config s1) k = map_of merged k)
     \<and> map_of (config s1) ''apiKey'' =
         (case provider_var_ts merged of
            Some x \<Rightarrow> if env_set e x then Some (JStr (env_val e x)) else map_of merged ''apiKey''
          | None \<Rightarrow> map_of merged ''apiKey''))
   \<and> (let merged = spread (DEFAULT_CONFIG_js e cwd) d;
          t1 = initializeConfig_js e cwd (t\<lparr>disk := Some (Document d)\<rparr>)
      in (\<forall>k. map_of merged k =
                (case member_of d k of Some v \<Rightarrow> Some v | None \<Rightarrow> map_of (DEFAULT_CONFIG_js e cwd) k))
       \<and> (\<forall>k. k \<noteq> ''apiKey'' \<and> k \<noteq> ''apiProvider'' \<and> k \<noteq> ''model'' \<longrightarrow>
                map_of (config t1) k = map_of merged k)
       \<and> (\<forall>p. map_of merged ''apiProvider'' = Some (JStr p) \<and> p \<notin> set object_prototype_names \<longrightarrow>
                (if key_truthy_js e p then
                   map_of (config t1) ''apiProvider'' = Some (JStr p) \<and>
                   map_of (config t1) ''apiKey'' = Some (JStr (key_val_js e p))
                 else if available_js e \<noteq> [] then
                   map_of (config t1) ''apiProvider'' = Some (JStr (hd (available_js e))) \<and>
                   map_of (config t1) ''apiKey'' = Some (JStr (key_val_js e (hd (available_js e))))
                 else
                   map_of (config t1) ''apiProvider'' = Some (JStr p) \<and>
                   map_of (config t1) ''apiKey'' = map_of merged ''apiKey'')))"
proof -
  define a where "a = s\<lparr>disk := Some (Document d), config := spread (DEFAULT_CONFIG_ts e cwd) d\<rparr>"
  define b where "b = t\<lparr>disk := Some (Document d), config := spread (DEFAULT_CONFIG_js e cwd) d\<rparr>"
  have s1: "initializeConfig_ts e cwd (s\<lparr>disk := Some (Document d)\<rparr>)
              = env_override_ts e (migrateModelNames e a)"
    by (simp add: initializeConfig_ts_def a_def)
  have t1: "initializeConfig_js e cwd (t\<lparr>disk := Some (Document d)\<rparr>)
              = resolve_key_js e (migrate_js b)"
    by (simp add: initializeConfig_js_def b_def)
  have a_cfg: "config a = spread (DEFAULT_CONFIG_ts e cwd) d"
    and b_cfg: "config b = spread (DEFAULT_CONFIG_js e cwd) d"
    by (simp_all add: a_def b_def)
  have ts_other: "map_of (config (env_override_ts e (migrateModelNames e a))) k = map_of (config a) k"
    if "k \<noteq> ''apiKey''" "k \<noteq> ''model''" for k
    using that by (simp add: env_override_ts_other migrate_ts_other)
  have ts_key: "map_of (config (env_override_ts e (migrateModelNames e a))) ''apiKey'' =
         (case provider_var_ts (config a) of
            Some x \<Rightarrow> if env_set e x then Some (JStr (env_val e x)) else map_of (config a) ''apiKey''
          | None \<Rightarrow> map_of (config a) ''apiKey'')"
    by (simp add: env_override_ts_key migrate_ts_other
        provider_var_ts_cong [of "config (migrateModelNames e a)" "config a"]
        split: option.splits)
  have js_other: "map_of (config (resolve_key_js e (migrate_js b))) k = map_of (config b) k"
    if "k \<noteq> ''apiKey''" "k \<noteq> ''apiProvider''" "k \<noteq> ''model''" for k
    using that by (simp add: resolve_key_js_other migrate_js_other)
  have js_key: "if key_truthy_js e p then
           map_of (config (resolve_key_js e (migrate_js b))) ''apiProvider'' = Some (JStr p) \<and>
           map_of (config (resolve_key_js e (migrate_js b))) ''apiKey'' = Some (JStr (key_val_js e p))
         else if available_js e \<noteq> [] then
           map_of (config (resolve_key_js e (migrate_js b))) ''apiProvider''
             = Some (JStr (hd (available_js e))) \<and>
           map_of (config (resolve_key_js e (migrate_js b))) ''apiKey''
             = Some (JStr (key_val_js e (hd (available_js e))))
         else
           map_of (config (resolve_key_js e (migrate_js b))) ''apiProvider'' = Some (JStr p) \<and>
           map_of (config (resolve_key_js e (migrate_js b))) ''apiKey'' = map_of (config b) ''apiKey''"
    if "map_of (config b) ''apiProvider'' = Some (JStr p)" for p
    using resolve_key_js_string [of "migrate_js b" p e] that by (simp add: migrate_js_other)
  have m_ts: "map_of (spread (DEFAULT_CONFIG_ts e cwd) d) k =
      (case member_of d k of Some v \<Rightarrow> Some v | None \<Rightarrow> map_of (DEFAULT_CONFIG_ts e cwd) k)" for k
    by (rule map_of_spread)
  have m_js: "map_of (spread (DEFAULT_CONFIG_js e cwd) d) k =
      (case member_of d k of Some v \<Rightarrow> Some v | None \<Rightarrow> map_of (DEFAULT_CONFIG_js e cwd) k)" for k
    by (rule map_of_spread)
  show ?thesis
    unfolding Let_def s1 t1
    apply (intro conjI allI impI)
    subgoal by (rule m_ts)
    subgoal for k using ts_other [unfolded a_cfg, of k] by simp
    subgoal by (rule ts_key [unfolded a_cfg])
    subgoal by (rule m_js)
    subgoal for k using js_other [unfolded b_cfg, of k] by simp
    subgoal for p by (rule js_key [unfolded b_cfg]) simp
    done
qed

text \<open>The theorem at a file that configures \<^verbatim>\<open>openai\<close> with a stored key, in an
  environment that sets the key of Anthropic only: roo-cli.ts keeps provider and key,
  run-full-cli.js switches to \<^verbatim>\<open>anthropic\<close>.\<close>

theorem C2_merge_then_override_by_provider_witness:
  "''apiProvider'' \<noteq> ''apiKey'' \<and> ''apiProvider'' \<noteq> ''model''
   \<and> map_of (config (initializeConfig_ts (Map.empty(''ANTHROPIC_API_KEY'' \<mapsto> ''ak'')) ''/w''
         ((startup_ts (Map.empty(''ANTHROPIC_API_KEY'' \<mapsto> ''ak'')) ''/w'' None)
            \<lparr>disk := Some (Document [(''apiProvider'', JStr ''openai''),
                                      (''apiKey'', JStr ''stored'')])\<rparr>))) ''apiProvider''
       = Some (JStr ''openai'')
   \<and> map_of (config (initializeConfig_ts (Map.empty(''ANTHROPIC_API_KEY'' \<mapsto> ''ak'')) ''/w''
         ((startup_ts (Map.empty(''ANTHROPIC_API_KEY'' \<mapsto> ''ak'')) ''/w'' None)
            \<lparr>disk := Some (Document [(''apiProvider'', JStr ''openai''),
                                      (''apiKey'', JStr ''stored'')])\<rparr>))) ''apiKey''
       = Some (JStr ''stored'')
   \<and> map_of (spread (DEFAULT_CONFIG_js (Map.empty(''ANTHROPIC_API_KEY'' \<mapsto> ''ak'')) ''/w'')
         [(''apiProvider'', JStr ''openai''), (''apiKey'', JStr ''stored'')]) ''apiProvider''
       = Some (JStr ''openai'')
   \<and> ''openai'' \<notin> set object_prototype_names
   \<and> map_of (config (initializeConfig_js (Map.empty(''ANTHROPIC_API_KEY'' \<mapsto> ''ak'')) ''/w''
         ((startup_js None)
            \<lparr>disk := Some (Document [(''apiProvider'', JStr ''openai''),
                                      (''apiKey'', JStr ''stored'')])\<rparr>))) ''apiProvider''
       = Some (JStr ''anthropic'')"
proof -
  let ?e = "Map.empty(''ANTHROPIC_API_KEY'' \<mapsto> ''ak'')"
  let ?d = "[(''apiProvider'', JStr ''openai''), (''apiKey'', JStr ''stored'')]"
  note T = C2_merge_then_override_by_provider [where e = ?e and cwd = "''/w''" and d = ?d
      and s = "startup_ts ?e ''/w'' None" and t = "startup_js None", unfolded Let_def]
  have m_ts: "map_of (spread (DEFAULT_CONFIG_ts ?e ''/w'') ?d) ''apiProvider'' = Some (JStr ''openai'')"
    "map_of (spread (DEFAULT_CONFIG_ts ?e ''/w'') ?d) ''apiKey'' = Some (JStr ''stored'')"
    by (simp_all add: spread_def DEFAULT_CONFIG_ts_def)
  have m_js: "map_of (spread (DEFAULT_CONFIG_js ?e ''/w'') ?d) ''apiProvider'' = Some (JStr ''openai'')"
    by (simp add: spread_def DEFAULT_CONFIG_js_def)
  have pv: "provider_var_ts (spread (DEFAULT_CONFIG_ts ?e ''/w'') ?d) = Some ''OPENAI_API_KEY''"
    by (simp add: provider_var_ts_def m_ts key_vars_ts_def)
  have unset: "\<not> env_set ?e ''OPENAI_API_KEY''"
    by (simp add: env_set_def)
  have proto: "''openai'' \<notin> set object_prototype_names"
    by (simp add: object_prototype_names_def)
  have untruthy: "\<not> key_truthy_js ?e ''openai''"
    by (simp add: key_truthy_js_def keys_js_def key_vars_js_def)
  have avail: "available_js ?e = [''anthropic'']"
    by (simp add: available_js_def keys_js_def key_vars_js_def trim_def is_space_def)
  have c1: "map_of (config (initializeConfig_ts ?e ''/w''
         ((startup_ts ?e ''/w'' None)\<lparr>disk := Some (Document ?d)\<rparr>))) ''apiProvider''
       = Some (JStr ''openai'')"
    using T [THEN conjunct1, THEN conjunct2, THEN conjunct1, THEN spec, of "''apiProvider''"]
    by (simp add: m_ts)
  have c2: "map_of (config (initializeConfig_ts ?e ''/w''
         ((startup_ts ?e ''/w'' None)\<lparr>disk := Some (Document ?d)\<rparr>))) ''apiKey''
       = Some (JStr ''stored'')"
    using T [THEN conjunct1, THEN conjunct2, THEN conjunct2]
    by (simp add: pv unset m_ts)
  have c3: "map_of (config (initializeConfig_js ?e ''/w''
         ((startup_js None)\<lparr>disk := Some (Document ?d)\<rparr>))) ''apiProvider''
       = Some (JStr ''anthropic'')"
    using T [THEN conjunct2, THEN conjunct2, THEN conjunct2, THEN spec, of "''openai''"]
    by (simp add: m_js proto untruthy avail)
  show ?thesis using c1 c2 c3 m_js proto by simp
qed

text \<open>run-full-cli.js, a file that configures \<^verbatim>\<open>anthropic\<close> with a stored key, and the
  variable of Groq alone in the environment: the provider and the key are both replaced.\<close>

theorem C2_provider_switch_counterexample:
  "map_of (config (initializeConfig_js (Map.empty(''GROQ_API_KEY'' \<mapsto> ''gk'')) ''/w''
      (startup_js (Some (Document [(''apiProvider'', JStr ''anthropic''),
                                   (''apiKey'', JStr ''stored'')]))))) ''apiProvider''
     = Some (JStr ''groq'')
   \<and> map_of (config (initializeConfig_js (Map.empty(''GROQ_API_KEY'' \<mapsto> ''gk'')) ''/w''
      (startup_js (Some (Document [(''apiProvider'', JStr ''anthropic''),
                                   (''apiKey'', JStr ''stored'')]))))) ''apiKey''
     = Some (JStr ''gk'')"
  by (simp add: initializeConfig_js_def startup_js_def spread_def DEFAULT_CONFIG_js_def
      migrate_js_def resolve_key_js_def provider_key_js_def keys_js_def key_vars_js_def
      available_js_def key_val_js_def trim_def is_space_def env_val_def provider_is_def
      Let_def update_conv')

subsection \<open>First run\<close>

lemma first_run_ts_fields:
  "case find (\<lambda>(p, x). env_set e x) key_vars_ts of
     None \<Rightarrow> first_run_ts e c = c
   | Some (p, x) \<Rightarrow>
       map_of (first_run_ts e (DEFAULT_CONFIG_ts e cwd)) ''apiProvider'' = Some (JStr p) \<and>
       map_of (first_run_ts e (DEFAULT_CONFIG_ts e cwd)) ''apiKey'' = Some (JStr (env_val e x)) \<and>
       map_of (first_run_ts e (DEFAULT_CONFIG_ts e cwd)) ''model''
         = map_option JStr (map_of first_run_models_ts p) \<and>
       (\<forall>k. k \<noteq> ''apiProvider'' \<and> k \<noteq> ''apiKey'' \<and> k \<noteq> ''model'' \<longrightarrow>
            map_of (first_run_ts e (DEFAULT_CONFIG_ts e cwd)) k = map_of (DEFAULT_CONFIG_ts e cwd) k)"
  by (simp add: first_run_ts_def key_vars_ts_def first_run_models_ts_def spread_def
      DEFAULT_CONFIG_ts_def)
lemma first_run_ts_selected:
  "case find (\<lambda>(p, x). env_set e x) key_vars_ts of
     None \<Rightarrow> first_run_ts e (DEFAULT_CONFIG_ts e cwd) = DEFAULT_CONFIG_ts e cwd
   | Some (p, x) \<Rightarrow>
       selected (first_run_ts e (DEFAULT_CONFIG_ts e cwd)) p (env_val e x)
         (map_of first_run_models_ts p) (DEFAULT_CONFIG_ts e cwd)"
  using first_run_ts_fields [of e "DEFAULT_CONFIG_ts e cwd" cwd]
  by (auto simp add: selected_def split: option.splits)

lemma only_set_find_ts:
  assumes "(p, x) \<in> set key_vars_ts" and "only_set e key_vars_ts x"
  shows "find (\<lambda>(p, x). env_set e x) key_vars_ts = Some (p, x)"
  using assms by (auto simp add: key_vars_ts_def only_set_def)

lemma keys_js_env:
  "(p, x) \<in> set key_vars_js \<Longrightarrow> keys_js e p = e x"
  by (auto simp add: keys_js_def key_vars_js_def)

lemma key_truthy_js_env:
  "(p, x) \<in> set key_vars_js \<Longrightarrow> key_truthy_js e p = env_set e x"
  by (simp add: key_truthy_js_def env_set_def keys_js_env)

lemma key_val_js_env:
  "(p, x) \<in> set key_vars_js \<Longrightarrow> key_val_js e p = env_val e x"
  by (simp add: key_val_js_def env_val_def keys_js_env)

lemma available_js_none_blank:
  assumes "none_blank e key_vars_js"
  shows "available_js e = filter (key_truthy_js e) [''groq'', ''anthropic'', ''openai'', ''mistral'']"
proof -
  have "(case keys_js e p of Some v \<Rightarrow> v \<noteq> [] \<and> trim v \<noteq> [] | None \<Rightarrow> False) = key_truthy_js e p"
    if "p \<in> set (map fst key_vars_js)" for p
  proof -
    from that obtain x where px: "(p, x) \<in> set key_vars_js" by auto
    with assms have "env_set e x \<longrightarrow> trim (env_val e x) \<noteq> []"
      by (auto simp add: none_blank_def list_all_iff)
    then show ?thesis
      by (auto simp add: key_truthy_js_def keys_js_env [OF px] env_set_def env_val_def
          split: option.splits)
  qed
  then have "available_js e = filter (key_truthy_js e) (map fst key_vars_js)"
    unfolding available_js_def by (intro filter_cong) auto
  then show ?thesis by (simp add: key_vars_js_def)
qed

lemma first_run_js_selected:
  assumes "none_blank e key_vars_js"
  shows "case available_js e of
           [] \<Rightarrow> snd (first_run_js e (DEFAULT_CONFIG_js e cwd)) = DEFAULT_CONFIG_js e cwd
         | p # others \<Rightarrow>
             selected (snd (first_run_js e (DEFAULT_CONFIG_js e cwd))) p (key_val_js e p)
               (first_run_model_js p) (DEFAULT_CONFIG_js e cwd)"
  unfolding available_js_none_blank [OF assms] first_run_js_def
  by (cases "key_truthy_js e ''groq''"; cases "key_truthy_js e ''anthropic''";
      cases "key_truthy_js e ''openai''"; cases "key_truthy_js e ''mistral''")
     (simp_all add: available_js_none_blank [OF assms] selected_def choose_js_def
        first_run_model_js_def spread_def DEFAULT_CONFIG_js_def)

lemma first_run_js_find:
  assumes "none_blank e key_vars_js"
  shows "case find (\<lambda>(p, x). env_set e x) key_vars_js of
           None \<Rightarrow> snd (first_run_js e (DEFAULT_CONFIG_js e cwd)) = DEFAULT_CONFIG_js e cwd
         | Some (p, x) \<Rightarrow>
             selected (snd (first_run_js e (DEFAULT_CONFIG_js e cwd))) p (env_val e x)
               (first_run_model_js p) (DEFAULT_CONFIG_js e cwd)"
proof -
  have t: "key_truthy_js e ''groq'' = env_set e ''GROQ_API_KEY''"
    "key_truthy_js e ''anthropic'' = env_set e ''ANTHROPIC_API_KEY''"
    "key_truthy_js e ''openai'' = env_set e ''OPENAI_API_KEY''"
    "key_truthy_js e ''mistral'' = env_set e ''MISTRAL_API_KEY''"
    by (simp_all add: key_truthy_js_env key_vars_js_def)
  have v: "key_val_js e ''groq'' = env_val e ''GROQ_API_KEY''"
    "key_val_js e ''anthropic'' = env_val e ''ANTHROPIC_API_KEY''"
    "key_val_js e ''openai'' = env_val e ''OPENAI_API_KEY''"
    "key_val_js e ''mistral'' = env_val e ''MISTRAL_API_KEY''"
    by (simp_all add: key_val_js_env key_vars_js_def)
  show ?thesis
    using first_run_js_selected [OF assms, of cwd]
    unfolding available_js_none_blank [OF assms] t
    by (cases "env_set e ''GROQ_API_KEY''"; cases "env_set e ''ANTHROPIC_API_KEY''";
        cases "env_set e ''OPENAI_API_KEY''"; cases "env_set e ''MISTRAL_API_KEY''")
       (simp_all add: key_vars_js_def v t)
qed

lemma only_set_find_js:
  assumes "(p, x) \<in> set key_vars_js" and "only_set e key_vars_js x"
  shows "find (\<lambda>(p, x). env_set e x) key_vars_js = Some (p, x)"
  using assms by (auto simp add: key_vars_js_def only_set_def)

lemma only_set_none_blank:
  assumes "only_set e vars x" and "trim (env_val e x) \<noteq> []"
  shows "none_blank e vars"
  using assms by (auto simp add: only_set_def none_blank_def list_all_iff)

text \<open>
  Claim C5, as amended. With no configuration file, initialization starts from the
  defaults, takes the first API-key variable that is present among those it scans, in a
  fixed order (roo-cli.ts: anthropic, openai, openrouter, mistral, groq; run-full-cli.js:
  groq, anthropic, openai, mistral), names that provider, stores its key and a model of
  that provider, leaves every other default as it is, and writes the result to the file;
  with none present the defaults are written unchanged. In particular, for each provider
  \<open>P\<close> whose variable is scanned, when only the variable of \<open>P\<close> is set the configuration
  names \<open>P\<close> and the first-run model of \<open>P\<close>, which is one of the models listed for \<open>P\<close>.

  In run-full-cli.js a variable counts as present when its value has a character that is
  not white space; the general statement is made for environments in which no scanned
  variable is set to white space alone.

  The providers \<^verbatim>\<open>gemini\<close> and \<^verbatim>\<open>bedrock\<close>, which roo-cli.ts accepts in
  \<^verbatim>\<open>/config apiProvider=\<close> and lists in its \<^verbatim>\<open>.env\<close> template, are not among those whose
  variable is scanned.
\<close>

theorem C5_first_run_selects_first_present:
  "(let s1 = initializeConfig_ts e cwd (s\<lparr>disk := None\<rparr>)
    in disk s1 = Some (Document (config s1))
     \<and> (case find (\<lambda>(p, x). env_set e x) key_vars_ts of
          None \<Rightarrow> config s1 = DEFAULT_CONFIG_ts e cwd
        | Some (p, x) \<Rightarrow>
            selected (config s1) p (env_val e x) (map_of first_run_models_ts p)
              (DEFAULT_CONFIG_ts e cwd))
     \<and> (\<forall>(p, x) \<in> set key_vars_ts. only_set e key_vars_ts x \<longrightarrow>
            selected (config s1) p (env_val e x) (map_of first_run_models_ts p)
              (DEFAULT_CONFIG_ts e cwd)))
   \<and> (let t1 = initializeConfig_js e cwd (t\<lparr>disk := None\<rparr>)
      in disk t1 = Some (Document (config t1))
       \<and> (none_blank e key_vars_js \<longrightarrow>
            (case find (\<lambda>(p, x). env_set e x) key_vars_js of
               None \<Rightarrow> config t1 = DEFAULT_CONFIG_js e cwd
             | Some (p, x) \<Rightarrow>
                 selected (config t1) p (env_val e x) (first_run_model_js p)
                   (DEFAULT_CONFIG_js e cwd)))
       \<and> (\<forall>(p, x) \<in> set key_vars_js. only_set e key_vars_js x \<and> trim (env_val e x) \<noteq> [] \<longrightarrow>
              selected (config t1) p (env_val e x) (first_run_model_js p)
                (DEFAULT_CONFIG_js e cwd)))
   \<and> (\<forall>(p, m) \<in> set first_run_models_ts. m \<in> set (getAvailableModels_ts (JStr p)))
   \<and> (\<forall>(p, x) \<in> set key_vars_js.
         \<exists>m. first_run_model_js p = Some m \<and> m \<in> set (fallback_names_js (JStr p)))"
proof -
  define s1 where "s1 = initializeConfig_ts e cwd (s\<lparr>disk := None\<rparr>)"
  define t1 where "t1 = initializeConfig_js e cwd (t\<lparr>disk := None\<rparr>)"
  have s1_cfg: "config s1 = first_run_ts e (DEFAULT_CONFIG_ts e cwd)"
    and s1_disk: "disk s1 = Some (Document (config s1))"
    by (simp_all add: s1_def initializeConfig_ts_def Let_def)
  have t1_cfg: "config t1 = snd (first_run_js e (DEFAULT_CONFIG_js e cwd))"
    and t1_disk: "disk t1 = Some (Document (config t1))"
    by (simp_all add: t1_def initializeConfig_js_def Let_def split: prod.splits)
  have ts_general: "case find (\<lambda>(p, x). env_set e x) key_vars_ts of
          None \<Rightarrow> config s1 = DEFAULT_CONFIG_ts e cwd
        | Some (p, x) \<Rightarrow>
            selected (config s1) p (env_val e x) (map_of first_run_models_ts p)
              (DEFAULT_CONFIG_ts e cwd)"
    unfolding s1_cfg by (rule first_run_ts_selected)
  have ts_only: "selected (config s1) p (env_val e x) (map_of first_run_models_ts p)
              (DEFAULT_CONFIG_ts e cwd)"
    if "(p, x) \<in> set key_vars_ts" "only_set e key_vars_ts x" for p x
    using ts_general only_set_find_ts [OF that] by simp
  have js_general: "case find (\<lambda>(p, x). env_set e x) key_vars_js of
               None \<Rightarrow> config t1 = DEFAULT_CONFIG_js e cwd
             | Some (p, x) \<Rightarrow>
                 selected (config t1) p (env_val e x) (first_run_model_js p)
                   (DEFAULT_CONFIG_js e cwd)"
    if "none_blank e key_vars_js"
    unfolding t1_cfg using that by (rule first_run_js_find)
  have js_only: "selected (config t1) p (env_val e x) (first_run_model_js p)
                (DEFAULT_CONFIG_js e cwd)"
    if "(p, x) \<in> set key_vars_js" "only_set e key_vars_js x" "trim (env_val e x) \<noteq> []" for p x
    using js_general [OF only_set_none_blank [OF that(2,3)]] only_set_find_js [OF that(1,2)]
    by simp
  have ts_models: "\<forall>(p, m) \<in> set first_run_models_ts. m \<in> set (getAvailableModels_ts (JStr p))"
    by (simp add: first_run_models_ts_def getAvailableModels_ts_def
        getProviderModelsMetadata_ts_def mk_model_def)
  have js_models: "\<forall>(p, x) \<in> set key_vars_js.
         \<exists>m. first_run_model_js p = Some m \<and> m \<in> set (fallback_names_js (JStr p))"
    by (simp add: key_vars_js_def first_run_model_js_def fallback_names_js_def)
  show ?thesis
    unfolding Let_def s1_def [symmetric] t1_def [symmetric]
    apply (intro conjI)
    subgoal by (rule s1_disk)
    subgoal by (rule ts_general)
    subgoal using ts_only by blast
    subgoal by (rule t1_disk)
    subgoal using js_general by blast
    subgoal using js_only by blast
    subgoal by (rule ts_models)
    subgoal by (rule js_models)
    done
qed

text \<open>The theorem in an environment that sets the key of Groq alone.\<close>

theorem C5_first_run_selects_first_present_witness:
  "(''groq'', ''GROQ_API_KEY'') \<in> set key_vars_ts
   \<and> only_set (Map.empty(''GROQ_API_KEY'' \<mapsto> ''gk'')) key_vars_ts ''GROQ_API_KEY''
   \<and> map_of (config (initializeConfig_ts (Map.empty(''GROQ_API_KEY'' \<mapsto> ''gk'')) ''/w''
         ((startup_ts (Map.empty(''GROQ_API_KEY'' \<mapsto> ''gk'')) ''/w'' None)\<lparr>disk := None\<rparr>)))
         ''apiProvider'' = Some (JStr ''groq'')
   \<and> map_of (config (initializeConfig_ts (Map.empty(''GROQ_API_KEY'' \<mapsto> ''gk'')) ''/w''
         ((startup_ts (Map.empty(''GROQ_API_KEY'' \<mapsto> ''gk'')) ''/w'' None)\<lparr>disk := None\<rparr>)))
         ''model'' = Some (JStr ''llama3-70b-8192'')
   \<and> (''groq'', ''GROQ_API_KEY'') \<in> set key_vars_js
   \<and> only_set (Map.empty(''GROQ_API_KEY'' \<mapsto> ''gk'')) key_vars_js ''GROQ_API_KEY''
   \<and> trim (env_val (Map.empty(''GROQ_API_KEY'' \<mapsto> ''gk'')) ''GROQ_API_KEY'') \<noteq> []
   \<and> none_blank (Map.empty(''GROQ_API_KEY'' \<mapsto> ''gk'')) key_vars_js
   \<and> map_of (config (initializeConfig_js (Map.empty(''GROQ_API_KEY'' \<mapsto> ''gk'')) ''/w''
         ((startup_js None)\<lparr>disk := None\<rparr>))) ''apiProvider'' = Some (JStr ''groq'')
   \<and> map_of (config (initializeConfig_js (Map.empty(''GROQ_API_KEY'' \<mapsto> ''gk'')) ''/w''
         ((startup_js None)\<lparr>disk := None\<rparr>))) ''model'' = Some (JStr ''llama-3.3-70b-versatile'')"
proof -
  let ?e = "Map.empty(''GROQ_API_KEY'' \<mapsto> ''gk'')"
  note T = C5_first_run_selects_first_present [where e = ?e and cwd = "''/w''"
      and s = "startup_ts ?e ''/w'' None" and t = "startup_js None", unfolded Let_def]
  have in_ts: "(''groq'', ''GROQ_API_KEY'') \<in> set key_vars_ts"
    and in_js: "(''groq'', ''GROQ_API_KEY'') \<in> set key_vars_js"
    by (simp_all add: key_vars_ts_def key_vars_js_def)
  have only_ts: "only_set ?e key_vars_ts ''GROQ_API_KEY''"
    and only_js: "only_set ?e key_vars_js ''GROQ_API_KEY''"
    by (simp_all add: only_set_def key_vars_ts_def key_vars_js_def env_set_def)
  have nonblank: "trim (env_val ?e ''GROQ_API_KEY'') \<noteq> []"
    by (simp add: env_val_def trim_def is_space_def)
  have nb: "none_blank ?e key_vars_js"
    using only_js nonblank by (rule only_set_none_blank)
  have sel_ts: "selected (config (initializeConfig_ts ?e ''/w''
         ((startup_ts ?e ''/w'' None)\<lparr>disk := None\<rparr>))) ''groq'' (env_val ?e ''GROQ_API_KEY'')
         (map_of first_run_models_ts ''groq'') (DEFAULT_CONFIG_ts ?e ''/w'')"
    using T [THEN conjunct1, THEN conjunct2, THEN conjunct2, THEN bspec, OF in_ts] only_ts
    by simp
  have sel_js: "selected (config (initializeConfig_js ?e ''/w''
         ((startup_js None)\<lparr>disk := None\<rparr>))) ''groq'' (env_val ?e ''GROQ_API_KEY'')
         (first_run_model_js ''groq'') (DEFAULT_CONFIG_js ?e ''/w'')"
    using T [THEN conjunct2, THEN conjunct1, THEN conjunct2, THEN conjunct2, THEN bspec, OF in_js]
      only_js nonblank
    by simp
  from sel_ts have ts: "map_of (config (initializeConfig_ts ?e ''/w''
         ((startup_ts ?e ''/w'' None)\<lparr>disk := None\<rparr>))) ''apiProvider'' = Some (JStr ''groq'')"
    "map_of (config (initializeConfig_ts ?e ''/w''
         ((startup_ts ?e ''/w'' None)\<lparr>disk := None\<rparr>))) ''model'' = Some (JStr ''llama3-70b-8192'')"
    by (simp_all add: selected_def first_run_models_ts_def)
  from sel_js have js: "map_of (config (initializeConfig_js ?e ''/w''
         ((startup_js None)\<lparr>disk := None\<rparr>))) ''apiProvider'' = Some (JStr ''groq'')"
    "map_of (config (initializeConfig_js ?e ''/w''
         ((startup_js None)\<lparr>disk := None\<rparr>))) ''model'' = Some (JStr ''llama-3.3-70b-versatile'')"
    by (simp_all add: selected_def first_run_model_js_def)
  show ?thesis
    using in_ts only_ts ts in_js only_js nonblank nb js by blast
qed

text \<open>roo-cli.ts with the variable of Gemini alone in the environment, the variable its
  own template names for that provider: the first run names \<^verbatim>\<open>anthropic\<close>, with no key.\<close>

theorem C5_gemini_counterexample:
  "''gemini'' \<in> set providers_ts
   \<and> ''# GOOGLE_API_KEY=your_key_here'' \<in> set env_template_ts
   \<and> map_of (config (initializeConfig_ts (Map.empty(''GOOGLE_API_KEY'' \<mapsto> ''k'')) ''/w''
         (startup_ts (Map.empty(''GOOGLE_API_KEY'' \<mapsto> ''k'')) ''/w'' None))) ''apiProvider''
       = Some (JStr ''anthropic'')
   \<and> map_of (config (initializeConfig_ts (Map.empty(''GOOGLE_API_KEY'' \<mapsto> ''k'')) ''/w''
         (startup_ts (Map.empty(''GOOGLE_API_KEY'' \<mapsto> ''k'')) ''/w'' None))) ''apiKey''
       = Some (JStr [])"
  by (simp add: providers_ts_def env_template_ts_def initializeConfig_ts_def startup_ts_def
      first_run_ts_def DEFAULT_CONFIG_ts_def env_set_def env_val_def Let_def)

subsection \<open>The update /config maxTokens=2048\<close>

lemma trim_config_line: "trim ''config maxTokens=2048'' = ''config maxTokens=2048''"
  by (simp add: trim_def is_space_def)

lemma trim_config_arg: "trim '' maxTokens=2048'' = ''maxTokens=2048''"
  by (simp add: trim_def is_space_def)

lemma trim_config_input: "trim ''/config maxTokens=2048'' \<noteq> []"
  by (simp add: trim_def is_space_def)

lemma match_maxTokens: "match_key_value ''maxTokens=2048'' = Some (''maxTokens'', ''2048'')"
  by (simp add: match_key_value_def is_word_char_def)

lemma Number_2048: "js_Number ''2048'' = JNum 2048"
  by (simp add: js_Number_def is_digit_def decimal_int_def)

lemma dispatch_ts_config_maxTokens:
  "dispatch_ts w ''/config maxTokens=2048'' s = Awaiting (handleConfigCommand_ts w ''maxTokens=2048'' s)"
  by (simp add: dispatch_ts_def trim_config_line trim_config_arg)

lemma dispatch_js_config_maxTokens:
  "dispatch_js w ''/config maxTokens=2048'' s = Awaiting (handleConfigCommand_js w ''maxTokens=2048'' s)"
  by (simp add: dispatch_js_def trim_config_line trim_config_arg trim_config_input)

lemma handleConfig_ts_maxTokens:
  "''maxTokens'' \<in> set (map fst (config s)) \<Longrightarrow>
   handleConfigCommand_ts w ''maxTokens=2048'' s
     = confirm_update ''maxTokens'' ''2048'' (set_field ''maxTokens'' (JNum 2048) s)"
  by (simp add: handleConfigCommand_ts_def match_maxTokens in_config_def Number_2048
      assign_config_def)

lemma handleConfig_js_maxTokens:
  "''maxTokens'' \<in> set (map fst (config s)) \<Longrightarrow>
   handleConfigCommand_js w ''maxTokens=2048'' s
     = confirm_update ''maxTokens'' ''2048'' (set_field ''maxTokens'' (JNum 2048) s)"
  by (simp add: handleConfigCommand_js_def match_maxTokens in_config_def Number_2048
      assign_config_def)

lemma confirm_update_frame [simp]:
  "config (confirm_update k v s) = config s"
  "disk (confirm_update k v s) = Some (Document (config s))"
  "chatHistory (confirm_update k v s) = chatHistory s"
  by (simp_all add: confirm_update_def)

lemma fresh_load_ts_field:
  assumes "distinct (map fst c)" and "k \<noteq> ''apiKey''" and "k \<noteq> ''model''"
    and "map_of c k = Some v"
  shows "map_of (config (initializeConfig_ts e cwd (startup_ts e cwd (Some (Document c))))) k = Some v"
  using assms
  by (simp add: initializeConfig_ts_def startup_ts_def env_override_ts_other migrate_ts_other
      map_of_spread member_of_distinct)

lemma fresh_load_js_field:
  assumes "distinct (map fst c)" and "k \<noteq> ''apiKey''" and "k \<noteq> ''model''" and "k \<noteq> ''apiProvider''"
    and "map_of c k = Some v"
  shows "map_of (config (initializeConfig_js e cwd (startup_js (Some (Document c))))) k = Some v"
  using assms
  by (simp add: initializeConfig_js_def startup_js_def resolve_key_js_other migrate_js_other
      map_of_spread member_of_distinct)

text \<open>
  Claim C9. In a session whose configuration is an object (no key twice) that has the key
  \<^verbatim>\<open>maxTokens\<close>, as every configuration made by \<^verbatim>\<open>initializeConfig\<close> is, the line
  \<^verbatim>\<open>/config maxTokens=2048\<close> is handled without leaving the loop and sets \<^verbatim>\<open>maxTokens\<close> to
  the number 2048. Every other field keeps its value, the keys keep their order, the
  history is not touched, the configuration is written to the file, and a fresh load of
  that file, in any environment, has \<^verbatim>\<open>maxTokens\<close> equal to 2048. This holds for both
  files.
\<close>

theorem C9_config_maxTokens_2048:
  assumes keys: "distinct (map fst (config s))" "distinct (map fst (config t))"
    and has: "''maxTokens'' \<in> set (map fst (config s))" "''maxTokens'' \<in> set (map fst (config t))"
  shows "(\<exists>s'. dispatch_ts w ''/config maxTokens=2048'' s = Awaiting s'
            \<and> map_of (config s') ''maxTokens'' = Some (JNum 2048)
            \<and> (\<forall>k. k \<noteq> ''maxTokens'' \<longrightarrow> map_of (config s') k = map_of (config s) k)
            \<and> map fst (config s') = map fst (config s)
            \<and> chatHistory s' = chatHistory s
            \<and> disk s' = Some (Document (config s'))
            \<and> map_of (config (initializeConfig_ts e cwd (startup_ts e cwd (disk s')))) ''maxTokens''
                 = Some (JNum 2048))
       \<and> (\<exists>t'. dispatch_js w ''/config maxTokens=2048'' t = Awaiting t'
            \<and> map_of (config t') ''maxTokens'' = Some (JNum 2048)
            \<and> (\<forall>k. k \<noteq> ''maxTokens'' \<longrightarrow> map_of (config t') k = map_of (config t) k)
            \<and> map fst (config t') = map fst (config t)
            \<and> chatHistory t' = chatHistory t
            \<and> disk t' = Some (Document (config t'))
            \<and> map_of (config (initializeConfig_js e cwd (startup_js (disk t')))) ''maxTokens''
                 = Some (JNum 2048))"
proof (intro conjI)
  define s' where "s' = confirm_update ''maxTokens'' ''2048'' (set_field ''maxTokens'' (JNum 2048) s)"
  have d: "dispatch_ts w ''/config maxTokens=2048'' s = Awaiting s'"
    by (simp add: dispatch_ts_config_maxTokens handleConfig_ts_maxTokens [OF has(1)] s'_def)
  have cfg: "config s' = AList.update ''maxTokens'' (JNum 2048) (config s)"
    by (simp add: s'_def)
  have dist: "distinct (map fst (config s'))"
    unfolding cfg using keys(1) by (rule distinct_update)
  have v: "map_of (config s') ''maxTokens'' = Some (JNum 2048)"
    by (simp add: cfg update_conv')
  have other: "\<forall>k. k \<noteq> ''maxTokens'' \<longrightarrow> map_of (config s') k = map_of (config s) k"
    by (simp add: cfg update_conv')
  have ks: "map fst (config s') = map fst (config s)"
    using has(1) by (simp add: cfg update_keys)
  have h: "chatHistory s' = chatHistory s" and dk: "disk s' = Some (Document (config s'))"
    by (simp_all add: s'_def)
  have fresh: "map_of (config (initializeConfig_ts e cwd (startup_ts e cwd (disk s')))) ''maxTokens''
                 = Some (JNum 2048)"
    unfolding dk by (rule fresh_load_ts_field [OF dist _ _ v]) simp_all
  from d v other ks h dk fresh
  show "\<exists>s'. dispatch_ts w ''/config maxTokens=2048'' s = Awaiting s'
            \<and> map_of (config s') ''maxTokens'' = Some (JNum 2048)
            \<and> (\<forall>k. k \<noteq> ''maxTokens'' \<longrightarrow> map_of (config s') k = map_of (config s) k)
            \<and> map fst (config s') = map fst (config s)
            \<and> chatHistory s' = chatHistory s
            \<and> disk s' = Some (Document (config s'))
            \<and> map_of (config (initializeConfig_ts e cwd (startup_ts e cwd (disk s')))) ''maxTokens''
                 = Some (JNum 2048)"
    by blast
next
  define t' where "t' = confirm_update ''maxTokens'' ''2048'' (set_field ''maxTokens'' (JNum 2048) t)"
  have d: "dispatch_js w ''/config maxTokens=2048'' t = Awaiting t'"
    by (simp add: dispatch_js_config_maxTokens handleConfig_js_maxTokens [OF has(2)] t'_def)
  have cfg: "config t' = AList.update ''maxTokens'' (JNum 2048) (config t)"
    by (simp add: t'_def)
  have dist: "distinct (map fst (config t'))"
    unfolding cfg using keys(2) by (rule distinct_update)
  have v: "map_of (config t') ''maxTokens'' = Some (JNum 2048)"
    by (simp add: cfg update_conv')
  have other: "\<forall>k. k \<noteq> ''maxTokens'' \<longrightarrow> map_of (config t') k = map_of (config t) k"
    by (simp add: cfg update_conv')
  have ks: "map fst (config t') = map fst (config t)"
    using has(2) by (simp add: cfg update_keys)
  have h: "chatHistory t' = chatHistory t" and dk: "disk t' = Some (Document (config t'))"
    by (simp_all add: t'_def)
  have fresh: "map_of (config (initializeConfig_js e cwd (startup_js (disk t')))) ''maxTokens''
                 = Some (JNum 2048)"
    unfolding dk by (rule fresh_load_js_field [OF dist _ _ _ v]) simp_all
  from d v other ks h dk fresh
  show "\<exists>t'. dispatch_js w ''/config maxTokens=2048'' t = Awaiting t'
            \<and> map_of (config t') ''maxTokens'' = Some (JNum 2048)
            \<and> (\<forall>k. k \<noteq> ''maxTokens'' \<longrightarrow> map_of (config t') k = map_of (config t) k)
            \<and> map fst (config t') = map fst (config t)
            \<and> chatHistory t' = chatHistory t
            \<and> disk t' = Some (Document (config t'))
            \<and> map_of (config (initializeConfig_js e cwd (startup_js (disk t')))) ''maxTokens''
                 = Some (JNum 2048)"
    by blast
qed

text \<open>The theorem at the start-up configuration of roo-cli.ts and at the first-run
  configuration of run-full-cli.js; the temperature is one of the fields that stay.\<close>

theorem C9_config_maxTokens_2048_witness:
  "distinct (map fst (config (startup_ts Map.empty ''/w'' None)))
   \<and> ''maxTokens'' \<in> set (map fst (config (startup_ts Map.empty ''/w'' None)))
   \<and> distinct (map fst (config (initializeConfig_js Map.empty ''/w'' (startup_js None))))
   \<and> ''maxTokens'' \<in> set (map fst (config (initializeConfig_js Map.empty ''/w'' (startup_js None))))
   \<and> (\<exists>s'. dispatch_ts offline_world ''/config maxTokens=2048'' (startup_ts Map.empty ''/w'' None)
               = Awaiting s'
            \<and> map_of (config s') ''maxTokens'' = Some (JNum 2048)
            \<and> map_of (config s') ''temperature'' = Some (JNumOther ''0.3''))
   \<and> (\<exists>t'. dispatch_js offline_world ''/config maxTokens=2048''
                (initializeConfig_js Map.empty ''/w'' (startup_js None)) = Awaiting t'
            \<and> map_of (config t') ''maxTokens'' = Some (JNum 2048)
            \<and> map_of (config t') ''temperature'' = Some (JNumOther ''0.3''))"
proof -
  let ?s = "startup_ts Map.empty ''/w'' None"
  let ?t = "initializeConfig_js Map.empty ''/w'' (startup_js None)"
  have cs: "config ?s = DEFAULT_CONFIG_ts Map.empty ''/w''"
    by (simp add: startup_ts_def)
  have ct: "config ?t = DEFAULT_CONFIG_js Map.empty ''/w''"
    by (simp add: initializeConfig_js_def startup_js_def first_run_js_def available_js_def
        keys_js_def key_vars_js_def)
  have h1: "distinct (map fst (config ?s))" and h2: "''maxTokens'' \<in> set (map fst (config ?s))"
    by (simp_all add: cs DEFAULT_CONFIG_ts_def)
  have h3: "distinct (map fst (config ?t))" and h4: "''maxTokens'' \<in> set (map fst (config ?t))"
    by (simp_all add: ct DEFAULT_CONFIG_js_def)
  have temp_s: "map_of (config ?s) ''temperature'' = Some (JNumOther ''0.3'')"
    by (simp add: cs DEFAULT_CONFIG_ts_def)
  have temp_t: "map_of (config ?t) ''temperature'' = Some (JNumOther ''0.3'')"
    by (simp add: ct DEFAULT_CONFIG_js_def)
  from C9_config_maxTokens_2048 [OF h1 h3 h2 h4, where w = offline_world and e = Map.empty
      and cwd = "''/w''"]
  obtain s' t' where
    s': "dispatch_ts offline_world ''/config maxTokens=2048'' ?s = Awaiting s'"
      "map_of (config s') ''maxTokens'' = Some (JNum 2048)"
      "\<forall>k. k \<noteq> ''maxTokens'' \<longrightarrow> map_of (config s') k = map_of (config ?s) k"
    and t': "dispatch_js offline_world ''/config maxTokens=2048'' ?t = Awaiting t'"
      "map_of (config t') ''maxTokens'' = Some (JNum 2048)"
      "\<forall>k. k \<noteq> ''maxTokens'' \<longrightarrow> map_of (config t') k = map_of (config ?t) k"
    by blast
  from s'(3) temp_s have ts: "map_of (config s') ''temperature'' = Some (JNumOther ''0.3'')"
    by simp
  from t'(3) temp_t have tt: "map_of (config t') ''temperature'' = Some (JNumOther ''0.3'')"
    by simp
  show ?thesis
    using h1 h2 h3 h4 s'(1,2) ts t'(1,2) tt by blast
qed

subsection \<open>What /config shows of the API key\<close>























lemma cached_frame [simp]:
  "cachedModels (say l t) = cachedModels t"
  "cachedModels (set_field k v t) = cachedModels t"
  "cachedModels (assign_config k v t) = cachedModels t"
  "cachedModels (saveConfig t) = cachedModels t"
  "cachedModels (confirm_update k x t) = cachedModels t"
  "cachedModels (suggest_model ms t) = cachedModels t"
  "cachedModels (unknown_key k t) = cachedModels t"
  "cachedModels (model_warning x ms t) = cachedModels t"
  "cachedModels (snd (ask w q t)) = cachedModels t"
  by (simp_all add: say_def set_field_def assign_config_def saveConfig_def confirm_update_def
      suggest_model_def unknown_key_def model_warning_def ask_def split: list.splits)







subsection \<open>File commands and the history\<close>

lemma trim_slash: "prefix ''/'' input \<Longrightarrow> trim input \<noteq> []"
  by (cases input) (auto simp add: trim_def is_space_def dropWhile_append)

lemma frame_push [simp]:
  "config (push m s) = config s" "disk (push m s) = disk s"
  "printed (push m s) = printed s" "chatHistory (push m s) = chatHistory s @ [m]"
  "prompts (push m s) = prompts s"
  by (simp_all add: push_def)

lemma dispatch_read:
  assumes "prefix ''/'' input" and "trim (drop 1 input) = ''read'' @ rest"
  shows "dispatch_ts w input s = Awaiting (read_command w rest s)"
    and "dispatch_js w input t = Awaiting (read_command w rest t)"
  using assms by (simp_all add: dispatch_ts_def dispatch_js_def trim_slash)

lemma dispatch_write:
  assumes "prefix ''/'' input" and "trim (drop 1 input) = ''write'' @ rest"
  shows "dispatch_ts w input s = Awaiting (write_command w rest s)"
    and "dispatch_js w input t = Awaiting (write_command w rest t)"
  using assms by (simp_all add: dispatch_ts_def dispatch_js_def trim_slash)

lemma dispatch_ls:
  assumes "prefix ''/'' input" and "trim (drop 1 input) = ''ls'' @ rest"
  shows "dispatch_ts w input s = Awaiting (ls_command w rest s)"
    and "dispatch_js w input t = Awaiting (ls_command w rest t)"
  using assms by (simp_all add: dispatch_ts_def dispatch_js_def trim_slash)

lemma answers_read:
  "trim rest \<noteq> [] \<Longrightarrow>
   answers_with (Awaiting (read_command w rest s)) s (readFile w (config s) (trim rest))
     (''Here'' @ [apostrophe] @ ''s the content of '' @ trim rest @ '':'' @ [nl, nl] @
      readFile w (config s) (trim rest))"
  by (simp add: answers_with_def awaiting_def session_of_def read_command_def Let_def)

lemma answers_write:
  "write_path rest \<noteq> [] \<Longrightarrow> write_content rest \<noteq> [] \<Longrightarrow>
   answers_with (Awaiting (write_command w rest s)) s
     (writeFile w (config s) (write_path rest) (write_content rest))
     (''I'' @ [apostrophe] @ ''ve written the following content to '' @ write_path rest @ '':'' @
      [nl, nl] @ write_content rest)"
  by (simp add: answers_with_def awaiting_def session_of_def write_command_def Let_def)

lemma answers_ls:
  "answers_with (Awaiting (ls_command w rest s)) s (listFiles w (config s) (ls_path rest))
     (''Directory listing of '' @ ls_path rest @ '':'' @ [nl, nl] @
      listFiles w (config s) (ls_path rest))"
  by (simp add: answers_with_def awaiting_def session_of_def ls_command_def Let_def)

lemma readFile_failures:
  "full_path w c p = Inl err \<Longrightarrow> readFile w c p = ''Error reading file: '' @ err"
  "full_path w c p = Inr f \<Longrightarrow> \<not> fs_exists w f \<Longrightarrow> readFile w c p = ''Error: File not found at '' @ f"
  "full_path w c p = Inr f \<Longrightarrow> fs_exists w f \<Longrightarrow> fs_readFile w f = Inl err \<Longrightarrow>
     readFile w c p = ''Error reading file: '' @ err"
  by (simp_all add: readFile_def)

lemma writeFile_failures:
  "full_path w c p = Inl err \<Longrightarrow> writeFile w c p x = ''Error writing file: '' @ err"
  "full_path w c p = Inr f \<Longrightarrow> \<not> fs_exists w (path_dirname w f) \<Longrightarrow>
     fs_mkdir w (path_dirname w f) = Some err \<Longrightarrow> writeFile w c p x = ''Error writing file: '' @ err"
  "full_path w c p = Inr f \<Longrightarrow> fs_exists w (path_dirname w f) \<Longrightarrow>
     fs_writeFile w f x = Some err \<Longrightarrow> writeFile w c p x = ''Error writing file: '' @ err"
  by (simp_all add: writeFile_def)

lemma listFiles_failures:
  "full_path w c p = Inl err \<Longrightarrow> listFiles w c p = ''Error listing files: '' @ err"
  "full_path w c p = Inr f \<Longrightarrow> \<not> fs_exists w f \<Longrightarrow>
     listFiles w c p = ''Error: Directory not found at '' @ f"
  "full_path w c p = Inr f \<Longrightarrow> fs_exists w f \<Longrightarrow> fs_readdir w f = Inl err \<Longrightarrow>
     listFiles w c p = ''Error listing files: '' @ err"
  by (simp_all add: listFiles_def)

text \<open>
  The commands \<^verbatim>\<open>/read\<close>, \<^verbatim>\<open>/write\<close> and \<^verbatim>\<open>/ls\<close>, once given the arguments they need,
  answer in the same way whatever the file system does: the string the file operation
  returns is printed, one entry is appended to the history as a message of the user, the
  configuration and its file are left alone, and the loop waits for the next line. A
  failure of the file system is caught inside the file operation, whose string is then
  the error text. The entry of \<^verbatim>\<open>/read\<close> and of \<^verbatim>\<open>/ls\<close> embeds that string; the entry of
  \<^verbatim>\<open>/write\<close> is made of the path and the content and says that the content was written,
  whether it was or not.
\<close>

lemma file_commands_always_answer:
  assumes slash: "prefix ''/'' input"
  shows "(trim (drop 1 input) = ''read'' @ rest \<and> trim rest \<noteq> [] \<longrightarrow>
           answers_with (dispatch_ts w input s) s (readFile w (config s) (trim rest))
             (''Here'' @ [apostrophe] @ ''s the content of '' @ trim rest @ '':'' @ [nl, nl] @
              readFile w (config s) (trim rest))
         \<and> answers_with (dispatch_js w input t) t (readFile w (config t) (trim rest))
             (''Here'' @ [apostrophe] @ ''s the content of '' @ trim rest @ '':'' @ [nl, nl] @
              readFile w (config t) (trim rest)))
       \<and> (trim (drop 1 input) = ''write'' @ rest \<and> write_path rest \<noteq> [] \<and> write_content rest \<noteq> [] \<longrightarrow>
           answers_with (dispatch_ts w input s) s
             (writeFile w (config s) (write_path rest) (write_content rest))
             (''I'' @ [apostrophe] @ ''ve written the following content to '' @ write_path rest @
              '':'' @ [nl, nl] @ write_content rest)
         \<and> answers_with (dispatch_js w input t) t
             (writeFile w (config t) (write_path rest) (write_content rest))
             (''I'' @ [apostrophe] @ ''ve written the following content to '' @ write_path rest @
              '':'' @ [nl, nl] @ write_content rest))
       \<and> (trim (drop 1 input) = ''ls'' @ rest \<longrightarrow>
           answers_with (dispatch_ts w input s) s (listFiles w (config s) (ls_path rest))
             (''Directory listing of '' @ ls_path rest @ '':'' @ [nl, nl] @
              listFiles w (config s) (ls_path rest))
         \<and> answers_with (dispatch_js w input t) t (listFiles w (config t) (ls_path rest))
             (''Directory listing of '' @ ls_path rest @ '':'' @ [nl, nl] @
              listFiles w (config t) (ls_path rest)))
       \<and> (full_path w c p = Inr f \<and> \<not> fs_exists w f \<longrightarrow>
           readFile w c p = ''Error: File not found at '' @ f
         \<and> listFiles w c p = ''Error: Directory not found at '' @ f)
       \<and> (full_path w c p = Inr f \<and> fs_exists w f \<and> fs_readFile w f = Inl err \<longrightarrow>
           readFile w c p = ''Error reading file: '' @ err)
       \<and> (full_path w c p = Inr f \<and> fs_exists w f \<and> fs_readdir w f = Inl err \<longrightarrow>
           listFiles w c p = ''Error listing files: '' @ err)
       \<and> (full_path w c p = Inr f \<and> \<not> fs_exists w (path_dirname w f)
            \<and> fs_mkdir w (path_dirname w f) = Some err \<longrightarrow>
           writeFile w c p x = ''Error writing file: '' @ err)
       \<and> (full_path w c p = Inr f \<and> fs_exists w (path_dirname w f)
            \<and> fs_writeFile w f x = Some err \<longrightarrow>
           writeFile w c p x = ''Error writing file: '' @ err)"
  apply (intro conjI impI)
  subgoal using dispatch_read(1) [OF slash, of rest w s] answers_read [of rest w s] by simp
  subgoal using dispatch_read(2) [OF slash, of rest w t] answers_read [of rest w t] by simp
  subgoal using dispatch_write(1) [OF slash, of rest w s] answers_write [of rest w s] by simp
  subgoal using dispatch_write(2) [OF slash, of rest w t] answers_write [of rest w t] by simp
  subgoal using dispatch_ls(1) [OF slash, of rest w s] answers_ls [of w rest s] by simp
  subgoal using dispatch_ls(2) [OF slash, of rest w t] answers_ls [of w rest t] by simp
  subgoal by (simp add: readFile_failures)
  subgoal by (simp add: listFiles_failures)
  subgoal by (simp add: readFile_failures)
  subgoal by (simp add: listFiles_failures)
  subgoal by (simp add: writeFile_failures)
  subgoal by (simp add: writeFile_failures)
  done

text \<open>The lemma for \<^verbatim>\<open>/read missing.txt\<close> on a file system that has no such file.\<close>

lemma read_missing_parse:
  "prefix ''/'' ''/read missing.txt''"
  "trim (drop 1 ''/read missing.txt'') = ''read'' @ '' missing.txt''"
  "trim '' missing.txt'' = ''missing.txt''"
  "trim ''read missing.txt'' = ''read missing.txt''"
  by (simp_all add: trim_def is_space_def)

lemma read_missing_result:
  "readFile offline_world (config (startup_ts Map.empty ''/w'' None)) ''missing.txt''
     = ''Error: File not found at /w/missing.txt''"
  "readFile offline_world (config (initializeConfig_js Map.empty ''/w'' (startup_js None))) ''missing.txt''
     = ''Error: File not found at /w/missing.txt''"
  by (simp_all add: readFile_def full_path_def offline_world_def startup_ts_def
      DEFAULT_CONFIG_ts_def initializeConfig_js_def startup_js_def first_run_js_def
      available_js_def keys_js_def key_vars_js_def DEFAULT_CONFIG_js_def)

lemma file_commands_always_answer_example:
  "prefix ''/'' ''/read missing.txt''
   \<and> trim (drop 1 ''/read missing.txt'') = ''read'' @ '' missing.txt''
   \<and> trim '' missing.txt'' \<noteq> []
   \<and> answers_with
        (dispatch_ts offline_world ''/read missing.txt'' (startup_ts Map.empty ''/w'' None))
        (startup_ts Map.empty ''/w'' None)
        ''Error: File not found at /w/missing.txt''
        (''Here'' @ [apostrophe] @ ''s the content of missing.txt:'' @ [nl, nl] @
         ''Error: File not found at /w/missing.txt'')
   \<and> answers_with
        (dispatch_js offline_world ''/read missing.txt''
           (initializeConfig_js Map.empty ''/w'' (startup_js None)))
        (initializeConfig_js Map.empty ''/w'' (startup_js None))
        ''Error: File not found at /w/missing.txt''
        (''Here'' @ [apostrophe] @ ''s the content of missing.txt:'' @ [nl, nl] @
         ''Error: File not found at /w/missing.txt'')"
  using file_commands_always_answer [OF read_missing_parse(1),
      where rest = "'' missing.txt''" and w = offline_world
        and s = "startup_ts Map.empty ''/w'' None"
        and t = "initializeConfig_js Map.empty ''/w'' (startup_js None)", THEN conjunct1]
  by (simp add: read_missing_parse read_missing_result)

lemma write_refused_parse:
  "prefix ''/'' ''/write out.txt hello''"
  "trim (drop 1 ''/write out.txt hello'') = ''write'' @ '' out.txt hello''"
  "write_path '' out.txt hello'' = ''out.txt''"
  "write_content '' out.txt hello'' = ''hello''"
  "trim ''write out.txt hello'' = ''write out.txt hello''"
  by (simp_all add: write_path_def write_content_def trim_def is_space_def)

lemma write_refused_result:
  "writeFile offline_world (config (startup_ts Map.empty ''/w'' None)) ''out.txt'' ''hello''
     = ''Error writing file: EACCES''"
  "writeFile offline_world (config (initializeConfig_js Map.empty ''/w'' (startup_js None)))
     ''out.txt'' ''hello'' = ''Error writing file: EACCES''"
  by (simp_all add: writeFile_def full_path_def offline_world_def startup_ts_def
      DEFAULT_CONFIG_ts_def initializeConfig_js_def startup_js_def first_run_js_def
      available_js_def keys_js_def key_vars_js_def DEFAULT_CONFIG_js_def)

text \<open>
  Claim C3. A failure of the file system in \<^verbatim>\<open>/read\<close>, \<^verbatim>\<open>/write\<close> or \<^verbatim>\<open>/ls\<close> is to leave the
  chat history as it was. In both files it does not. On a file system that holds nothing
  and refuses every write, with an empty history: \<^verbatim>\<open>/read missing.txt\<close> prints the error
  text and appends one entry that presents this text as the content of the file;
  \<^verbatim>\<open>/write out.txt hello\<close> prints the error text and appends one entry that says the
  content was written; \<^verbatim>\<open>/ls nowhere\<close> makes the history one entry longer.
\<close>

theorem C3_failed_file_command_recorded:
  "chatHistory (startup_ts Map.empty ''/w'' None) = []
   \<and> chatHistory (initializeConfig_js Map.empty ''/w'' (startup_js None)) = []
   \<and> chatHistory (session_of
        (dispatch_ts offline_world ''/read missing.txt'' (startup_ts Map.empty ''/w'' None)))
     = [(User, ''Here'' @ [apostrophe] @ ''s the content of missing.txt:'' @ [nl, nl] @
               ''Error: File not found at /w/missing.txt'')]
   \<and> chatHistory (session_of
        (dispatch_js offline_world ''/read missing.txt''
           (initializeConfig_js Map.empty ''/w'' (startup_js None))))
     = [(User, ''Here'' @ [apostrophe] @ ''s the content of missing.txt:'' @ [nl, nl] @
               ''Error: File not found at /w/missing.txt'')]
   \<and> printed (session_of
        (dispatch_ts offline_world ''/write out.txt hello'' (startup_ts Map.empty ''/w'' None)))
     = [Line ''Error writing file: EACCES'']
   \<and> chatHistory (session_of
        (dispatch_ts offline_world ''/write out.txt hello'' (startup_ts Map.empty ''/w'' None)))
     = [(User, ''I'' @ [apostrophe] @ ''ve written the following content to out.txt:'' @
               [nl, nl] @ ''hello'')]
   \<and> chatHistory (session_of
        (dispatch_js offline_world ''/write out.txt hello''
           (initializeConfig_js Map.empty ''/w'' (startup_js None))))
     = [(User, ''I'' @ [apostrophe] @ ''ve written the following content to out.txt:'' @
               [nl, nl] @ ''hello'')]
   \<and> length (chatHistory (session_of
        (dispatch_ts offline_world ''/ls nowhere'' (startup_ts Map.empty ''/w'' None)))) = 1
   \<and> length (chatHistory (session_of
        (dispatch_js offline_world ''/ls nowhere''
           (initializeConfig_js Map.empty ''/w'' (startup_js None))))) = 1"
proof -
  let ?s = "startup_ts Map.empty ''/w'' None"
  let ?t = "initializeConfig_js Map.empty ''/w'' (startup_js None)"
  have s0: "chatHistory ?s = []" "printed ?s = []"
    by (simp_all add: startup_ts_def)
  have t0: "chatHistory ?t = []"
    by (simp add: initializeConfig_js_def startup_js_def Let_def split: prod.splits)
  have r: "dispatch_ts offline_world ''/read missing.txt'' ?s
             = Awaiting (read_command offline_world '' missing.txt'' ?s)"
    "dispatch_js offline_world ''/read missing.txt'' ?t
             = Awaiting (read_command offline_world '' missing.txt'' ?t)"
    by (rule dispatch_read, simp_all add: read_missing_parse)+
  have wr: "dispatch_ts offline_world ''/write out.txt hello'' ?s
             = Awaiting (write_command offline_world '' out.txt hello'' ?s)"
    "dispatch_js offline_world ''/write out.txt hello'' ?t
             = Awaiting (write_command offline_world '' out.txt hello'' ?t)"
    by (rule dispatch_write, simp_all add: write_refused_parse)+
  have l: "dispatch_ts offline_world ''/ls nowhere'' ?s
             = Awaiting (ls_command offline_world '' nowhere'' ?s)"
    "dispatch_js offline_world ''/ls nowhere'' ?t
             = Awaiting (ls_command offline_world '' nowhere'' ?t)"
    by (rule dispatch_ls, simp_all add: trim_def is_space_def)+
  show ?thesis
    unfolding r wr l
    by (simp add: session_of_def read_command_def write_command_def ls_command_def Let_def
        read_missing_parse read_missing_result write_refused_parse write_refused_result s0 t0)
qed

subsection \<open>A chat turn whose request fails\<close>

lemma field_truthy_push [simp]: "field_truthy (config (push m s)) k = field_truthy (config s) k"
  by (simp add: push_def)

text \<open>
  Claim C6, as amended. Let the line read be a chat message (it does not start with a
  slash and, for run-full-cli.js, is not blank). When the request to the provider fails,
  the loop waits for the next line and the history is the old history followed by the
  user's message: no message of the assistant is added. The failure is printed when it
  reaches the program as an error: \<^verbatim>\<open>generateResponse\<close> of run-full-cli.js rejects, or the
  stream of roo-cli.ts raises. It is not printed when the stream of roo-cli.ts ends
  without \<^verbatim>\<open>message_stop\<close>, which is how a provider adapter that reports the failure as
  an error chunk ends it: then the turn prints nothing. When the API key is missing, both
  files print two lines and wait for the next line; roo-cli.ts has recorded the user's
  message before it tests the key, run-full-cli.js tests the key first and leaves the
  history as it was.
\<close>

theorem C6_provider_failure_keeps_user_message:
  assumes chat: "\<not> prefix ''/'' input"
  shows "(\<not> field_truthy (config s) ''apiKey'' \<longrightarrow>
            awaiting (dispatch_ts w input s)
          \<and> chatHistory (session_of (dispatch_ts w input s)) = chatHistory s @ [(User, input)]
          \<and> printed (session_of (dispatch_ts w input s)) = printed s @
               [Line ''API key not set. Use /config apiKey=your_key to set it or add it to .env file.'',
                Line ''Run /env to create a template .env file.''])
       \<and> (field_truthy (config s) ''apiKey'' \<and> buildApiHandler w (config s) = None
            \<and> createMessage w (config s) (chatHistory s @ [(User, input)]) = (chunks, Some err) \<longrightarrow>
            awaiting (dispatch_ts w input s)
          \<and> chatHistory (session_of (dispatch_ts w input s)) = chatHistory s @ [(User, input)]
          \<and> printed (session_of (dispatch_ts w input s)) = printed s @
               [Line (''Error processing request: '' @ err)])
       \<and> (field_truthy (config s) ''apiKey'' \<and> buildApiHandler w (config s) = None
            \<and> createMessage w (config s) (chatHistory s @ [(User, input)]) = (chunks, None)
            \<and> MessageStop \<notin> set chunks \<longrightarrow>
            awaiting (dispatch_ts w input s)
          \<and> chatHistory (session_of (dispatch_ts w input s)) = chatHistory s @ [(User, input)]
          \<and> printed (session_of (dispatch_ts w input s)) = printed s)
       \<and> (trim input \<noteq> [] \<and> \<not> field_truthy (config t) ''apiKey'' \<longrightarrow>
            awaiting (dispatch_js w input t)
          \<and> chatHistory (session_of (dispatch_js w input t)) = chatHistory t
          \<and> printed (session_of (dispatch_js w input t)) = printed t @
               [Line ''API key not set. Use /config apiKey=your_key_here to set it or add it to .env file.'',
                Line ''Run /env to create a template .env file.''])
       \<and> (trim input \<noteq> [] \<and> field_truthy (config t) ''apiKey''
            \<and> generateResponse w (config t) (chatHistory t @ [(User, input)]) = Inl err \<longrightarrow>
            awaiting (dispatch_js w input t)
          \<and> chatHistory (session_of (dispatch_js w input t)) = chatHistory t @ [(User, input)]
          \<and> printed (session_of (dispatch_js w input t)) = printed t @
               [Line (''Error processing request: '' @ err)])"
  using chat
  by (simp add: dispatch_ts_def dispatch_js_def processUserInput_ts_def chat_js_def Let_def
      awaiting_def session_of_def)

text \<open>The theorem for the message \<^verbatim>\<open>hello\<close> and a key that is set: with a network that is
  down, where the stream raises and the request of run-full-cli.js rejects; and with a
  stream that brings a piece of text and an error chunk and then ends.\<close>

theorem C6_provider_failure_keeps_user_message_witness:
  "\<not> prefix ''/'' ''hello'' \<and> trim ''hello'' \<noteq> []
   \<and> field_truthy [(''apiProvider'', JStr ''groq''), (''apiKey'', JStr ''k'')] ''apiKey''
   \<and> createMessage offline_world [(''apiProvider'', JStr ''groq''), (''apiKey'', JStr ''k'')]
         [(User, ''hello'')] = ([], Some ''fetch failed'')
   \<and> generateResponse offline_world [(''apiProvider'', JStr ''groq''), (''apiKey'', JStr ''k'')]
         [(User, ''hello'')] = Inl ''fetch failed''
   \<and> MessageStop \<notin> set [TextDelta ''Let me'', ErrorChunk ''fetch failed'']
   \<and> chatHistory (session_of (dispatch_ts offline_world ''hello''
         ((startup_ts Map.empty ''/w'' None)
            \<lparr>config := [(''apiProvider'', JStr ''groq''), (''apiKey'', JStr ''k'')]\<rparr>)))
       = [(User, ''hello'')]
   \<and> printed (session_of (dispatch_ts offline_world ''hello''
         ((startup_ts Map.empty ''/w'' None)
            \<lparr>config := [(''apiProvider'', JStr ''groq''), (''apiKey'', JStr ''k'')]\<rparr>)))
       = [Line ''Error processing request: fetch failed'']
   \<and> chatHistory (session_of
         (dispatch_ts
            (offline_world\<lparr>createMessage :=
               \<lambda>c h. ([TextDelta ''Let me'', ErrorChunk ''fetch failed''], None)\<rparr>)
            ''hello''
            ((startup_ts Map.empty ''/w'' None)
               \<lparr>config := [(''apiProvider'', JStr ''groq''), (''apiKey'', JStr ''k'')]\<rparr>)))
       = [(User, ''hello'')]
   \<and> printed (session_of
         (dispatch_ts
            (offline_world\<lparr>createMessage :=
               \<lambda>c h. ([TextDelta ''Let me'', ErrorChunk ''fetch failed''], None)\<rparr>)
            ''hello''
            ((startup_ts Map.empty ''/w'' None)
               \<lparr>config := [(''apiProvider'', JStr ''groq''), (''apiKey'', JStr ''k'')]\<rparr>)))
       = []
   \<and> chatHistory (session_of (dispatch_js offline_world ''hello''
         ((startup_js None)
            \<lparr>config := [(''apiProvider'', JStr ''groq''), (''apiKey'', JStr ''k'')]\<rparr>)))
       = [(User, ''hello'')]
   \<and> printed (session_of (dispatch_js offline_world ''hello''
         ((startup_js None)
            \<lparr>config := [(''apiProvider'', JStr ''groq''), (''apiKey'', JStr ''k'')]\<rparr>)))
       = [Line ''Error processing request: fetch failed'']"
proof -
  let ?c = "[(''apiProvider'', JStr ''groq''), (''apiKey'', JStr ''k'')]"
  let ?w = "offline_world\<lparr>createMessage :=
               \<lambda>c h. ([TextDelta ''Let me'', ErrorChunk ''fetch failed''], None)\<rparr>"
  have chat: "\<not> prefix ''/'' ''hello''" and nonblank: "trim ''hello'' \<noteq> []"
    by (simp_all add: trim_def is_space_def)
  have key: "field_truthy ?c ''apiKey''"
    by (simp add: field_truthy_def)
  have build: "buildApiHandler offline_world ?c = None"
    and fail_ts: "createMessage offline_world ?c [(User, ''hello'')] = ([], Some ''fetch failed'')"
    by (simp_all add: offline_world_def)
  have build': "buildApiHandler ?w ?c = None"
    and silent_ts: "createMessage ?w ?c [(User, ''hello'')]
                      = ([TextDelta ''Let me'', ErrorChunk ''fetch failed''], None)"
    and no_stop: "MessageStop \<notin> set [TextDelta ''Let me'', ErrorChunk ''fetch failed'']"
    by (simp_all add: offline_world_def)
  have fail_js: "generateResponse offline_world ?c [(User, ''hello'')] = Inl ''fetch failed''"
    by (simp add: generateResponse_def offline_world_def)
  note T = C6_provider_failure_keeps_user_message [OF chat, where w = offline_world
      and s = "(startup_ts Map.empty ''/w'' None)\<lparr>config := ?c\<rparr>"
      and t = "(startup_js None)\<lparr>config := ?c\<rparr>"
      and chunks = "[]" and err = "''fetch failed''"]
  note U = C6_provider_failure_keeps_user_message [OF chat, where w = ?w
      and s = "(startup_ts Map.empty ''/w'' None)\<lparr>config := ?c\<rparr>"
      and t = "(startup_js None)\<lparr>config := ?c\<rparr>"
      and chunks = "[TextDelta ''Let me'', ErrorChunk ''fetch failed'']" and err = "''fetch failed''"]
  from T [THEN conjunct2, THEN conjunct1] key build fail_ts
  have h_ts: "chatHistory (session_of (dispatch_ts offline_world ''hello''
         ((startup_ts Map.empty ''/w'' None)\<lparr>config := ?c\<rparr>))) = [(User, ''hello'')]"
    and p_ts: "printed (session_of (dispatch_ts offline_world ''hello''
         ((startup_ts Map.empty ''/w'' None)\<lparr>config := ?c\<rparr>)))
         = [Line ''Error processing request: fetch failed'']"
    by (simp_all add: startup_ts_def)
  from U [THEN conjunct2, THEN conjunct2, THEN conjunct1] key build' silent_ts no_stop
  have h_in: "chatHistory (session_of (dispatch_ts ?w ''hello''
         ((startup_ts Map.empty ''/w'' None)\<lparr>config := ?c\<rparr>))) = [(User, ''hello'')]"
    and p_in: "printed (session_of (dispatch_ts ?w ''hello''
         ((startup_ts Map.empty ''/w'' None)\<lparr>config := ?c\<rparr>))) = []"
    by (simp_all add: startup_ts_def)
  from T [THEN conjunct2, THEN conjunct2, THEN conjunct2, THEN conjunct2] nonblank key fail_js
  have h_js: "chatHistory (session_of (dispatch_js offline_world ''hello''
         ((startup_js None)\<lparr>config := ?c\<rparr>))) = [(User, ''hello'')]"
    and p_js: "printed (session_of (dispatch_js offline_world ''hello''
         ((startup_js None)\<lparr>config := ?c\<rparr>))) = [Line ''Error processing request: fetch failed'']"
    by (simp_all add: startup_js_def)
  show ?thesis
    using chat nonblank key fail_ts fail_js no_stop h_ts p_ts h_in p_in h_js p_js by blast
qed

text \<open>run-full-cli.js after a first run without any key: the message \<^verbatim>\<open>hello\<close> is turned
  away and the history stays empty.\<close>

theorem C6_missing_key_counterexample:
  "\<not> field_truthy (config (initializeConfig_js Map.empty ''/w'' (startup_js None))) ''apiKey''
   \<and> chatHistory (session_of (dispatch_js offline_world ''hello''
         (initializeConfig_js Map.empty ''/w'' (startup_js None)))) = []
   \<and> (User, ''hello'') \<notin> set (chatHistory (session_of (dispatch_js offline_world ''hello''
         (initializeConfig_js Map.empty ''/w'' (startup_js None)))))"
proof -
  have c: "initializeConfig_js Map.empty ''/w'' (startup_js None)
      = (startup_js None)
          \<lparr>disk := Some (Document (DEFAULT_CONFIG_js Map.empty ''/w'')),
           config := DEFAULT_CONFIG_js Map.empty ''/w'',
           printed := [Line ''No API keys found in environment variables. Using default provider.'',
                       Line ''Add your API key to the .env file or use /config apiKey=your_key'']\<rparr>"
    by (simp add: initializeConfig_js_def startup_js_def first_run_js_def available_js_def
        keys_js_def key_vars_js_def)
  have k: "\<not> field_truthy (DEFAULT_CONFIG_js Map.empty ''/w'') ''apiKey''"
    by (simp add: field_truthy_def DEFAULT_CONFIG_js_def env_val_def)
  have t: "trim ''hello'' \<noteq> []"
    by (simp add: trim_def is_space_def)
  show ?thesis
    unfolding c using k t
    by (simp add: dispatch_js_def chat_js_def session_of_def startup_js_def)
qed

subsection \<open>Input that begins with a slash\<close>

text \<open>
  The dispatcher compares the text behind the slash with the command words; for
  \<^verbatim>\<open>config\<close>, \<^verbatim>\<open>read\<close>, \<^verbatim>\<open>write\<close> and \<^verbatim>\<open>ls\<close> the comparison is \<^verbatim>\<open>startsWith\<close> on the bare
  word, for \<^verbatim>\<open>mode\<close> and \<^verbatim>\<open>mcp\<close> of run-full-cli.js on the word and a space. Text that is
  none of the words and starts with none of these prefixes is answered by one line,
  \<^verbatim>\<open>Unknown command: ...\<close>, and nothing else of the session changes.
\<close>

lemma unknown_command_rejected:
  assumes "prefix ''/'' input"
    and "trim (drop 1 input) \<notin> set [''exit'', ''quit'', ''help'', ''clear'', ''env'', ''models'', ''modes'', ''mcp'']"
    and "\<not> list_ex (\<lambda>p. prefix p (trim (drop 1 input)))
             [''config'', ''read'', ''write'', ''ls'', ''mode '', ''mcp '']"
  shows "dispatch_ts w input s = Awaiting (say (''Unknown command: '' @ trim (drop 1 input)) s)"
    and "dispatch_js w input t = Awaiting (say (''Unknown command: '' @ trim (drop 1 input)) t)"
  using assms by (simp_all add: dispatch_ts_def dispatch_js_def trim_slash)

lemma bogus_rejected:
  "dispatch_ts offline_world ''/bogus'' (startup_ts Map.empty ''/w'' None)
     = Awaiting (say ''Unknown command: bogus'' (startup_ts Map.empty ''/w'' None))"
  "dispatch_js offline_world ''/bogus'' (startup_js None)
     = Awaiting (say ''Unknown command: bogus'' (startup_js None))"
  using unknown_command_rejected [of "''/bogus''"]
  by (simp_all add: trim_def is_space_def)

lemma lsblk_parse:
  "prefix ''/'' ''/lsblk''" "trim (drop 1 ''/lsblk'') = ''ls'' @ ''blk''" "trim ''blk'' = ''blk''"
  "trim ''lsblk'' = ''lsblk''"
  by (simp_all add: trim_def is_space_def)

lemma lsblk_listing:
  "listFiles offline_world (config (startup_ts Map.empty ''/w'' None)) ''blk''
     = ''Error: Directory not found at /w/blk''"
  "listFiles offline_world (DEFAULT_CONFIG_js Map.empty ''/w'') ''blk''
     = ''Error: Directory not found at /w/blk''"
  by (simp_all add: listFiles_def full_path_def offline_world_def startup_ts_def
      DEFAULT_CONFIG_ts_def DEFAULT_CONFIG_js_def)

text \<open>
  Claim C7. An input line that begins with a slash and whose command word is not a
  command is to be answered by an error, with the history as long as before. The word
  \<^verbatim>\<open>lsblk\<close> is not a command, but it starts with \<^verbatim>\<open>ls\<close>: in both files the line \<^verbatim>\<open>/lsblk\<close> is
  run as \<^verbatim>\<open>/ls\<close> on the path \<^verbatim>\<open>blk\<close>. On a fresh session in the workspace \<^verbatim>\<open>/w\<close>, where no
  such directory exists, the program prints what \<^verbatim>\<open>listFiles\<close> returned and appends one
  entry to the empty history; it does not print \<^verbatim>\<open>Unknown command\<close>.
\<close>

theorem C7_prefix_of_command_word_evaluated:
  "dispatch_ts offline_world ''/lsblk'' (startup_ts Map.empty ''/w'' None)
     = Awaiting ((startup_ts Map.empty ''/w'' None)
         \<lparr>chatHistory := [(User, ''Directory listing of blk:'' @ [nl, nl] @
                                    ''Error: Directory not found at /w/blk'')],
          printed := [Line ''Error: Directory not found at /w/blk'']\<rparr>)
   \<and> dispatch_js offline_world ''/lsblk'' ((startup_js None)\<lparr>config := DEFAULT_CONFIG_js Map.empty ''/w''\<rparr>)
     = Awaiting ((startup_js None)
         \<lparr>config := DEFAULT_CONFIG_js Map.empty ''/w'',
          chatHistory := [(User, ''Directory listing of blk:'' @ [nl, nl] @
                                    ''Error: Directory not found at /w/blk'')],
          printed := [Line ''Error: Directory not found at /w/blk'']\<rparr>)"
proof -
  have a: "dispatch_ts offline_world ''/lsblk'' s = Awaiting (ls_command offline_world ''blk'' s)"
    for s :: session
    by (rule dispatch_ls(1)) (simp_all add: lsblk_parse)
  have b: "dispatch_js offline_world ''/lsblk'' t = Awaiting (ls_command offline_world ''blk'' t)"
    for t
    by (rule dispatch_ls(2)) (simp_all add: lsblk_parse)
  show ?thesis
    unfolding a b
    by (simp add: ls_command_def ls_path_def lsblk_parse Let_def lsblk_listing push_def say_def)
       (simp add: startup_ts_def startup_js_def)
qed

end
